theory Spec2Isabelle
  imports Complex_Main "HOL-Library.Monad_Syntax"
begin

section \<open>Strings and characters of the host language\<close>

text \<open>
  A string of the program is a \<^typ>\<open>string\<close>: a list of code units, here the
  code units 0 to 255 (ASCII and Latin-1).  Every pattern and keyword of the
  program is ASCII.  Numbers are the host language's doubles; they are modelled
  by \<open>jsnum\<close> below: the real number a finite double stands for, or one of the
  three special values, and every arithmetic operation rounds its exact result to
  the nearest double.  The sign of zero is not modelled.
\<close>

definition code :: "char \<Rightarrow> nat" where
  "code c = of_char c"

definition isUpperAscii :: "char \<Rightarrow> bool" where
  "isUpperAscii c = (65 \<le> code c \<and> code c \<le> 90)"

definition isLowerAscii :: "char \<Rightarrow> bool" where
  "isLowerAscii c = (97 \<le> code c \<and> code c \<le> 122)"

definition isDigit :: "char \<Rightarrow> bool" where
  "isDigit c = (48 \<le> code c \<and> code c \<le> 57)"

definition lowerAscii :: "char \<Rightarrow> char" where
  "lowerAscii c = (if isUpperAscii c then char_of (code c + 32) else c)"

definition upperAscii :: "char \<Rightarrow> char" where
  "upperAscii c = (if isLowerAscii c then char_of (code c - 32) else c)"

text \<open>\<open>\w\<close> of a pattern: letters, digits and the underscore.\<close>

definition isWordChar :: "char \<Rightarrow> bool" where
  "isWordChar c = (isUpperAscii c \<or> isLowerAscii c \<or> isDigit c \<or> c = CHR ''_'')"

definition isLineTerminator :: "char \<Rightarrow> bool" where
  "isLineTerminator c = (code c = 10 \<or> code c = 13)"

text \<open>White space and line terminators, as \<open>trim\<close> and \<open>\s\<close> see them: tab, line
  feed, vertical tab, form feed, carriage return, space and the no-break space.\<close>

definition isSpace :: "char \<Rightarrow> bool" where
  "isSpace c = (code c \<in> {9, 10, 11, 12, 13, 32, 160})"

definition trim :: "string \<Rightarrow> string" where
  "trim s = rev (dropWhile isSpace (rev (dropWhile isSpace s)))"

definition startsWith :: "string \<Rightarrow> string \<Rightarrow> bool" where
  "startsWith s p = (take (length p) s = p)"

text \<open>\<open>toLowerCase\<close>: the ASCII capitals and the Latin-1 capitals (all of 192 to 222
  but the multiplication sign 215) move down by 32.\<close>

definition toLowerChar :: "char \<Rightarrow> char" where
  "toLowerChar c =
     (if isUpperAscii c \<or> (192 \<le> code c \<and> code c \<le> 222 \<and> code c \<noteq> 215)
      then char_of (code c + 32) else c)"

definition toLowerCase :: "string \<Rightarrow> string" where
  "toLowerCase s = map toLowerChar s"

text \<open>\<open>toUpperCase\<close> on the strings it is applied to here, the hex strings built by
  the converter (ASCII).\<close>

definition toUpperCase :: "string \<Rightarrow> string" where
  "toUpperCase s = map upperAscii s"

fun includesStr :: "string \<Rightarrow> string \<Rightarrow> bool" where
  "includesStr [] p = (p = [])"
| "includesStr (c # cs) p = (startsWith (c # cs) p \<or> includesStr cs p)"

text \<open>\<open>indexOf\<close> and \<open>lastIndexOf\<close> return \<open>-1\<close> when the pattern does not occur.\<close>

fun indexFrom :: "nat \<Rightarrow> string \<Rightarrow> string \<Rightarrow> int" where
  "indexFrom i [] p = (if p = [] then int i else -1)"
| "indexFrom i (c # cs) p = (if startsWith (c # cs) p then int i else indexFrom (Suc i) cs p)"

fun lastIndexFrom :: "nat \<Rightarrow> string \<Rightarrow> string \<Rightarrow> int" where
  "lastIndexFrom i [] p = (if p = [] then int i else -1)"
| "lastIndexFrom i (c # cs) p =
     (let later = lastIndexFrom (Suc i) cs p
      in if later \<noteq> -1 then later else if startsWith (c # cs) p then int i else -1)"

definition lastIndexOf :: "string \<Rightarrow> string \<Rightarrow> int" where
  "lastIndexOf s p = lastIndexFrom 0 s p"

text \<open>\<open>replace(p, q)\<close> with a string pattern replaces the first occurrence only.\<close>

fun replaceFirst :: "string \<Rightarrow> string \<Rightarrow> string \<Rightarrow> string" where
  "replaceFirst [] p q = (if p = [] then q else [])"
| "replaceFirst (c # cs) p q =
     (if startsWith (c # cs) p then q @ drop (length p) (c # cs)
      else c # replaceFirst cs p q)"

text \<open>\<open>substring(i, j)\<close> for \<open>i \<le> j\<close>, both clamped to the length by \<open>take\<close> and \<open>drop\<close>.\<close>

definition substring :: "string \<Rightarrow> nat \<Rightarrow> nat \<Rightarrow> string" where
  "substring s i j = drop i (take j s)"

text \<open>\<open>split('\n')\<close>: the pieces between line feeds; the empty string gives one
  empty piece.\<close>

fun splitLines :: "string \<Rightarrow> string list" where
  "splitLines [] = [[]]"
| "splitLines (c # cs) =
     (if c = CHR 0x0A then [] # splitLines cs
      else (case splitLines cs of [] \<Rightarrow> [[c]] | l # ls \<Rightarrow> (c # l) # ls))"

definition padStart2 :: "string \<Rightarrow> string" where
  "padStart2 s = replicate (2 - length s) CHR ''0'' @ s"

section \<open>Regular expressions\<close>

text \<open>
  The patterns of the program are values of \<open>regex\<close>, and \<open>rx\<close> is a backtracking
  matcher: it returns every way a pattern matches at a position, in the order in
  which the host language's matcher tries them (the left alternative first, a
  greedy loop the longest first, a lazy loop the shortest first), so the head of
  the list is the match the program sees.  A state holds the input before the
  position (reversed), the input after it, and the captures made so far, the
  latest first.  As in the host language, an iteration of a loop that consumes
  nothing is not taken.  \<open>Cls neg rs\<close> is a character class of ranges, negated
  when \<open>neg\<close> holds.  No pattern of the program has a capture inside a loop.
\<close>

datatype regex =
    Chr char
  | Cls bool "(char \<times> char) list"
  | Eps
  | Seq regex regex
  | Alt regex regex
  | Star regex
  | Lazy regex
  | Grp nat regex
  | Bol
  | Eol
  | Wordb

record rxflags =
  ignoreCase :: bool
  multiline :: bool

type_synonym mstate = "string \<times> string \<times> (nat \<times> string) list"

definition inRange :: "char \<Rightarrow> char \<times> char \<Rightarrow> bool" where
  "inRange c rg = (code (fst rg) \<le> code c \<and> code c \<le> code (snd rg))"

text \<open>With the flag \<open>i\<close> a character matches when it or its other case does.\<close>

definition clsMember :: "bool \<Rightarrow> (char \<times> char) list \<Rightarrow> char \<Rightarrow> bool" where
  "clsMember ic rs c =
     (list_ex (inRange c) rs \<or>
      (ic \<and> (list_ex (inRange (lowerAscii c)) rs \<or> list_ex (inRange (upperAscii c)) rs)))"

definition chrEq :: "bool \<Rightarrow> char \<Rightarrow> char \<Rightarrow> bool" where
  "chrEq ic p c = (if ic then lowerAscii p = lowerAscii c else p = c)"

definition remaining :: "mstate \<Rightarrow> nat" where
  "remaining st = length (fst (snd st))"

primrec greedyLoop :: "(mstate \<Rightarrow> mstate list) \<Rightarrow> nat \<Rightarrow> mstate \<Rightarrow> mstate list" where
  "greedyLoop f 0 st = [st]"
| "greedyLoop f (Suc n) st =
     concat (map (greedyLoop f n) (filter (\<lambda>st'. remaining st' < remaining st) (f st))) @ [st]"

primrec lazyLoop :: "(mstate \<Rightarrow> mstate list) \<Rightarrow> nat \<Rightarrow> mstate \<Rightarrow> mstate list" where
  "lazyLoop f 0 st = [st]"
| "lazyLoop f (Suc n) st =
     st # concat (map (lazyLoop f n) (filter (\<lambda>st'. remaining st' < remaining st) (f st)))"

definition atWordBoundary :: "string \<Rightarrow> string \<Rightarrow> bool" where
  "atWordBoundary bef aft =
     ((case bef of [] \<Rightarrow> False | c # _ \<Rightarrow> isWordChar c) \<noteq>
      (case aft of [] \<Rightarrow> False | c # _ \<Rightarrow> isWordChar c))"

definition setCapture :: "nat \<Rightarrow> mstate \<Rightarrow> mstate \<Rightarrow> mstate" where
  "setCapture k st0 st =
     (case st of (bef, aft, caps) \<Rightarrow>
        (bef, aft, (k, rev (take (length bef - length (fst st0)) bef)) # caps))"

primrec rx :: "regex \<Rightarrow> rxflags \<Rightarrow> mstate \<Rightarrow> mstate list" where
  "rx (Chr p) fl st =
     (case st of (bef, [], caps) \<Rightarrow> []
      | (bef, c # aft, caps) \<Rightarrow> if chrEq (ignoreCase fl) p c then [(c # bef, aft, caps)] else [])"
| "rx (Cls neg rs) fl st =
     (case st of (bef, [], caps) \<Rightarrow> []
      | (bef, c # aft, caps) \<Rightarrow>
          if clsMember (ignoreCase fl) rs c \<noteq> neg then [(c # bef, aft, caps)] else [])"
| "rx Eps fl st = [st]"
| "rx (Seq r1 r2) fl st = concat (map (rx r2 fl) (rx r1 fl st))"
| "rx (Alt r1 r2) fl st = rx r1 fl st @ rx r2 fl st"
| "rx (Star r) fl st = greedyLoop (rx r fl) (remaining st) st"
| "rx (Lazy r) fl st = lazyLoop (rx r fl) (remaining st) st"
| "rx (Grp k r) fl st = map (setCapture k st) (rx r fl st)"
| "rx Bol fl st =
     (case st of (bef, aft, caps) \<Rightarrow>
        (case bef of [] \<Rightarrow> [st]
         | c # _ \<Rightarrow> if multiline fl \<and> isLineTerminator c then [st] else []))"
| "rx Eol fl st =
     (case st of (bef, aft, caps) \<Rightarrow>
        (case aft of [] \<Rightarrow> [st]
         | c # _ \<Rightarrow> if multiline fl \<and> isLineTerminator c then [st] else []))"
| "rx Wordb fl st =
     (case st of (bef, aft, caps) \<Rightarrow> if atWordBoundary bef aft then [st] else [])"

subsection \<open>Pattern syntax\<close>

fun seqs :: "regex list \<Rightarrow> regex" where
  "seqs [] = Eps"
| "seqs [r] = r"
| "seqs (r # rs) = Seq r (seqs rs)"

fun alts :: "regex list \<Rightarrow> regex" where
  "alts [] = Cls False []"
| "alts [r] = r"
| "alts (r # rs) = Alt r (alts rs)"

definition lit :: "string \<Rightarrow> regex" where
  "lit s = seqs (map Chr s)"

text \<open>\<open>r+\<close>, \<open>r?\<close>, \<open>r{n}\<close> and \<open>r{lo,hi}\<close>, all greedy.\<close>

definition plus :: "regex \<Rightarrow> regex" where
  "plus r = Seq r (Star r)"

definition opt :: "regex \<Rightarrow> regex" where
  "opt r = Alt r Eps"

primrec times :: "nat \<Rightarrow> regex \<Rightarrow> regex" where
  "times 0 r = Eps"
| "times (Suc n) r = Seq r (times n r)"

primrec uptoTimes :: "nat \<Rightarrow> regex \<Rightarrow> regex" where
  "uptoTimes 0 r = Eps"
| "uptoTimes (Suc n) r = opt (Seq r (uptoTimes n r))"

definition between :: "nat \<Rightarrow> nat \<Rightarrow> regex \<Rightarrow> regex" where
  "between lo hi r = Seq (times lo r) (uptoTimes (hi - lo) r)"

text \<open>\<open>\d\<close>, \<open>\s\<close>, \<open>\w\<close> and \<open>[\d.]\<close>.\<close>

definition digit :: regex where
  "digit = Cls False [(CHR ''0'', CHR ''9'')]"

definition space :: regex where
  "space = Cls False [(CHR 0x09, CHR 0x0D), (CHR 0x20, CHR 0x20), (CHR 0xA0, CHR 0xA0)]"

definition wordChar :: regex where
  "wordChar = Cls False [(CHR ''a'', CHR ''z''), (CHR ''A'', CHR ''Z''), (CHR ''0'', CHR ''9''),
     (CHR ''_'', CHR ''_'')]"

definition digitOrDot :: regex where
  "digitOrDot = Cls False [(CHR ''0'', CHR ''9''), (CHR ''.'', CHR ''.'')]"

definition spaces :: regex where
  "spaces = Star space"

definition noFlags :: rxflags where
  "noFlags = \<lparr>ignoreCase = False, multiline = False\<rparr>"

definition flagI :: rxflags where
  "flagI = \<lparr>ignoreCase = True, multiline = False\<rparr>"

definition flagIM :: rxflags where
  "flagIM = \<lparr>ignoreCase = True, multiline = True\<rparr>"

subsection \<open>Searching\<close>

text \<open>A match: its index, the matched text (\<open>match[0]\<close>) and the captures.\<close>

record rxmatch =
  index :: nat
  matched :: string
  groups :: "(nat \<times> string) list"

definition mkMatch :: "string \<Rightarrow> mstate \<Rightarrow> rxmatch" where
  "mkMatch bef st =
     \<lparr>index = length bef,
      matched = rev (take (length (fst st) - length bef) (fst st)),
      groups = snd (snd st)\<rparr>"

text \<open>\<open>match[k]\<close>: the capture of group \<open>k\<close>, \<open>None\<close> when the group took no part
  in the match (\<open>undefined\<close>).\<close>

definition grp :: "rxmatch \<Rightarrow> nat \<Rightarrow> string option" where
  "grp m k = map_of (groups m) k"

text \<open>The leftmost match at or after a position, with the position after it.\<close>

fun rxSearch :: "regex \<Rightarrow> rxflags \<Rightarrow> string \<Rightarrow> string \<Rightarrow> (rxmatch \<times> string \<times> string) option" where
  "rxSearch r fl bef aft =
     (case rx r fl (bef, aft, []) of
        st # _ \<Rightarrow> Some (mkMatch bef st, fst st, fst (snd st))
      | [] \<Rightarrow> (case aft of [] \<Rightarrow> None | c # aft' \<Rightarrow> rxSearch r fl (c # bef) aft'))"

text \<open>\<open>s.match(r)\<close> and \<open>r.exec(s)\<close> of a pattern without the flag \<open>g\<close>, and \<open>r.test(s)\<close>.\<close>

definition rxMatch :: "regex \<Rightarrow> rxflags \<Rightarrow> string \<Rightarrow> rxmatch option" where
  "rxMatch r fl s = map_option fst (rxSearch r fl [] s)"

definition rxTest :: "regex \<Rightarrow> rxflags \<Rightarrow> string \<Rightarrow> bool" where
  "rxTest r fl s = (rxMatch r fl s \<noteq> None)"

text \<open>
  The loop \<open>while ((match = r.exec(line)) !== null)\<close> over a pattern with the flag
  \<open>g\<close>, started with \<open>lastIndex = 0\<close>: each search starts where the match before
  ended.  A match that consumes nothing leaves \<open>lastIndex\<close> where it is, and the
  loop of the program then never ends: that is the result \<open>None\<close>.
\<close>

function rxExecLoop :: "regex \<Rightarrow> rxflags \<Rightarrow> string \<Rightarrow> string \<Rightarrow> rxmatch list option" where
  "rxExecLoop r fl bef aft =
     (case rxSearch r fl bef aft of
        None \<Rightarrow> Some []
      | Some (m, bef', aft') \<Rightarrow>
          if length aft' < length aft
          then map_option (Cons m) (rxExecLoop r fl bef' aft')
          else None)"
  by pat_completeness auto
termination
  by (relation "measure (\<lambda>(r, fl, bef, aft). length aft)") auto

declare rxExecLoop.simps [simp del]

definition execAll :: "regex \<Rightarrow> rxflags \<Rightarrow> string \<Rightarrow> rxmatch list option" where
  "execAll r fl line = rxExecLoop r fl [] line"

section \<open>Numbers\<close>

subsection \<open>Rounding to a double\<close>

text \<open>
  A finite double is \<open>k * 2^q\<close> with \<open>|k| < 2^53\<close> and \<open>-1074 \<le> q \<le> 971\<close>.  The exact
  result \<open>x\<close> of an operation is rounded to the nearest of them, a tie to the one
  whose \<open>k\<close> is even: for \<open>2^e \<le> |x| < 2^(e+1)\<close> the spacing of the doubles around \<open>x\<close>
  is \<open>2^q\<close> with \<open>q = max e (-1022) - 52\<close>, and \<open>x / 2^q\<close> is rounded to an integer.
  A result beyond the largest double is an infinity.
\<close>

text \<open>The number of binary digits of a positive integer.\<close>

function bitLength :: "int \<Rightarrow> nat" where
  "bitLength n = (if n \<le> 0 then 0 else Suc (bitLength (n div 2)))"
  by pat_completeness auto

termination
  by (relation "measure nat") auto

declare bitLength.simps [simp del]

definition pow2 :: "int \<Rightarrow> real" where
  "pow2 e = (if 0 \<le> e then 2 ^ nat e else 1 / 2 ^ nat (- e))"

text \<open>The exponent \<open>e\<close> of a positive \<open>x\<close>: \<open>2^e \<le> x < 2^(e+1)\<close>.\<close>

definition expo :: "real \<Rightarrow> int" where
  "expo x = (if 1 \<le> x then int (bitLength \<lfloor>x\<rfloor>) - 1
             else - int (bitLength (\<lceil>1 / x\<rceil> - 1)))"

definition roundHalfEven :: "real \<Rightarrow> int" where
  "roundHalfEven m =
     (let n = \<lfloor>m\<rfloor>; f = m - of_int n
      in if f < 1 / 2 then n else if 1 / 2 < f then n + 1 else if even n then n else n + 1)"

definition nearest :: "real \<Rightarrow> real" where
  "nearest x = (let q = max (expo x) (- 1022) - 52 in of_int (roundHalfEven (x / pow2 q)) * pow2 q)"

definition dblR :: "real \<Rightarrow> real" where
  "dblR x = (if x < 0 then - nearest (- x) else if x = 0 then 0 else nearest x)"

definition maxDouble :: real where
  "maxDouble = (2 ^ 53 - 1) * 2 ^ 971"

subsection \<open>Values and operations\<close>

text \<open>
  A number, or \<open>undefined\<close> where the program reads a property that an object
  does not have.  In arithmetic and in \<open>Math\<close> functions \<open>undefined\<close> is \<open>NaN\<close>.
\<close>

datatype jsnum = Fin real | PInf | NInf | NaN | Undef

definition dbl :: "real \<Rightarrow> jsnum" where
  "dbl x = (let y = dblR x
            in if maxDouble < y then PInf else if y < - maxDouble then NInf else Fin y)"

text \<open>A decimal literal of the program text denotes the double nearest to it.\<close>

definition num :: "real \<Rightarrow> jsnum" where
  "num x = dbl x"

fun jadd :: "jsnum \<Rightarrow> jsnum \<Rightarrow> jsnum" where
  "jadd (Fin x) (Fin y) = dbl (x + y)"
| "jadd Undef _ = NaN"
| "jadd _ Undef = NaN"
| "jadd NaN _ = NaN"
| "jadd _ NaN = NaN"
| "jadd PInf NInf = NaN"
| "jadd NInf PInf = NaN"
| "jadd PInf _ = PInf"
| "jadd _ PInf = PInf"
| "jadd NInf _ = NInf"
| "jadd _ NInf = NInf"

fun jneg :: "jsnum \<Rightarrow> jsnum" where
  "jneg (Fin x) = Fin (- x)"
| "jneg PInf = NInf"
| "jneg NInf = PInf"
| "jneg NaN = NaN"
| "jneg Undef = NaN"

definition jsub :: "jsnum \<Rightarrow> jsnum \<Rightarrow> jsnum" where
  "jsub x y = jadd x (jneg y)"

text \<open>The sign of a number that is not \<open>NaN\<close>: \<open>-1\<close>, \<open>0\<close> or \<open>1\<close>.\<close>

fun jsign :: "jsnum \<Rightarrow> int" where
  "jsign (Fin x) = (if x < 0 then -1 else if x = 0 then 0 else 1)"
| "jsign PInf = 1"
| "jsign NInf = -1"
| "jsign NaN = 0"
| "jsign Undef = 0"

definition infOfSign :: "int \<Rightarrow> jsnum" where
  "infOfSign sg = (if sg = 0 then NaN else if sg < 0 then NInf else PInf)"

fun jmul :: "jsnum \<Rightarrow> jsnum \<Rightarrow> jsnum" where
  "jmul (Fin x) (Fin y) = dbl (x * y)"
| "jmul Undef _ = NaN"
| "jmul _ Undef = NaN"
| "jmul NaN _ = NaN"
| "jmul _ NaN = NaN"
| "jmul x y = infOfSign (jsign x * jsign y)"

text \<open>Division: a finite number by zero is an infinity of its sign (zero is taken
  as positive), zero by zero is \<open>NaN\<close>.\<close>

fun jdiv :: "jsnum \<Rightarrow> jsnum \<Rightarrow> jsnum" where
  "jdiv (Fin x) (Fin y) = (if y = 0 then infOfSign (jsign (Fin x)) else dbl (x / y))"
| "jdiv Undef _ = NaN"
| "jdiv _ Undef = NaN"
| "jdiv NaN _ = NaN"
| "jdiv _ NaN = NaN"
| "jdiv (Fin x) _ = Fin 0"
| "jdiv x (Fin y) = infOfSign (jsign x * (if y < 0 then -1 else 1))"
| "jdiv _ _ = NaN"

text \<open>The remainder \<open>%\<close> has the sign of the dividend; it is a double without
  rounding.\<close>

fun jrem :: "jsnum \<Rightarrow> jsnum \<Rightarrow> jsnum" where
  "jrem (Fin x) (Fin y) =
     (if y = 0 then NaN
      else Fin (x - y * of_int (if 0 \<le> x / y then \<lfloor>x / y\<rfloor> else \<lceil>x / y\<rceil>)))"
| "jrem (Fin x) PInf = Fin x"
| "jrem (Fin x) NInf = Fin x"
| "jrem _ _ = NaN"

text \<open>Comparisons with \<open>NaN\<close> or \<open>undefined\<close> are false.\<close>

fun jlt :: "jsnum \<Rightarrow> jsnum \<Rightarrow> bool" where
  "jlt (Fin x) (Fin y) = (x < y)"
| "jlt Undef _ = False"
| "jlt _ Undef = False"
| "jlt NaN _ = False"
| "jlt _ NaN = False"
| "jlt NInf y = (y \<noteq> NInf)"
| "jlt x PInf = (x \<noteq> PInf)"
| "jlt _ _ = False"

definition jgt :: "jsnum \<Rightarrow> jsnum \<Rightarrow> bool" where
  "jgt x y = jlt y x"

text \<open>Strict equality \<open>===\<close>: \<open>NaN\<close> equals nothing.\<close>

definition jeq :: "jsnum \<Rightarrow> jsnum \<Rightarrow> bool" where
  "jeq x y = (x \<noteq> NaN \<and> x = y)"

definition isNaN :: "jsnum \<Rightarrow> bool" where
  "isNaN x = (x = NaN \<or> x = Undef)"

definition jmax :: "jsnum \<Rightarrow> jsnum \<Rightarrow> jsnum" where
  "jmax x y = (if isNaN x \<or> isNaN y then NaN else if jlt x y then y else x)"

definition jmin :: "jsnum \<Rightarrow> jsnum \<Rightarrow> jsnum" where
  "jmin x y = (if isNaN x \<or> isNaN y then NaN else if jlt y x then y else x)"

fun jabs :: "jsnum \<Rightarrow> jsnum" where
  "jabs (Fin x) = Fin \<bar>x\<bar>"
| "jabs NaN = NaN"
| "jabs Undef = NaN"
| "jabs _ = PInf"

text \<open>\<open>Math.round\<close> rounds to the nearest integer, a half upwards; the result is
  a double without rounding.\<close>

fun jround :: "jsnum \<Rightarrow> jsnum" where
  "jround (Fin x) = Fin (of_int \<lfloor>x + 1 / 2\<rfloor>)"
| "jround Undef = NaN"
| "jround x = x"

subsection \<open>Numbers from strings\<close>

definition digitVal :: "char \<Rightarrow> nat" where
  "digitVal c =
     (if isDigit c then code c - 48
      else if isLowerAscii c then code c - 87
      else if isUpperAscii c then code c - 55
      else 36)"

definition digitsValue :: "nat \<Rightarrow> string \<Rightarrow> int" where
  "digitsValue radix ds = foldl (\<lambda>acc c. acc * int radix + int (digitVal c)) 0 ds"

text \<open>
  \<open>parseInt(s, radix)\<close> for radix 10 and 16: leading white space is skipped, a
  sign is read, with radix 16 a prefix \<open>0x\<close> is dropped, and the longest run of
  digits of the radix is the value, rounded to a double; with no digit the result
  is \<open>NaN\<close>.
\<close>

definition parseInt :: "string \<Rightarrow> nat \<Rightarrow> jsnum" where
  "parseInt str radix =
     (let s0 = dropWhile isSpace str;
          negative = (s0 \<noteq> [] \<and> hd s0 = CHR ''-'');
          s1 = (if s0 \<noteq> [] \<and> (hd s0 = CHR ''-'' \<or> hd s0 = CHR ''+'') then tl s0 else s0);
          s2 = (if radix = 16 \<and> (startsWith s1 ''0x'' \<or> startsWith s1 ''0X'')
                then drop 2 s1 else s1);
          ds = takeWhile (\<lambda>c. digitVal c < radix) s2
      in if ds = [] then NaN
         else dbl (if negative then - of_int (digitsValue radix ds)
                   else of_int (digitsValue radix ds)))"

text \<open>
  \<open>parseFloat\<close> on the strings its callers pass, which are captures of the class
  \<open>[\d.]+\<close>: the digits, then a point and more digits; no sign and no exponent
  can occur.  The value is the double nearest to the decimal.  A string that starts
  with a point not followed by a digit gives \<open>NaN\<close>.
\<close>

definition parseFloat :: "string \<Rightarrow> jsnum" where
  "parseFloat str =
     (let ip = takeWhile isDigit str;
          rest = dropWhile isDigit str;
          fp = (case rest of [] \<Rightarrow> [] | c # cs \<Rightarrow> if c = CHR ''.'' then takeWhile isDigit cs else [])
      in if ip = [] \<and> fp = [] then NaN
         else dbl (of_int (digitsValue 10 ip) + of_int (digitsValue 10 fp) / 10 ^ length fp))"

subsection \<open>Numbers to strings\<close>

definition hexChar :: "nat \<Rightarrow> char" where
  "hexChar d = (if d < 10 then char_of (48 + d) else char_of (87 + d))"

fun natToString :: "nat \<Rightarrow> nat \<Rightarrow> string" where
  "natToString radix n =
     (if radix < 2 \<or> n < radix then [hexChar n]
      else natToString radix (n div radix) @ [hexChar (n mod radix)])"

declare natToString.simps [simp del]

definition intToString :: "nat \<Rightarrow> int \<Rightarrow> string" where
  "intToString radix i =
     (if i < 0 then CHR ''-'' # natToString radix (nat (- i)) else natToString radix (nat i))"

text \<open>\<open>toString(16)\<close> of a number; it is applied to results of \<open>Math.round\<close> only,
  which are integers or special values, and never \<open>undefined\<close>.\<close>

fun toString16 :: "jsnum \<Rightarrow> string" where
  "toString16 (Fin x) = intToString 16 \<lfloor>x\<rfloor>"
| "toString16 PInf = ''Infinity''"
| "toString16 NInf = ''-Infinity''"
| "toString16 NaN = ''NaN''"
| "toString16 Undef = ''NaN''"

section \<open>utils/colorConversion\<close>

text \<open>
  The records \<open>RgbColor\<close> and \<open>HslColor\<close>; the fields \<open>r g b a\<close> and \<open>h s l a\<close> of the
  program are \<open>red green blue alpha\<close> and \<open>hue sat light halpha\<close>; an absent alpha
  (\<open>undefined\<close>) is \<open>None\<close>.
\<close>

record RgbColor =
  red :: jsnum
  green :: jsnum
  blue :: jsnum
  alpha :: "jsnum option"

record HslColor =
  hue :: jsnum
  sat :: jsnum
  light :: jsnum
  halpha :: "jsnum option"

definition parseHex :: "string \<Rightarrow> RgbColor option" where
  "parseHex hex =
     (let cleanHex = replaceFirst hex ''#'' ''''
      in if length cleanHex = 3 then
           Some \<lparr>red = parseInt [cleanHex ! 0, cleanHex ! 0] 16,
                 green = parseInt [cleanHex ! 1, cleanHex ! 1] 16,
                 blue = parseInt [cleanHex ! 2, cleanHex ! 2] 16,
                 alpha = None\<rparr>
         else if length cleanHex = 6 then
           Some \<lparr>red = parseInt (substring cleanHex 0 2) 16,
                 green = parseInt (substring cleanHex 2 4) 16,
                 blue = parseInt (substring cleanHex 4 6) 16,
                 alpha = None\<rparr>
         else if length cleanHex = 8 then
           Some \<lparr>red = parseInt (substring cleanHex 0 2) 16,
                 green = parseInt (substring cleanHex 2 4) 16,
                 blue = parseInt (substring cleanHex 4 6) 16,
                 alpha = Some (jdiv (parseInt (substring cleanHex 6 8) 16) (Fin 255))\<rparr>
         else None)"

text \<open>\<open>/rgba?\s*\(\s*(\d+)\s*,\s*(\d+)\s*,\s*(\d+)(?:\s*,\s*([\d.]+))?\s*\)/\<close>\<close>

definition parseRgb_re :: regex where
  "parseRgb_re = seqs [lit ''rgb'', opt (Chr CHR ''a''), spaces, Chr CHR ''('', spaces,
     Grp 1 (plus digit), spaces, Chr CHR '','', spaces,
     Grp 2 (plus digit), spaces, Chr CHR '','', spaces,
     Grp 3 (plus digit),
     opt (seqs [spaces, Chr CHR '','', spaces, Grp 4 (plus digitOrDot)]),
     spaces, Chr CHR '')'']"

text \<open>\<open>/hsla?\s*\(\s*(\d+)\s*,\s*(\d+)%\s*,\s*(\d+)%(?:\s*,\s*([\d.]+))?\s*\)/\<close>\<close>

definition parseHsl_re :: regex where
  "parseHsl_re = seqs [lit ''hsl'', opt (Chr CHR ''a''), spaces, Chr CHR ''('', spaces,
     Grp 1 (plus digit), spaces, Chr CHR '','', spaces,
     Grp 2 (plus digit), Chr CHR ''%'', spaces, Chr CHR '','', spaces,
     Grp 3 (plus digit), Chr CHR ''%'',
     opt (seqs [spaces, Chr CHR '','', spaces, Grp 4 (plus digitOrDot)]),
     spaces, Chr CHR '')'']"

text \<open>\<open>match[k] ?? '0'\<close>, and the alpha \<open>match[4] ? parseFloat(match[4]) : undefined\<close>
  (a capture of \<open>[\d.]+\<close> is not empty, so it is truthy when defined).\<close>

definition grpOr0 :: "rxmatch \<Rightarrow> nat \<Rightarrow> string" where
  "grpOr0 m k = (case grp m k of None \<Rightarrow> ''0'' | Some t \<Rightarrow> t)"

definition alphaOf :: "rxmatch \<Rightarrow> jsnum option" where
  "alphaOf m = (case grp m 4 of None \<Rightarrow> None
                | Some t \<Rightarrow> if t = [] then None else Some (parseFloat t))"

definition parseRgb :: "string \<Rightarrow> RgbColor option" where
  "parseRgb rgb =
     (case rxMatch parseRgb_re noFlags rgb of
        None \<Rightarrow> None
      | Some m \<Rightarrow>
          Some \<lparr>red = parseInt (grpOr0 m 1) 10,
                green = parseInt (grpOr0 m 2) 10,
                blue = parseInt (grpOr0 m 3) 10,
                alpha = alphaOf m\<rparr>)"

definition hslToRgb :: "HslColor \<Rightarrow> RgbColor" where
  "hslToRgb hsl =
     (let hNorm = jdiv (hue hsl) (Fin 360);
          sNorm = jdiv (sat hsl) (Fin 100);
          lNorm = jdiv (light hsl) (Fin 100);
          c = jmul (jsub (Fin 1) (jabs (jsub (jmul (Fin 2) lNorm) (Fin 1)))) sNorm;
          x = jmul c (jsub (Fin 1) (jabs (jsub (jrem (jmul hNorm (Fin 6)) (Fin 2)) (Fin 1))));
          m = jsub lNorm (jdiv c (Fin 2));
          rgb1 = (if jlt hNorm (jdiv (Fin 1) (Fin 6)) then (c, x, Fin 0)
                  else if jlt hNorm (jdiv (Fin 2) (Fin 6)) then (x, c, Fin 0)
                  else if jlt hNorm (jdiv (Fin 3) (Fin 6)) then (Fin 0, c, x)
                  else if jlt hNorm (jdiv (Fin 4) (Fin 6)) then (Fin 0, x, c)
                  else if jlt hNorm (jdiv (Fin 5) (Fin 6)) then (x, Fin 0, c)
                  else (c, Fin 0, x))
      in case rgb1 of (r1, g1, b1) \<Rightarrow>
           \<lparr>red = jround (jmul (jadd r1 m) (Fin 255)),
            green = jround (jmul (jadd g1 m) (Fin 255)),
            blue = jround (jmul (jadd b1 m) (Fin 255)),
            alpha = halpha hsl\<rparr>)"

definition parseHsl :: "string \<Rightarrow> RgbColor option" where
  "parseHsl hsl =
     (case rxMatch parseHsl_re noFlags hsl of
        None \<Rightarrow> None
      | Some m \<Rightarrow>
          Some (hslToRgb \<lparr>hue = parseInt (grpOr0 m 1) 10,
                         sat = parseInt (grpOr0 m 2) 10,
                         light = parseInt (grpOr0 m 3) 10,
                         halpha = alphaOf m\<rparr>))"

definition parseColor :: "string \<Rightarrow> RgbColor option" where
  "parseColor colorValue =
     (let trimmed = trim colorValue
      in if startsWith trimmed ''#'' then parseHex trimmed
         else if startsWith trimmed ''rgb'' then parseRgb trimmed
         else if startsWith trimmed ''hsl'' then parseHsl trimmed
         else None)"

datatype ColorFormat = Hex | Rgb | Rgba | Hsl | Hsla | Named | Unknown

definition detectColorFormat :: "string \<Rightarrow> ColorFormat" where
  "detectColorFormat colorValue =
     (let trimmed = trim colorValue
      in if startsWith trimmed ''#'' then Hex
         else if startsWith trimmed ''rgb('' then Rgb
         else if startsWith trimmed ''rgba('' then Rgba
         else if startsWith trimmed ''hsl('' then Hsl
         else if startsWith trimmed ''hsla('' then Hsla
         else Unknown)"

definition toHex :: "jsnum \<Rightarrow> string" where
  "toHex n = padStart2 (toString16 (jround n))"

definition rgbToHex :: "RgbColor \<Rightarrow> string" where
  "rgbToHex rgb =
     (let hex = ''#'' @ toHex (red rgb) @ toHex (green rgb) @ toHex (blue rgb)
      in case alpha rgb of
           None \<Rightarrow> hex
         | Some al \<Rightarrow>
             if jlt al (Fin 1)
             then hex @ padStart2 (toString16 (jround (jmul al (Fin 255))))
             else hex)"

definition max3 :: "jsnum \<Rightarrow> jsnum \<Rightarrow> jsnum \<Rightarrow> jsnum" where
  "max3 x y z = jmax (jmax x y) z"

definition min3 :: "jsnum \<Rightarrow> jsnum \<Rightarrow> jsnum \<Rightarrow> jsnum" where
  "min3 x y z = jmin (jmin x y) z"

text \<open>\<open>rgbToHsl\<close>; the \<open>switch (max)\<close> compares with \<open>===\<close> and takes the first case
  that is equal, and none when \<open>max\<close> is \<open>NaN\<close>.\<close>

definition rgbToHsl :: "RgbColor \<Rightarrow> HslColor" where
  "rgbToHsl rgb =
     (let rNorm = jdiv (red rgb) (Fin 255);
          gNorm = jdiv (green rgb) (Fin 255);
          bNorm = jdiv (blue rgb) (Fin 255);
          mx = max3 rNorm gNorm bNorm;
          mn = min3 rNorm gNorm bNorm;
          diff = jsub mx mn;
          lv = jdiv (jadd mx mn) (Fin 2);
          sv = (if diff \<noteq> Fin 0
                then (if jgt lv (Fin (1 / 2))
                      then jdiv diff (jsub (jsub (Fin 2) mx) mn)
                      else jdiv diff (jadd mx mn))
                else Fin 0);
          hv = (if diff \<noteq> Fin 0
                then (if jeq mx rNorm then
                        jdiv (jadd (jdiv (jsub gNorm bNorm) diff)
                                   (if jlt gNorm bNorm then Fin 6 else Fin 0)) (Fin 6)
                      else if jeq mx gNorm then
                        jdiv (jadd (jdiv (jsub bNorm rNorm) diff) (Fin 2)) (Fin 6)
                      else if jeq mx bNorm then
                        jdiv (jadd (jdiv (jsub rNorm gNorm) diff) (Fin 4)) (Fin 6)
                      else Fin 0)
                else Fin 0)
      in \<lparr>hue = jround (jmul hv (Fin 360)),
          sat = jround (jmul sv (Fin 100)),
          light = jround (jmul lv (Fin 100)),
          halpha = alpha rgb\<rparr>)"

section \<open>types\<close>

text \<open>
  The record \<open>Color\<close>; its fields \<open>value\<close>, \<open>format\<close> and \<open>context\<close> are \<open>val\<close>,
  \<open>fmt\<close> and \<open>ctx\<close> here, and an absent optional field is \<open>None\<close>.
\<close>

record Position =
  line :: nat
  column :: nat

record Color =
  val :: string
  fmt :: ColorFormat
  position :: "Position option"
  ctx :: "string option"

section \<open>conversion/colorConverter\<close>

text \<open>
  The options; \<open>targetFormat\<close> is the string the caller passes (its declared type
  lists six of them).  The four optional flags are only tested for truth, so an
  absent one is \<open>False\<close>.
\<close>

record ColorConversionOptions =
  targetFormat :: string
  preserveAlpha :: bool
  roundValues :: bool
  uppercase :: bool
  shortHex :: bool

record ColorConversionResult =
  original :: Color
  converted :: string
  format :: string
  timestamp :: int
  success :: bool
  error :: "string option"

type_synonym ColorSpace = RgbColor

type_synonym HSLSpace = HslColor

text \<open>Lower-case hex digits: the parser lower-cases its input before matching.\<close>

definition hexDigitLower :: regex where
  "hexDigitLower = Cls False [(CHR ''0'', CHR ''9''), (CHR ''a'', CHR ''f'')]"

text \<open>\<open>/^#([0-9a-f]{3,8})$/i\<close>\<close>

definition hex_re_cc :: regex where
  "hex_re_cc = seqs [Bol, Chr CHR ''#'', Grp 1 (between 3 8 hexDigitLower), Eol]"

text \<open>\<open>/^rgb\(\s*(\d+)\s*,\s*(\d+)\s*,\s*(\d+)\s*\)$/\<close>\<close>

definition rgb_re_cc :: regex where
  "rgb_re_cc = seqs [Bol, lit ''rgb('', spaces,
     Grp 1 (plus digit), spaces, Chr CHR '','', spaces,
     Grp 2 (plus digit), spaces, Chr CHR '','', spaces,
     Grp 3 (plus digit), spaces, Chr CHR '')'', Eol]"

text \<open>\<open>/^rgba\(\s*(\d+)\s*,\s*(\d+)\s*,\s*(\d+)\s*,\s*([\d.]+)\s*\)$/\<close>\<close>

definition rgba_re_cc :: regex where
  "rgba_re_cc = seqs [Bol, lit ''rgba('', spaces,
     Grp 1 (plus digit), spaces, Chr CHR '','', spaces,
     Grp 2 (plus digit), spaces, Chr CHR '','', spaces,
     Grp 3 (plus digit), spaces, Chr CHR '','', spaces,
     Grp 4 (plus digitOrDot), spaces, Chr CHR '')'', Eol]"

text \<open>\<open>/^hsl\(\s*(\d+)\s*,\s*(\d+)%\s*,\s*(\d+)%\s*\)$/\<close>\<close>

definition hsl_re_cc :: regex where
  "hsl_re_cc = seqs [Bol, lit ''hsl('', spaces,
     Grp 1 (plus digit), spaces, Chr CHR '','', spaces,
     Grp 2 (plus digit), Chr CHR ''%'', spaces, Chr CHR '','', spaces,
     Grp 3 (plus digit), Chr CHR ''%'', spaces, Chr CHR '')'', Eol]"

text \<open>\<open>/^hsla\(\s*(\d+)\s*,\s*(\d+)%\s*,\s*(\d+)%\s*,\s*([\d.]+)\s*\)$/\<close>\<close>

definition hsla_re_cc :: regex where
  "hsla_re_cc = seqs [Bol, lit ''hsla('', spaces,
     Grp 1 (plus digit), spaces, Chr CHR '','', spaces,
     Grp 2 (plus digit), Chr CHR ''%'', spaces, Chr CHR '','', spaces,
     Grp 3 (plus digit), Chr CHR ''%'', spaces, Chr CHR '','', spaces,
     Grp 4 (plus digitOrDot), spaces, Chr CHR '')'', Eol]"

text \<open>A capture that is defined and not empty (truthy).\<close>

definition grpT :: "rxmatch option \<Rightarrow> nat \<Rightarrow> string option" where
  "grpT mo k = (case mo of None \<Rightarrow> None
                | Some m \<Rightarrow> (case grp m k of None \<Rightarrow> None
                             | Some t \<Rightarrow> if t = [] then None else Some t))"

definition parseHexToRGB :: "string \<Rightarrow> ColorSpace option" where
  "parseHexToRGB hex0 =
     (let hex = (if length hex0 = 3 then concat (map (\<lambda>ch. [ch, ch]) hex0) else hex0)
      in if length hex = 6 then
           Some \<lparr>red = parseInt (substring hex 0 2) 16,
                 green = parseInt (substring hex 2 4) 16,
                 blue = parseInt (substring hex 4 6) 16,
                 alpha = None\<rparr>
         else if length hex = 8 then
           Some \<lparr>red = parseInt (substring hex 0 2) 16,
                 green = parseInt (substring hex 2 4) 16,
                 blue = parseInt (substring hex 4 6) 16,
                 alpha = Some (jdiv (parseInt (substring hex 6 8) 16) (Fin 255))\<rparr>
         else None)"

definition hue2rgb :: "jsnum \<Rightarrow> jsnum \<Rightarrow> jsnum \<Rightarrow> jsnum" where
  "hue2rgb p q t0 =
     (let t1 = (if jlt t0 (Fin 0) then jadd t0 (Fin 1) else t0);
          t = (if jgt t1 (Fin 1) then jsub t1 (Fin 1) else t1)
      in if jlt t (jdiv (Fin 1) (Fin 6)) then jadd p (jmul (jmul (jsub q p) (Fin 6)) t)
         else if jlt t (jdiv (Fin 1) (Fin 2)) then q
         else if jlt t (jdiv (Fin 2) (Fin 3))
           then jadd p (jmul (jmul (jsub q p) (jsub (jdiv (Fin 2) (Fin 3)) t)) (Fin 6))
         else p)"

definition hslToRgb_cc :: "jsnum \<Rightarrow> jsnum \<Rightarrow> jsnum \<Rightarrow> ColorSpace option" where
  "hslToRgb_cc h0 s0 l0 =
     (let h = jdiv h0 (Fin 360);
          s = jdiv s0 (Fin 100);
          l = jdiv l0 (Fin 100)
      in if jeq s (Fin 0) then
           (let v = jround (jmul l (Fin 255))
            in Some \<lparr>red = v, green = v, blue = v, alpha = None\<rparr>)
         else
           (let q = (if jlt l (Fin (1 / 2)) then jmul l (jadd (Fin 1) s)
                     else jsub (jadd l s) (jmul l s));
                p = jsub (jmul (Fin 2) l) q
            in Some \<lparr>red = jround (jmul (hue2rgb p q (jadd h (jdiv (Fin 1) (Fin 3)))) (Fin 255)),
                      green = jround (jmul (hue2rgb p q h) (Fin 255)),
                      blue = jround (jmul (hue2rgb p q (jsub h (jdiv (Fin 1) (Fin 3)))) (Fin 255)),
                      alpha = None\<rparr>))"

definition rgbOf :: "real \<Rightarrow> real \<Rightarrow> real \<Rightarrow> ColorSpace" where
  "rgbOf x y z = \<lparr>red = Fin x, green = Fin y, blue = Fin z, alpha = None\<rparr>"

text \<open>
  The table of named colours is an object literal, and the lookup
  \<open>namedColors[name] || null\<close> also finds the two properties every object
  inherits whose names are lower case, \<open>constructor\<close> and \<open>__proto__\<close>: objects
  without the fields \<open>r g b a\<close>.  Reading such a field gives \<open>undefined\<close>.
\<close>

definition namedColors_cc :: "(string \<times> ColorSpace) list" where
  "namedColors_cc =
     [(''black'', rgbOf 0 0 0),
      (''white'', rgbOf 255 255 255),
      (''red'', rgbOf 255 0 0),
      (''green'', rgbOf 0 128 0),
      (''blue'', rgbOf 0 0 255),
      (''yellow'', rgbOf 255 255 0),
      (''cyan'', rgbOf 0 255 255),
      (''magenta'', rgbOf 255 0 255),
      (''silver'', rgbOf 192 192 192),
      (''gray'', rgbOf 128 128 128),
      (''maroon'', rgbOf 128 0 0),
      (''olive'', rgbOf 128 128 0),
      (''lime'', rgbOf 0 255 0),
      (''aqua'', rgbOf 0 255 255),
      (''teal'', rgbOf 0 128 128),
      (''navy'', rgbOf 0 0 128),
      (''fuchsia'', rgbOf 255 0 255),
      (''purple'', rgbOf 128 0 128),
      (''transparent'', (rgbOf 0 0 0)\<lparr>alpha := Some (Fin 0)\<rparr>),
      (''constructor'', \<lparr>red = Undef, green = Undef, blue = Undef, alpha = None\<rparr>),
      (''__proto__'', \<lparr>red = Undef, green = Undef, blue = Undef, alpha = None\<rparr>)]"

definition getNamedColorRGB :: "string \<Rightarrow> ColorSpace option" where
  "getNamedColorRGB colorName = map_of namedColors_cc (toLowerCase colorName)"

definition parseColorToRGB :: "string \<Rightarrow> ColorSpace option" where
  "parseColorToRGB colorString =
     (let color = toLowerCase (trim colorString);
          hexMatch = rxMatch hex_re_cc flagI color
      in case grpT hexMatch 1 of
           Some h \<Rightarrow> parseHexToRGB h
         | None \<Rightarrow>
      (let rgbMatch = rxMatch rgb_re_cc noFlags color
       in case (grpT rgbMatch 1, grpT rgbMatch 2, grpT rgbMatch 3) of
            (Some c1, Some c2, Some c3) \<Rightarrow>
              Some \<lparr>red = parseInt c1 10, green = parseInt c2 10, blue = parseInt c3 10,
                    alpha = None\<rparr>
          | _ \<Rightarrow>
      (let rgbaMatch = rxMatch rgba_re_cc noFlags color
       in case (grpT rgbaMatch 1, grpT rgbaMatch 2, grpT rgbaMatch 3, grpT rgbaMatch 4) of
            (Some c1, Some c2, Some c3, Some c4) \<Rightarrow>
              Some \<lparr>red = parseInt c1 10, green = parseInt c2 10, blue = parseInt c3 10,
                    alpha = Some (parseFloat c4)\<rparr>
          | _ \<Rightarrow>
      (let hslMatch = rxMatch hsl_re_cc noFlags color
       in case (grpT hslMatch 1, grpT hslMatch 2, grpT hslMatch 3) of
            (Some c1, Some c2, Some c3) \<Rightarrow>
              hslToRgb_cc (parseInt c1 10) (parseInt c2 10) (parseInt c3 10)
          | _ \<Rightarrow>
      (let hslaMatch = rxMatch hsla_re_cc noFlags color
       in case (grpT hslaMatch 1, grpT hslaMatch 2, grpT hslaMatch 3, grpT hslaMatch 4) of
            (Some c1, Some c2, Some c3, Some c4) \<Rightarrow>
              (case hslToRgb_cc (parseInt c1 10) (parseInt c2 10) (parseInt c3 10) of
                 Some rgb \<Rightarrow> Some (rgb\<lparr>alpha := Some (parseFloat c4)\<rparr>)
               | None \<Rightarrow> None)
          | _ \<Rightarrow> getNamedColorRGB color)))))"

definition toHex_cc :: "jsnum \<Rightarrow> string" where
  "toHex_cc v =
     (let hex = toString16 (jround (jmax (Fin 0) (jmin (Fin 255) v)))
      in if length hex = 1 then CHR ''0'' # hex else hex)"

definition rgbToHex_cc :: "ColorSpace \<Rightarrow> ColorConversionOptions \<Rightarrow> string" where
  "rgbToHex_cc rgb options =
     (let hex0 = ''#'' @ toHex_cc (red rgb) @ toHex_cc (green rgb) @ toHex_cc (blue rgb);
          hex1 = (case alpha rgb of
                    Some al \<Rightarrow> if preserveAlpha options
                               then hex0 @ toHex_cc (jmul al (Fin 255)) else hex0
                  | None \<Rightarrow> hex0);
          hex2 = (if shortHex options \<and> length hex1 = 7
                  then (let r = substring hex1 1 3; g = substring hex1 3 5; b = substring hex1 5 7
                        in if r ! 0 = r ! 1 \<and> g ! 0 = g ! 1 \<and> b ! 0 = b ! 1
                           then [CHR ''#'', r ! 0, g ! 0, b ! 0] else hex1)
                  else hex1)
      in if uppercase options then toUpperCase hex2 else hex2)"

text \<open>
  A number in a template literal.  The decimal text of an integer is computed (the
  program writes one of \<open>10^21\<close> or more with an exponent).  The text of a number
  that is not an integer is the shortest decimal that reads back as the same
  double; it is not computed here but given by the parameter \<open>fracText\<close>, and every
  statement below holds for any \<open>fracText\<close>.
\<close>

definition numToString :: "(real \<Rightarrow> string) \<Rightarrow> jsnum \<Rightarrow> string" where
  "numToString fracText n =
     (case n of
        Fin x \<Rightarrow> if of_int \<lfloor>x\<rfloor> = x then intToString 10 \<lfloor>x\<rfloor> else fracText x
      | PInf \<Rightarrow> ''Infinity''
      | NInf \<Rightarrow> ''-Infinity''
      | NaN \<Rightarrow> ''NaN''
      | Undef \<Rightarrow> ''undefined'')"

definition rounded :: "ColorConversionOptions \<Rightarrow> jsnum \<Rightarrow> jsnum" where
  "rounded options v = (if roundValues options then jround v else v)"

definition rgbToRgbString_cc :: "(real \<Rightarrow> string) \<Rightarrow> ColorSpace \<Rightarrow> ColorConversionOptions \<Rightarrow> string" where
  "rgbToRgbString_cc fracText rgb options =
     ''rgb('' @ numToString fracText (rounded options (red rgb)) @ '', ''
       @ numToString fracText (rounded options (green rgb)) @ '', ''
       @ numToString fracText (rounded options (blue rgb)) @ '')''"

definition alphaOr1 :: "ColorSpace \<Rightarrow> jsnum" where
  "alphaOr1 rgb = (case alpha rgb of Some al \<Rightarrow> al | None \<Rightarrow> Fin 1)"

definition rgbToRgbaString :: "(real \<Rightarrow> string) \<Rightarrow> ColorSpace \<Rightarrow> ColorConversionOptions \<Rightarrow> string" where
  "rgbToRgbaString fracText rgb options =
     ''rgba('' @ numToString fracText (rounded options (red rgb)) @ '', ''
       @ numToString fracText (rounded options (green rgb)) @ '', ''
       @ numToString fracText (rounded options (blue rgb)) @ '', ''
       @ numToString fracText (alphaOr1 rgb) @ '')''"

definition rgbToHsl_cc :: "ColorSpace \<Rightarrow> HSLSpace" where
  "rgbToHsl_cc rgb =
     (let r = jdiv (red rgb) (Fin 255);
          g = jdiv (green rgb) (Fin 255);
          b = jdiv (blue rgb) (Fin 255);
          mx = max3 r g b;
          mn = min3 r g b;
          diff = jsub mx mn;
          lv = jdiv (jadd mx mn) (Fin 2);
          sv = (if diff \<noteq> Fin 0
                then (if jgt lv (Fin (1 / 2))
                      then jdiv diff (jsub (jsub (Fin 2) mx) mn)
                      else jdiv diff (jadd mx mn))
                else Fin 0);
          hv = (if diff \<noteq> Fin 0
                then jdiv (if jeq mx r then
                             jadd (jdiv (jsub g b) diff) (if jlt g b then Fin 6 else Fin 0)
                           else if jeq mx g then jadd (jdiv (jsub b r) diff) (Fin 2)
                           else if jeq mx b then jadd (jdiv (jsub r g) diff) (Fin 4)
                           else Fin 0) (Fin 6)
                else Fin 0)
      in \<lparr>hue = jround (jmul hv (Fin 360)),
          sat = jround (jmul sv (Fin 100)),
          light = jround (jmul lv (Fin 100)),
          halpha = alpha rgb\<rparr>)"

definition rgbToHslString_cc :: "(real \<Rightarrow> string) \<Rightarrow> ColorSpace \<Rightarrow> ColorConversionOptions \<Rightarrow> string" where
  "rgbToHslString_cc fracText rgb options =
     (let hsl = rgbToHsl_cc rgb
      in ''hsl('' @ numToString fracText (rounded options (hue hsl)) @ '', ''
           @ numToString fracText (rounded options (sat hsl)) @ ''%, ''
           @ numToString fracText (rounded options (light hsl)) @ ''%)'')"

definition rgbToHslaString :: "(real \<Rightarrow> string) \<Rightarrow> ColorSpace \<Rightarrow> ColorConversionOptions \<Rightarrow> string" where
  "rgbToHslaString fracText rgb options =
     (let hsl = rgbToHsl_cc rgb
      in ''hsla('' @ numToString fracText (rounded options (hue hsl)) @ '', ''
           @ numToString fracText (rounded options (sat hsl)) @ ''%, ''
           @ numToString fracText (rounded options (light hsl)) @ ''%, ''
           @ numToString fracText (alphaOr1 rgb) @ '')'')"

definition rgbToOklchString :: "(real \<Rightarrow> string) \<Rightarrow> ColorSpace \<Rightarrow> ColorConversionOptions \<Rightarrow> string" where
  "rgbToOklchString fracText rgb options =
     (let hsl = rgbToHsl_cc rgb;
          l = jdiv (light hsl) (Fin 100);
          c = jmul (jdiv (sat hsl) (Fin 100)) (num (4 / 10));
          h = hue hsl;
          lVal = (if roundValues options then jdiv (jround (jmul l (Fin 100))) (Fin 100) else l);
          cVal = (if roundValues options then jdiv (jround (jmul c (Fin 100))) (Fin 100) else c);
          hVal = (if roundValues options then jround h else h)
      in ''oklch('' @ numToString fracText lVal @ '' '' @ numToString fracText cVal @ '' ''
           @ numToString fracText hVal @ '')'')"

text \<open>
  \<open>convertColor\<close>.  The body of its \<open>try\<close> block either returns a result or throws
  an \<open>Error\<close> with a message (\<open>Inl\<close>); the \<open>catch\<close> block turns the message into
  a failed result.  \<open>Date.now()\<close> is the parameter \<open>now\<close>, the reading of the
  clock at the call.
\<close>

definition convertColor_try ::
  "(real \<Rightarrow> string) \<Rightarrow> int \<Rightarrow> Color \<Rightarrow> ColorConversionOptions \<Rightarrow> string + ColorConversionResult" where
  "convertColor_try fracText now color options =
     (case parseColorToRGB (val color) of
        None \<Rightarrow>
          Inr \<lparr>original = color, converted = val color, format = targetFormat options,
               timestamp = now, success = False,
               error = Some (''Unable to parse color: '' @ val color)\<rparr>
      | Some rgb \<Rightarrow>
          (case (if targetFormat options = ''hex'' then Inr (rgbToHex_cc rgb options)
                 else if targetFormat options = ''rgb'' then Inr (rgbToRgbString_cc fracText rgb options)
                 else if targetFormat options = ''rgba'' then Inr (rgbToRgbaString fracText rgb options)
                 else if targetFormat options = ''hsl'' then Inr (rgbToHslString_cc fracText rgb options)
                 else if targetFormat options = ''hsla'' then Inr (rgbToHslaString fracText rgb options)
                 else if targetFormat options = ''oklch'' then Inr (rgbToOklchString fracText rgb options)
                 else Inl (''Unsupported target format: '' @ targetFormat options)) of
             Inl msg \<Rightarrow> Inl msg
           | Inr conv \<Rightarrow>
               Inr \<lparr>original = color, converted = conv, format = targetFormat options,
                    timestamp = now, success = True, error = None\<rparr>))"

definition convertColor ::
  "(real \<Rightarrow> string) \<Rightarrow> int \<Rightarrow> Color \<Rightarrow> ColorConversionOptions \<Rightarrow> ColorConversionResult" where
  "convertColor fracText now color options =
     (case convertColor_try fracText now color options of
        Inr res \<Rightarrow> res
      | Inl msg \<Rightarrow>
          \<lparr>original = color, converted = val color, format = targetFormat options,
           timestamp = now, success = False, error = Some msg\<rparr>)"

section \<open>extraction/formats/css\<close>

text \<open>The patterns of the extractors; all carry the flag \<open>g\<close> and no other.
  \<open>/#([0-9a-fA-F]{3}|[0-9a-fA-F]{6}|[0-9a-fA-F]{8})\b/g\<close>\<close>

definition hexDigit :: regex where
  "hexDigit = Cls False [(CHR ''0'', CHR ''9''), (CHR ''a'', CHR ''f''), (CHR ''A'', CHR ''F'')]"

definition HEX_PATTERN :: regex where
  "HEX_PATTERN = seqs [Chr CHR ''#'',
     Grp 1 (alts [times 3 hexDigit, times 6 hexDigit, times 8 hexDigit]), Wordb]"

text \<open>\<open>/rgb\s*\(\s*(\d+)\s*,\s*(\d+)\s*,\s*(\d+)\s*\)/g\<close>\<close>

definition RGB_PATTERN :: regex where
  "RGB_PATTERN = seqs [lit ''rgb'', spaces, Chr CHR ''('', spaces,
     Grp 1 (plus digit), spaces, Chr CHR '','', spaces,
     Grp 2 (plus digit), spaces, Chr CHR '','', spaces,
     Grp 3 (plus digit), spaces, Chr CHR '')'']"

text \<open>\<open>/rgba\s*\(\s*(\d+)\s*,\s*(\d+)\s*,\s*(\d+)\s*,\s*([\d.]+)\s*\)/g\<close>\<close>

definition RGBA_PATTERN :: regex where
  "RGBA_PATTERN = seqs [lit ''rgba'', spaces, Chr CHR ''('', spaces,
     Grp 1 (plus digit), spaces, Chr CHR '','', spaces,
     Grp 2 (plus digit), spaces, Chr CHR '','', spaces,
     Grp 3 (plus digit), spaces, Chr CHR '','', spaces,
     Grp 4 (plus digitOrDot), spaces, Chr CHR '')'']"

text \<open>\<open>/hsl\s*\(\s*(\d+)\s*,\s*(\d+)%\s*,\s*(\d+)%\s*\)/g\<close>\<close>

definition HSL_PATTERN :: regex where
  "HSL_PATTERN = seqs [lit ''hsl'', spaces, Chr CHR ''('', spaces,
     Grp 1 (plus digit), spaces, Chr CHR '','', spaces,
     Grp 2 (plus digit), Chr CHR ''%'', spaces, Chr CHR '','', spaces,
     Grp 3 (plus digit), Chr CHR ''%'', spaces, Chr CHR '')'']"

text \<open>\<open>/hsla\s*\(\s*(\d+)\s*,\s*(\d+)%\s*,\s*(\d+)%\s*,\s*([\d.]+)\s*\)/g\<close>\<close>

definition HSLA_PATTERN :: regex where
  "HSLA_PATTERN = seqs [lit ''hsla'', spaces, Chr CHR ''('', spaces,
     Grp 1 (plus digit), spaces, Chr CHR '','', spaces,
     Grp 2 (plus digit), Chr CHR ''%'', spaces, Chr CHR '','', spaces,
     Grp 3 (plus digit), Chr CHR ''%'', spaces, Chr CHR '','', spaces,
     Grp 4 (plus digitOrDot), spaces, Chr CHR '')'']"

definition isInComment :: "string \<Rightarrow> nat \<Rightarrow> bool" where
  "isInComment row idx =
     (let beforeStr = substring row 0 idx;
          commentStart = lastIndexOf beforeStr ''/*'';
          commentEnd = lastIndexOf beforeStr ''*/''
      in commentStart > commentEnd)"

text \<open>What one call of \<open>addColor\<close> pushes: nothing inside a comment, else one colour.\<close>

definition addColor :: "string \<Rightarrow> nat \<Rightarrow> rxmatch \<Rightarrow> Color list" where
  "addColor row lineIndex m =
     (if isInComment row (index m) then []
      else [\<lparr>val = matched m, fmt = detectColorFormat (matched m),
             position = Some \<lparr>line = lineIndex + 1, column = index m + 1\<rparr>,
             ctx = Some (trim row)\<rparr>])"

text \<open>One line: the five loops in the order of the program.  A loop that never
  ends makes the whole extraction \<open>None\<close>.\<close>

definition cssLine :: "string \<Rightarrow> nat \<Rightarrow> Color list option" where
  "cssLine row lineIndex =
     do {
       hexMs \<leftarrow> execAll HEX_PATTERN noFlags row;
       rgbMs \<leftarrow> execAll RGB_PATTERN noFlags row;
       rgbaMs \<leftarrow> execAll RGBA_PATTERN noFlags row;
       hslMs \<leftarrow> execAll HSL_PATTERN noFlags row;
       hslaMs \<leftarrow> execAll HSLA_PATTERN noFlags row;
       Some (concat (map (addColor row lineIndex) (hexMs @ rgbMs @ rgbaMs @ hslMs @ hslaMs)))
     }"

definition forEachLine :: "(string \<Rightarrow> nat \<Rightarrow> Color list option) \<Rightarrow> string \<Rightarrow> Color list option" where
  "forEachLine f content =
     map_option concat (those (map (\<lambda>(i, row). f row i) (enumerate 0 (splitLines content))))"

definition extractFromCss :: "string \<Rightarrow> Color list option" where
  "extractFromCss content = forEachLine cssLine content"

section \<open>extraction/formats/javascript\<close>

text \<open>\<open>/['"`]([^'"`]*?)['"`]/g\<close>\<close>

definition quoteRanges :: "(char \<times> char) list" where
  "quoteRanges = [(CHR 0x27, CHR 0x27), (CHR 0x22, CHR 0x22), (CHR 0x60, CHR 0x60)]"

definition STRING_COLOR_PATTERN :: regex where
  "STRING_COLOR_PATTERN =
     seqs [Cls False quoteRanges, Grp 1 (Lazy (Cls True quoteRanges)), Cls False quoteRanges]"

definition isValidColor_js :: "string \<Rightarrow> bool" where
  "isValidColor_js v = (parseColor v \<noteq> None)"

definition styleKeywords :: "string list" where
  "styleKeywords =
     [''color:'', ''background:'', ''border:'', ''box-shadow:'', ''text-shadow:'', ''fill:'',
      ''stroke:'', ''theme:'', ''palette:'', ''style:'', ''styles:'', ''colors:'',
      ''backgroundColor:'', ''borderColor:'', ''textColor:'', ''fillColor:'', ''strokeColor:'',
      ''colorScheme:'', ''css:'', ''styled'', ''theme'']"

text \<open>\<open>/css`/\<close>, \<open>/styled\./\<close>, \<open>/createStyles/\<close>, \<open>/makeStyles/\<close>, \<open>/useStyles/\<close>,
  \<open>/emotion/\<close>, \<open>/styled-components/\<close>, \<open>/theme\./\<close>, \<open>/colors\./\<close>\<close>

definition cssInJsPatterns :: "regex list" where
  "cssInJsPatterns =
     [lit (''css'' @ [CHR 0x60]), lit ''styled.'', lit ''createStyles'', lit ''makeStyles'',
      lit ''useStyles'', lit ''emotion'', lit ''styled-components'', lit ''theme.'',
      lit ''colors.'']"

text \<open>\<open>/{[^}]*$/\<close>\<close>

definition objectPattern :: regex where
  "objectPattern = seqs [Chr CHR ''{'', Star (Cls True [(CHR ''}'', CHR ''}'')]), Eol]"

text \<open>\<open>/(color|background|border|fill|stroke|theme|palette|style|colors)\s*:/\<close>\<close>

definition stylePropertyPattern :: regex where
  "stylePropertyPattern =
     seqs [Grp 1 (alts [lit ''color'', lit ''background'', lit ''border'', lit ''fill'',
             lit ''stroke'', lit ''theme'', lit ''palette'', lit ''style'', lit ''colors'']),
           spaces, Chr CHR '':'']"

text \<open>\<open>/(const|let|var)\s+(color|style|theme|palette|css)\w*\s*=/\<close>\<close>

definition styleVarPattern :: regex where
  "styleVarPattern =
     seqs [Grp 1 (alts [lit ''const'', lit ''let'', lit ''var'']), plus space,
           Grp 2 (alts [lit ''color'', lit ''style'', lit ''theme'', lit ''palette'', lit ''css'']),
           Star wordChar, spaces, Chr CHR ''='']"

text \<open>\<open>/(theme|colors|palette|style)\s*[.:]/\<close>\<close>

definition themeContextPattern :: regex where
  "themeContextPattern =
     seqs [Grp 1 (alts [lit ''theme'', lit ''colors'', lit ''palette'', lit ''style'']),
           spaces, Cls False [(CHR ''.'', CHR ''.''), (CHR '':'', CHR '':'')]]"

definition hasStyleKeyword :: "string \<Rightarrow> bool" where
  "hasStyleKeyword row =
     list_ex (\<lambda>keyword. includesStr (toLowerCase row) (toLowerCase keyword)) styleKeywords"

definition hasCssInJs :: "string \<Rightarrow> bool" where
  "hasCssInJs row = list_ex (\<lambda>pattern. rxTest pattern noFlags row) cssInJsPatterns"

definition isStyleContext :: "string \<Rightarrow> nat \<Rightarrow> bool" where
  "isStyleContext row matchIndex =
     (let trimmedLine = trim row;
          beforeMatch = substring row 0 matchIndex
      in if includesStr beforeMatch ''//'' then False
         else if lastIndexOf beforeMatch ''/*'' > lastIndexOf beforeMatch ''*/'' then False
         else if startsWith trimmedLine ''//'' \<or> startsWith trimmedLine ''/*''
                 \<or> startsWith trimmedLine ''*'' then False
         else if hasStyleKeyword row then True
         else if hasCssInJs row then True
         else if rxTest objectPattern noFlags beforeMatch
                 \<and> rxTest stylePropertyPattern noFlags row then True
         else if rxTest styleVarPattern noFlags row then True
         else if rxTest themeContextPattern noFlags row then True
         else False)"

definition jsColor :: "string \<Rightarrow> nat \<Rightarrow> nat \<Rightarrow> string \<Rightarrow> Color" where
  "jsColor row lineIndex idx v =
     \<lparr>val = v, fmt = detectColorFormat v,
      position = Some \<lparr>line = lineIndex + 1, column = idx + 1\<rparr>,
      ctx = Some (trim row)\<rparr>"

definition pushToken :: "string \<Rightarrow> nat \<Rightarrow> rxmatch \<Rightarrow> Color list" where
  "pushToken row lineIndex m =
     (if isStyleContext row (index m) then [jsColor row lineIndex (index m) (matched m)] else [])"

definition pushString :: "string \<Rightarrow> nat \<Rightarrow> rxmatch \<Rightarrow> Color list" where
  "pushString row lineIndex m =
     (case grp m 1 of
        None \<Rightarrow> []
      | Some stringValue \<Rightarrow>
          if stringValue \<noteq> [] \<and> isValidColor_js stringValue \<and> isStyleContext row (index m)
          then [jsColor row lineIndex (index m) stringValue] else [])"

text \<open>
  One line.  The patterns are shared objects whose \<open>lastIndex\<close> this extractor
  does not reset; every loop runs until \<open>exec\<close> returns \<open>null\<close>, which sets
  \<open>lastIndex\<close> to 0, so each loop starts at 0 as in the stylesheet extractor.
\<close>

definition jsLine :: "string \<Rightarrow> nat \<Rightarrow> Color list option" where
  "jsLine row lineIndex =
     do {
       hexMs \<leftarrow> execAll HEX_PATTERN noFlags row;
       rgbMs \<leftarrow> execAll RGB_PATTERN noFlags row;
       rgbaMs \<leftarrow> execAll RGBA_PATTERN noFlags row;
       hslMs \<leftarrow> execAll HSL_PATTERN noFlags row;
       hslaMs \<leftarrow> execAll HSLA_PATTERN noFlags row;
       strMs \<leftarrow> execAll STRING_COLOR_PATTERN noFlags row;
       Some (concat (map (pushToken row lineIndex) (hexMs @ rgbMs @ rgbaMs @ hslMs @ hslaMs))
             @ concat (map (pushString row lineIndex) strMs))
     }"

text \<open>The key \<open>`${c.value}-${c.position?.line ?? 0}`\<close>.\<close>

definition colorKey :: "Color \<Rightarrow> string" where
  "colorKey c =
     val c @ ''-'' @ natToString 10 (case position c of None \<Rightarrow> 0 | Some p \<Rightarrow> line p)"

text \<open>\<open>Map.set\<close>: a key that is present keeps its place and takes the new value, a
  new key goes last.\<close>

fun mapSet :: "(string \<times> 'a) list \<Rightarrow> string \<Rightarrow> 'a \<Rightarrow> (string \<times> 'a) list" where
  "mapSet [] k v = [(k, v)]"
| "mapSet (e # es) k v = (if fst e = k then (k, v) # es else e # mapSet es k v)"

definition uniqueByKey :: "Color list \<Rightarrow> Color list" where
  "uniqueByKey colors = map snd (foldl (\<lambda>m c. mapSet m (colorKey c) c) [] colors)"

definition extractFromJavaScript :: "string \<Rightarrow> Color list option" where
  "extractFromJavaScript content = map_option uniqueByKey (forEachLine jsLine content)"

section \<open>extraction/formats/stylus\<close>

definition hexDigitI :: regex where
  "hexDigitI = Cls False [(CHR ''0'', CHR ''9''), (CHR ''a'', CHR ''f'')]"

definition wordOrDash :: regex where
  "wordOrDash = Cls False [(CHR ''a'', CHR ''z''), (CHR ''A'', CHR ''Z''), (CHR ''0'', CHR ''9''),
     (CHR ''_'', CHR ''_''), (CHR ''-'', CHR ''-'')]"

definition notParen :: regex where
  "notParen = Cls True [(CHR '')'', CHR '')'')]"

text \<open>The six patterns, with the flags \<open>gim\<close> for the first and \<open>gi\<close> for the others.
  \<open>/(?:^|\s)([\w-]+|\$[\w-]+)\s*[=:]\s*(#[0-9a-f]{3,8}|rgb\([^)]+\)|rgba\([^)]+\)|hsl\([^)]+\)|hsla\([^)]+\)|[a-z]+)\s*$/gim\<close>\<close>

definition stylusVariable :: regex where
  "stylusVariable =
     seqs [Alt Bol space,
           Grp 1 (Alt (plus wordOrDash) (Seq (Chr CHR ''$'') (plus wordOrDash))),
           spaces, Cls False [(CHR ''='', CHR ''=''), (CHR '':'', CHR '':'')], spaces,
           Grp 2 (alts [Seq (Chr CHR ''#'') (between 3 8 hexDigitI),
                        seqs [lit ''rgb('', plus notParen, Chr CHR '')''],
                        seqs [lit ''rgba('', plus notParen, Chr CHR '')''],
                        seqs [lit ''hsl('', plus notParen, Chr CHR '')''],
                        seqs [lit ''hsla('', plus notParen, Chr CHR '')''],
                        plus (Cls False [(CHR ''a'', CHR ''z'')])]),
           spaces, Eol]"

text \<open>\<open>/(?:color|background|border|outline|box-shadow|text-shadow)\s*:?\s*([^;\n]+)/gi\<close>\<close>

definition stylusProperty :: regex where
  "stylusProperty =
     seqs [alts [lit ''color'', lit ''background'', lit ''border'', lit ''outline'',
                 lit ''box-shadow'', lit ''text-shadow''],
           spaces, opt (Chr CHR '':''), spaces,
           Grp 1 (plus (Cls True [(CHR '';'', CHR '';''), (CHR 0x0A, CHR 0x0A)]))]"

text \<open>\<open>/(?:lighten|darken|saturate|desaturate|adjust-hue|mix|rgba)\s*\(\s*([^,)]+)/gi\<close>\<close>

definition stylusFunction :: regex where
  "stylusFunction =
     seqs [alts [lit ''lighten'', lit ''darken'', lit ''saturate'', lit ''desaturate'',
                 lit ''adjust-hue'', lit ''mix'', lit ''rgba''],
           spaces, Chr CHR ''('', spaces,
           Grp 1 (plus (Cls True [(CHR '','', CHR '',''), (CHR '')'', CHR '')'')]))]"

text \<open>\<open>/#[0-9a-f]{3,8}/gi\<close>, \<open>/rgba?\s*\([^)]+\)/gi\<close> and \<open>/hsla?\s*\([^)]+\)/gi\<close>\<close>

definition stylusHex :: regex where
  "stylusHex = Seq (Chr CHR ''#'') (between 3 8 hexDigitI)"

definition stylusRgb :: regex where
  "stylusRgb = seqs [lit ''rgb'', opt (Chr CHR ''a''), spaces, Chr CHR ''('', plus notParen,
     Chr CHR '')'']"

definition stylusHsl :: regex where
  "stylusHsl = seqs [lit ''hsl'', opt (Chr CHR ''a''), spaces, Chr CHR ''('', plus notParen,
     Chr CHR '')'']"

definition stylusPatterns :: "(regex \<times> rxflags) list" where
  "stylusPatterns =
     [(stylusVariable, flagIM), (stylusProperty, flagI), (stylusFunction, flagI),
      (stylusHex, flagI), (stylusRgb, flagI), (stylusHsl, flagI)]"

definition namedColors_stylus :: "string list" where
  "namedColors_stylus =
     [''aliceblue'', ''antiquewhite'', ''aqua'', ''aquamarine'', ''azure'', ''beige'', ''bisque'',
      ''black'', ''blanchedalmond'', ''blue'', ''blueviolet'', ''brown'', ''burlywood'',
      ''cadetblue'', ''chartreuse'', ''chocolate'', ''coral'', ''cornflowerblue'', ''cornsilk'',
      ''crimson'', ''cyan'', ''darkblue'', ''darkcyan'', ''darkgoldenrod'', ''darkgray'',
      ''darkgreen'', ''darkkhaki'', ''darkmagenta'', ''darkolivegreen'', ''darkorange'',
      ''darkorchid'', ''darkred'', ''darksalmon'', ''darkseagreen'', ''darkslateblue'',
      ''darkslategray'', ''darkturquoise'', ''darkviolet'', ''deeppink'', ''deepskyblue'',
      ''dimgray'', ''dodgerblue'', ''firebrick'', ''floralwhite'', ''forestgreen'', ''fuchsia'',
      ''gainsboro'', ''ghostwhite'', ''gold'', ''goldenrod'', ''gray'', ''green'', ''greenyellow'',
      ''honeydew'', ''hotpink'', ''indianred'', ''indigo'', ''ivory'', ''khaki'', ''lavender'',
      ''lavenderblush'', ''lawngreen'', ''lemonchiffon'', ''lightblue'', ''lightcoral'',
      ''lightcyan'', ''lightgoldenrodyellow'', ''lightgray'', ''lightgreen'', ''lightpink'',
      ''lightsalmon'', ''lightseagreen'', ''lightskyblue'', ''lightslategray'', ''lightsteelblue'',
      ''lightyellow'', ''lime'', ''limegreen'', ''linen'', ''magenta'', ''maroon'',
      ''mediumaquamarine'', ''mediumblue'', ''mediumorchid'', ''mediumpurple'', ''mediumseagreen'',
      ''mediumslateblue'', ''mediumspringgreen'', ''mediumturquoise'', ''mediumvioletred'',
      ''midnightblue'', ''mintcream'', ''mistyrose'', ''moccasin'', ''navajowhite'', ''navy'',
      ''oldlace'', ''olive'', ''olivedrab'', ''orange'', ''orangered'', ''orchid'',
      ''palegoldenrod'', ''palegreen'', ''paleturquoise'', ''palevioletred'', ''papayawhip'',
      ''peachpuff'', ''peru'', ''pink'', ''plum'', ''powderblue'', ''purple'', ''red'',
      ''rosybrown'', ''royalblue'', ''saddlebrown'', ''salmon'', ''sandybrown'', ''seagreen'',
      ''seashell'', ''sienna'', ''silver'', ''skyblue'', ''slateblue'', ''slategray'', ''snow'',
      ''springgreen'', ''steelblue'', ''tan'', ''teal'', ''thistle'', ''tomato'', ''turquoise'',
      ''violet'', ''wheat'', ''white'', ''whitesmoke'', ''yellow'', ''yellowgreen'',
      ''transparent'']"

definition isNamedColor :: "string \<Rightarrow> bool" where
  "isNamedColor v = (toLowerCase v \<in> set namedColors_stylus)"

text \<open>\<open>/^(rgb|rgba|hsl|hsla)\(/\<close> and the five patterns of \<open>isValidColorValue\<close>, which
  carry the flag \<open>i\<close>:
  \<open>/^#[0-9a-f]{3,8}$/i\<close>,
  \<open>/^rgb\s*\(\s*\d+\s*,\s*\d+\s*,\s*\d+\s*\)$/i\<close>,
  \<open>/^rgba\s*\(\s*\d+\s*,\s*\d+\s*,\s*\d+\s*,\s*[\d.]+\s*\)$/i\<close>,
  \<open>/^hsl\s*\(\s*\d+\s*,\s*\d+%\s*,\s*\d+%\s*\)$/i\<close>,
  \<open>/^hsla\s*\(\s*\d+\s*,\s*\d+%\s*,\s*\d+%\s*,\s*[\d.]+\s*\)$/i\<close>\<close>

definition colorFunctionStart :: regex where
  "colorFunctionStart =
     seqs [Bol, Grp 1 (alts [lit ''rgb'', lit ''rgba'', lit ''hsl'', lit ''hsla'']), Chr CHR ''('']"

definition colorPatterns_stylus :: "regex list" where
  "colorPatterns_stylus =
     [seqs [Bol, Chr CHR ''#'', between 3 8 hexDigitI, Eol],
      seqs [Bol, lit ''rgb'', spaces, Chr CHR ''('', spaces, plus digit, spaces, Chr CHR '','',
            spaces, plus digit, spaces, Chr CHR '','', spaces, plus digit, spaces, Chr CHR '')'',
            Eol],
      seqs [Bol, lit ''rgba'', spaces, Chr CHR ''('', spaces, plus digit, spaces, Chr CHR '','',
            spaces, plus digit, spaces, Chr CHR '','', spaces, plus digit, spaces, Chr CHR '','',
            spaces, plus digitOrDot, spaces, Chr CHR '')'', Eol],
      seqs [Bol, lit ''hsl'', spaces, Chr CHR ''('', spaces, plus digit, spaces, Chr CHR '','',
            spaces, plus digit, Chr CHR ''%'', spaces, Chr CHR '','', spaces, plus digit,
            Chr CHR ''%'', spaces, Chr CHR '')'', Eol],
      seqs [Bol, lit ''hsla'', spaces, Chr CHR ''('', spaces, plus digit, spaces, Chr CHR '','',
            spaces, plus digit, Chr CHR ''%'', spaces, Chr CHR '','', spaces, plus digit,
            Chr CHR ''%'', spaces, Chr CHR '','', spaces, plus digitOrDot, spaces, Chr CHR '')'',
            Eol]]"

definition isValidColorValue :: "string \<Rightarrow> bool" where
  "isValidColorValue v =
     (if v = [] then False
      else if includesStr v ''('' \<and> \<not> rxTest colorFunctionStart noFlags v then False
      else list_ex (\<lambda>pattern. rxTest pattern flagI v) colorPatterns_stylus \<or> isNamedColor v)"

definition determineColorFormat :: "string \<Rightarrow> ColorFormat" where
  "determineColorFormat v =
     (if startsWith v ''#'' then Hex
      else if startsWith v ''rgb('' then Rgb
      else if startsWith v ''rgba('' then Rgba
      else if startsWith v ''hsl('' then Hsl
      else if startsWith v ''hsla('' then Hsla
      else if isNamedColor v then Named
      else Unknown)"

definition getContextType :: "string \<Rightarrow> string" where
  "getContextType row =
     (if includesStr row ''='' \<or> includesStr row ''$'' then ''variable''
      else if includesStr row ''()'' \<or> includesStr row ''('' then ''function''
      else if includesStr row '':'' then ''property''
      else ''declaration'')"

text \<open>\<open>match[2] || match[1] || match[0]\<close>: the first that is defined and not empty.\<close>

definition matchedValue :: "rxmatch \<Rightarrow> string" where
  "matchedValue m =
     (case grpT (Some m) 2 of
        Some t \<Rightarrow> t
      | None \<Rightarrow> (case grpT (Some m) 1 of Some t \<Rightarrow> t | None \<Rightarrow> matched m))"

text \<open>What one turn of the inner loop pushes; the column is the index of the match.\<close>

definition stylusPush :: "string \<Rightarrow> nat \<Rightarrow> rxmatch \<Rightarrow> Color list" where
  "stylusPush row lineIndex m =
     (let mv = matchedValue m
      in if mv = [] then []
         else (let colorValue = trim mv
               in if colorValue = [] then []
                  else if isValidColorValue colorValue then
                    [\<lparr>val = colorValue, fmt = determineColorFormat colorValue,
                      position = Some \<lparr>line = lineIndex + 1, column = index m\<rparr>,
                      ctx = Some (''Stylus '' @ getContextType row)\<rparr>]
                  else []))"

definition stylusLine :: "string \<Rightarrow> nat \<Rightarrow> Color list option" where
  "stylusLine row lineIndex =
     (if row = [] then Some []
      else map_option concat
             (those (map (\<lambda>(pattern, fl).
                       map_option (\<lambda>ms. concat (map (stylusPush row lineIndex) ms))
                         (execAll pattern fl row)) stylusPatterns)))"

definition extractFromStylus :: "string \<Rightarrow> Color list option" where
  "extractFromStylus content = forEachLine stylusLine content"

section \<open>analysis\<close>

text \<open>The triple \<open>{h, s, l}\<close> of the analyser.\<close>

record Hsl3 =
  hh :: jsnum
  ss :: jsnum
  ll :: jsnum

text \<open>\<open>/^#([0-9a-f]{3}|[0-9a-f]{6})$/i\<close>\<close>

definition hex36_re :: regex where
  "hex36_re = seqs [Bol, Chr CHR ''#'',
     Grp 1 (Alt (times 3 hexDigitLower) (times 6 hexDigitLower)), Eol]"

text \<open>\<open>/hsl\(\s*(\d+)\s*,\s*(\d+)%\s*,\s*(\d+)%\s*\)/i\<close>\<close>

definition hsl_re :: regex where
  "hsl_re = seqs [lit ''hsl('', spaces,
     Grp 1 (plus digit), spaces, Chr CHR '','', spaces,
     Grp 2 (plus digit), Chr CHR ''%'', spaces, Chr CHR '','', spaces,
     Grp 3 (plus digit), Chr CHR ''%'', spaces, Chr CHR '')'']"

text \<open>\<open>/^#?([a-f\d]{2})([a-f\d]{2})([a-f\d]{2})$/i\<close>\<close>

definition hexPair :: regex where
  "hexPair = times 2 (Cls False [(CHR ''a'', CHR ''f''), (CHR ''0'', CHR ''9'')])"

definition hexToHSL_re :: regex where
  "hexToHSL_re = seqs [Bol, opt (Chr CHR ''#''), Grp 1 hexPair, Grp 2 hexPair, Grp 3 hexPair, Eol]"

definition hexToHSL :: "string \<Rightarrow> Hsl3 option" where
  "hexToHSL hex =
     (let result = rxMatch hexToHSL_re flagI hex
      in case (grpT result 1, grpT result 2, grpT result 3) of
           (Some c1, Some c2, Some c3) \<Rightarrow>
             (let r = jdiv (parseInt c1 16) (Fin 255);
                  g = jdiv (parseInt c2 16) (Fin 255);
                  b = jdiv (parseInt c3 16) (Fin 255);
                  mx = max3 r g b;
                  mn = min3 r g b;
                  l = jdiv (jadd mx mn) (Fin 2);
                  d = jsub mx mn;
                  s = (if jeq mx mn then Fin 0
                       else if jgt l (Fin (1 / 2)) then jdiv d (jsub (jsub (Fin 2) mx) mn)
                       else jdiv d (jadd mx mn));
                  h = (if jeq mx mn then Fin 0
                       else jdiv (if jeq mx r then
                                    jadd (jdiv (jsub g b) d) (if jlt g b then Fin 6 else Fin 0)
                                  else if jeq mx g then jadd (jdiv (jsub b r) d) (Fin 2)
                                  else if jeq mx b then jadd (jdiv (jsub r g) d) (Fin 4)
                                  else Fin 0) (Fin 6))
              in Some \<lparr>hh = jround (jmul h (Fin 360)),
                        ss = jround (jmul s (Fin 100)),
                        ll = jround (jmul l (Fin 100))\<rparr>)
         | _ \<Rightarrow> None)"

definition parseColorToHSL :: "string \<Rightarrow> Hsl3 option" where
  "parseColorToHSL color =
     (case rxMatch hex36_re flagI color of
        Some hex \<Rightarrow> hexToHSL color
      | None \<Rightarrow>
          (let hsl = rxMatch hsl_re flagI color
           in case (grpT hsl 1, grpT hsl 2, grpT hsl 3) of
                (Some c1, Some c2, Some c3) \<Rightarrow>
                  Some \<lparr>hh = parseInt c1 10, ss = parseInt c2 10, ll = parseInt c3 10\<rparr>
              | _ \<Rightarrow> None))"

text \<open>\<open>colors.map(parseColorToHSL).filter(hsl => hsl !== null)\<close>\<close>

definition hslOf :: "string list \<Rightarrow> Hsl3 list" where
  "hslOf vs = List.map_filter parseColorToHSL vs"

text \<open>\<open>[...new Set(xs)]\<close>: the first occurrence of each element, in order.\<close>

fun uniq :: "'a list \<Rightarrow> 'a list" where
  "uniq [] = []"
| "uniq (x # xs) = x # uniq (filter (\<lambda>y. y \<noteq> x) xs)"

text \<open>Counting with a \<open>Map\<close>: \<open>m.set(k, (m.get(k) || 0) + 1)\<close> for each key in turn.\<close>

fun bump :: "('k \<times> nat) list \<Rightarrow> 'k \<Rightarrow> ('k \<times> nat) list" where
  "bump [] k = [(k, 1)]"
| "bump (e # es) k = (if fst e = k then (k, snd e + 1) # es else e # bump es k)"

definition countAll :: "'k list \<Rightarrow> ('k \<times> nat) list" where
  "countAll ks = foldl bump [] ks"

text \<open>\<open>sort((a, b) => b.count - a.count)\<close>: descending by count, and stable.\<close>

fun insertByCount :: "'k \<times> nat \<Rightarrow> ('k \<times> nat) list \<Rightarrow> ('k \<times> nat) list" where
  "insertByCount x [] = [x]"
| "insertByCount x (y # ys) = (if snd y \<le> snd x then x # y # ys else y # insertByCount x ys)"

definition sortByCount :: "('k \<times> nat) list \<Rightarrow> ('k \<times> nat) list" where
  "sortByCount xs = foldr insertByCount xs []"

record 'k Tally =
  item :: 'k
  count :: nat
  percentage :: jsnum

definition tally :: "nat \<Rightarrow> 'k \<times> nat \<Rightarrow> 'k Tally" where
  "tally n e = \<lparr>item = fst e, count = snd e, percentage = jmul (jdiv (Fin (real (snd e))) (Fin (real n))) (Fin 100)\<rparr>"

record ColorStatistics =
  total :: nat
  unique :: nat
  byFormat :: "ColorFormat Tally list"
  mostCommon :: "string Tally list"
  dominantHue :: "jsnum option"
  averageSaturation :: "jsnum option"
  averageLightness :: "jsnum option"
  contrastRatio :: "jsnum option"

text \<open>\<open>xs.reduce((sum, x) => sum + x, 0) / xs.length\<close>\<close>

definition average :: "jsnum list \<Rightarrow> jsnum" where
  "average xs = jdiv (foldl jadd (Fin 0) xs) (Fin (real (length xs)))"

definition averageOpt :: "jsnum list \<Rightarrow> jsnum option" where
  "averageOpt xs = (if length xs > 0 then Some (average xs) else None)"

definition calculateColorStatistics :: "Color list \<Rightarrow> ColorStatistics" where
  "calculateColorStatistics colors =
     (if length colors = 0 then
        \<lparr>total = 0, unique = 0, byFormat = [], mostCommon = [], dominantHue = None,
         averageSaturation = None, averageLightness = None, contrastRatio = None\<rparr>
      else
        (let colorValues = map (\<lambda>c. toLowerCase (val c)) colors;
             uniqueColors = uniq colorValues;
             byFormat' = map (tally (length colors)) (sortByCount (countAll (map fmt colors)));
             mostCommon' = take 10 (map (tally (length colors)) (sortByCount (countAll colorValues)));
             hslValues = hslOf (map val colors)
         in \<lparr>total = length colors, unique = length uniqueColors,
             byFormat = byFormat', mostCommon = mostCommon',
             dominantHue = averageOpt (map hh hslValues),
             averageSaturation = averageOpt (map ss hslValues),
             averageLightness = averageOpt (map ll hslValues),
             contrastRatio = None\<rparr>))"

datatype HarmonyType =
  Monochromatic | Analogous | Complementary | Triadic | Tetradic | SplitComplementary | NoHarmony

record ColorHarmony =
  harmonyType :: HarmonyType
  harmonyColors :: "string list"
  confidence :: jsnum
  description :: string

text \<open>\<open>Math.max(...xs)\<close> and \<open>Math.min(...xs)\<close>; of no arguments they are \<open>-Infinity\<close>
  and \<open>Infinity\<close>.\<close>

definition maxOf :: "jsnum list \<Rightarrow> jsnum" where
  "maxOf xs = foldl jmax NInf xs"

definition minOf :: "jsnum list \<Rightarrow> jsnum" where
  "minOf xs = foldl jmin PInf xs"

definition detectColorHarmony :: "string list \<Rightarrow> ColorHarmony" where
  "detectColorHarmony colors =
     (if length colors < 2 then
        \<lparr>harmonyType = NoHarmony, harmonyColors = colors, confidence = Fin 0,
         description = ''Insufficient colors for harmony analysis''\<rparr>
      else
        (let hslColors = hslOf colors
         in if length hslColors < 2 then
              \<lparr>harmonyType = NoHarmony, harmonyColors = colors, confidence = Fin 0,
               description = ''Unable to analyze color harmony''\<rparr>
            else
              (let hues = map hh hslColors;
                   hueRange = jsub (maxOf hues) (minOf hues)
               in if jlt hueRange (Fin 30) then
                    \<lparr>harmonyType = Monochromatic, harmonyColors = colors, confidence = num (8 / 10),
                     description =
                       ''Monochromatic color scheme with variations in saturation and lightness''\<rparr>
                  else if length hslColors = 2
                          \<and> jlt (jabs (jsub (jabs (jsub (hues ! 0) (hues ! 1))) (Fin 180))) (Fin 30)
                  then
                    \<lparr>harmonyType = Complementary, harmonyColors = colors, confidence = num (9 / 10),
                     description = ''Complementary color scheme with opposite hues''\<rparr>
                  else
                    \<lparr>harmonyType = NoHarmony, harmonyColors = colors, confidence = num (3 / 10),
                     description = ''No clear color harmony pattern detected''\<rparr>)))"

datatype Temperature = Warm | Cool | Neutral

text \<open>\<open>x >= y\<close> and \<open>x <= y\<close> on numbers.\<close>

definition jge :: "jsnum \<Rightarrow> jsnum \<Rightarrow> bool" where
  "jge x y = (jlt y x \<or> jeq x y)"

definition jle :: "jsnum \<Rightarrow> jsnum \<Rightarrow> bool" where
  "jle x y = (jlt x y \<or> jeq x y)"

definition determineTemperature :: "string list \<Rightarrow> Temperature" where
  "determineTemperature colors =
     (let hslColors = hslOf colors
      in if length hslColors = 0 then Neutral
         else
           (let warmCount = length (filter (\<lambda>hsl.
                    (jge (hh hsl) (Fin 0) \<and> jlt (hh hsl) (Fin 60))
                    \<or> (jge (hh hsl) (Fin 300) \<and> jle (hh hsl) (Fin 360))) hslColors);
                coolCount = length (filter (\<lambda>hsl.
                    jge (hh hsl) (Fin 180) \<and> jlt (hh hsl) (Fin 300)) hslColors)
            in if jgt (Fin (real warmCount)) (jmul (Fin (real coolCount)) (Fin (3 / 2))) then Warm
               else if jgt (Fin (real coolCount)) (jmul (Fin (real warmCount)) (Fin (3 / 2))) then Cool
               else Neutral))"

datatype Mood = Vibrant | Muted | Pastel | Dark | Light

definition determineMood :: "string list \<Rightarrow> Mood" where
  "determineMood colors =
     (let hslColors = hslOf colors
      in if length hslColors = 0 then Muted
         else
           (let avgSaturation = average (map ss hslColors);
                avgLightness = average (map ll hslColors)
            in if jlt avgLightness (Fin 30) then Dark
               else if jgt avgLightness (Fin 80) then Light
               else if jgt avgSaturation (Fin 70) \<and> jgt avgLightness (Fin 50) then Vibrant
               else if jgt avgSaturation (Fin 40) \<and> jgt avgLightness (Fin 70) then Pastel
               else Muted))"

text \<open>The five patterns of the analyser's \<open>isValidColor\<close>, all with the flag \<open>i\<close>:
  \<open>/^#([0-9a-f]{3}|[0-9a-f]{6}|[0-9a-f]{8})$/i\<close>,
  \<open>/^rgb\(\s*\d+\s*,\s*\d+\s*,\s*\d+\s*\)$/i\<close>,
  \<open>/^rgba\(\s*\d+\s*,\s*\d+\s*,\s*\d+\s*,\s*[\d.]+\s*\)$/i\<close>,
  \<open>/^hsl\(\s*\d+\s*,\s*\d+%\s*,\s*\d+%\s*\)$/i\<close>,
  \<open>/^hsla\(\s*\d+\s*,\s*\d+%\s*,\s*\d+%\s*,\s*[\d.]+\s*\)$/i\<close>\<close>

definition hex_valid :: regex where
  "hex_valid = seqs [Bol, Chr CHR ''#'',
     Grp 1 (alts [times 3 hexDigitLower, times 6 hexDigitLower, times 8 hexDigitLower]), Eol]"

definition rgb_valid :: regex where
  "rgb_valid = seqs [Bol, lit ''rgb('', spaces, plus digit, spaces, Chr CHR '','', spaces,
     plus digit, spaces, Chr CHR '','', spaces, plus digit, spaces, Chr CHR '')'', Eol]"

definition rgba_valid :: regex where
  "rgba_valid = seqs [Bol, lit ''rgba('', spaces, plus digit, spaces, Chr CHR '','', spaces,
     plus digit, spaces, Chr CHR '','', spaces, plus digit, spaces, Chr CHR '','', spaces,
     plus digitOrDot, spaces, Chr CHR '')'', Eol]"

definition hsl_valid :: regex where
  "hsl_valid = seqs [Bol, lit ''hsl('', spaces, plus digit, spaces, Chr CHR '','', spaces,
     plus digit, Chr CHR ''%'', spaces, Chr CHR '','', spaces, plus digit, Chr CHR ''%'', spaces,
     Chr CHR '')'', Eol]"

definition hsla_valid :: regex where
  "hsla_valid = seqs [Bol, lit ''hsla('', spaces, plus digit, spaces, Chr CHR '','', spaces,
     plus digit, Chr CHR ''%'', spaces, Chr CHR '','', spaces, plus digit, Chr CHR ''%'', spaces,
     Chr CHR '','', spaces, plus digitOrDot, spaces, Chr CHR '')'', Eol]"

definition isValidColor :: "string \<Rightarrow> bool" where
  "isValidColor color =
     list_ex (\<lambda>pattern. rxTest pattern flagI color)
       [hex_valid, rgb_valid, rgba_valid, hsl_valid, hsla_valid]"

text \<open>\<open>toString()\<close> of a number that \<open>Math.round\<close> returned.\<close>

fun toString10 :: "jsnum \<Rightarrow> string" where
  "toString10 (Fin x) = intToString 10 \<lfloor>x\<rfloor>"
| "toString10 PInf = ''Infinity''"
| "toString10 NInf = ''-Infinity''"
| "toString10 NaN = ''NaN''"
| "toString10 Undef = ''NaN''"

record ColorCluster =
  centroid :: string
  members :: "string list"
  size :: nat
  variance :: jsnum
  label :: "string option"

definition calculateHueVariance :: "jsnum list \<Rightarrow> jsnum" where
  "calculateHueVariance hues =
     (if length hues \<le> 1 then Fin 0
      else (let mean = average hues
            in jdiv (foldl (\<lambda>sum h. jadd sum (jmul (jsub h mean) (jsub h mean))) (Fin 0) hues)
                    (Fin (real (length hues)))))"

definition hueRanges :: "(real \<times> real \<times> string) list" where
  "hueRanges =
     [(0, 30, ''Red''), (30, 60, ''Orange''), (60, 120, ''Yellow''), (120, 180, ''Green''),
      (180, 240, ''Cyan''), (240, 300, ''Blue''), (300, 360, ''Magenta'')]"

text \<open>What the loop over the hue ranges pushes for one range.\<close>

definition clusterOfRange :: "(string \<times> Hsl3) list \<Rightarrow> real \<times> real \<times> string \<Rightarrow> ColorCluster list" where
  "clusterOfRange hslColors band =
     (case band of (lo, hi, name) \<Rightarrow>
        (let colorsInRange = filter (\<lambda>item. jge (hh (snd item)) (Fin lo)
                                              \<and> jlt (hh (snd item)) (Fin hi)) hslColors
         in if length colorsInRange > 0 then
              (let colors = map fst colorsInRange;
                   centroid' = hd colors
               in if centroid' = [] then []
                  else [\<lparr>centroid = centroid', members = colors, size = length colors,
                          variance = calculateHueVariance (map (\<lambda>item. hh (snd item)) colorsInRange),
                          label = Some name\<rparr>])
            else []))"

text \<open>\<open>clusterColors\<close>; the bound \<open>maxClusters\<close> is a natural number here.\<close>

definition clusterColors :: "Color list \<Rightarrow> nat \<Rightarrow> ColorCluster list" where
  "clusterColors colors maxClusters =
     (let uniqueColors = uniq (map (\<lambda>c. toLowerCase (val c)) colors)
      in if length uniqueColors \<le> maxClusters then
           map (\<lambda>color. \<lparr>centroid = color, members = [color], size = 1, variance = Fin 0,
                           label = None\<rparr>) uniqueColors
         else
           (let hslColors = List.map_filter
                  (\<lambda>color. map_option (Pair color) (parseColorToHSL color)) uniqueColors
            in if length hslColors = 0 then []
               else take maxClusters (concat (map (clusterOfRange hslColors) hueRanges))))"

datatype GapType = HueGap | SaturationGap | LightnessGap | SemanticGap

datatype Severity = Low | Medium | High

record ColorGap =
  gapType :: GapType
  gapDescription :: string
  missingColors :: "string list"
  severity :: Severity
  suggestions :: "string list"

text \<open>\<open>sort((a, b) => a - b)\<close>: ascending, and stable.\<close>

fun insertNum :: "jsnum \<Rightarrow> jsnum list \<Rightarrow> jsnum list" where
  "insertNum x [] = [x]"
| "insertNum x (y # ys) = (if jlt x y then x # y # ys else y # insertNum x ys)"

definition sortNum :: "jsnum list \<Rightarrow> jsnum list" where
  "sortNum xs = foldl (\<lambda>acc x. insertNum x acc) [] xs"

text \<open>The loop over neighbouring hues: a gap of more than 60 gives its midpoint.\<close>

fun hueGapsOf :: "jsnum list \<Rightarrow> jsnum list" where
  "hueGapsOf (previousHue # currentHue # rest) =
     (if jgt (jsub currentHue previousHue) (Fin 60)
      then [jdiv (jadd previousHue currentHue) (Fin 2)] else [])
     @ hueGapsOf (currentHue # rest)"
| "hueGapsOf _ = []"

fun joinWith :: "string \<Rightarrow> string list \<Rightarrow> string" where
  "joinWith sep [] = []"
| "joinWith sep [x] = x"
| "joinWith sep (x # xs) = x @ sep @ joinWith sep xs"

definition detectColorGaps :: "Color list \<Rightarrow> ColorGap list" where
  "detectColorGaps colors =
     (let uniqueColors = uniq (map (\<lambda>c. toLowerCase (val c)) colors);
          hslColors = hslOf uniqueColors
      in if length hslColors = 0 then []
         else
           (let hues = sortNum (map hh hslColors);
                hueGaps = hueGapsOf hues;
                hueGap =
                  (if length hueGaps > 0 then
                     [\<lparr>gapType = HueGap,
                       gapDescription = ''Missing colors in hue ranges: ''
                         @ joinWith '', '' (map (\<lambda>h. toString10 (jround h)) hueGaps) @ [CHR 0xB0],
                       missingColors =
                         map (\<lambda>h. ''hsl('' @ toString10 (jround h) @ '', 50%, 50%)'') hueGaps,
                       severity = (if length hueGaps > 2 then High else Medium),
                       suggestions =
                         [''Consider adding colors in the missing hue ranges for better color balance'']\<rparr>]
                   else []);
                lightnesses = sortNum (map ll hslColors);
                hasVeryDark = list_ex (\<lambda>l. jlt l (Fin 20)) lightnesses;
                hasVeryLight = list_ex (\<lambda>l. jgt l (Fin 80)) lightnesses;
                lightnessGap =
                  (if \<not> hasVeryDark \<and> \<not> hasVeryLight then
                     [\<lparr>gapType = LightnessGap,
                       gapDescription = ''Missing very dark and very light colors'',
                       missingColors = [''#000000'', ''#ffffff''],
                       severity = Medium,
                       suggestions =
                         [''Add darker and lighter variants for better contrast options'']\<rparr>]
                   else [])
            in hueGap @ lightnessGap))"

section \<open>Notions used in the statements\<close>

text \<open>A lower-case hex digit, \<open>0\<close> to \<open>9\<close> or \<open>a\<close> to \<open>f\<close>.\<close>

definition isLowerHex :: "char \<Rightarrow> bool" where
  "isLowerHex c = (isDigit c \<or> (97 \<le> code c \<and> code c \<le> 102))"

text \<open>The doubles, without the bound on the exponent: \<open>k * 2^q\<close> with \<open>|k| < 2^53\<close> and
  \<open>-1074 \<le> q\<close>.\<close>

definition isDouble :: "real \<Rightarrow> bool" where
  "isDouble d = (\<exists>k q. \<bar>k\<bar> < 2 ^ 53 \<and> - 1074 \<le> q \<and> d = of_int k * pow2 q)"

text \<open>A stand-in for the text of a number that is not an integer, for evaluating
  the converter at inputs where none is printed.\<close>

definition noFracText :: "real \<Rightarrow> string" where
  "noFracText x = ''?''"

text \<open>Syntactic properties of patterns, used to reason about \<open>rx\<close>: a pattern that
  consumes at least one character in every match; a pattern without captures; the
  characters a match of a pattern may consume; a pattern that ends with \<open>$\<close>.\<close>

primrec consuming :: "regex \<Rightarrow> bool" where
  "consuming (Chr p) = True"
| "consuming (Cls neg rs) = True"
| "consuming Eps = False"
| "consuming (Seq r1 r2) = (consuming r1 \<or> consuming r2)"
| "consuming (Alt r1 r2) = (consuming r1 \<and> consuming r2)"
| "consuming (Star r) = False"
| "consuming (Lazy r) = False"
| "consuming (Grp k r) = consuming r"
| "consuming Bol = False"
| "consuming Eol = False"
| "consuming Wordb = False"

primrec capFree :: "regex \<Rightarrow> bool" where
  "capFree (Chr p) = True"
| "capFree (Cls neg rs) = True"
| "capFree Eps = True"
| "capFree (Seq r1 r2) = (capFree r1 \<and> capFree r2)"
| "capFree (Alt r1 r2) = (capFree r1 \<and> capFree r2)"
| "capFree (Star r) = capFree r"
| "capFree (Lazy r) = capFree r"
| "capFree (Grp k r) = False"
| "capFree Bol = True"
| "capFree Eol = True"
| "capFree Wordb = True"

primrec charOK :: "bool \<Rightarrow> regex \<Rightarrow> char \<Rightarrow> bool" where
  "charOK ic (Chr p) c = chrEq ic p c"
| "charOK ic (Cls neg rs) c = (clsMember ic rs c \<noteq> neg)"
| "charOK ic Eps c = False"
| "charOK ic (Seq r1 r2) c = (charOK ic r1 c \<or> charOK ic r2 c)"
| "charOK ic (Alt r1 r2) c = (charOK ic r1 c \<or> charOK ic r2 c)"
| "charOK ic (Star r) c = charOK ic r c"
| "charOK ic (Lazy r) c = charOK ic r c"
| "charOK ic (Grp k r) c = charOK ic r c"
| "charOK ic Bol c = False"
| "charOK ic Eol c = False"
| "charOK ic Wordb c = False"

primrec endsWithEol :: "regex \<Rightarrow> bool" where
  "endsWithEol (Chr p) = False"
| "endsWithEol (Cls neg rs) = False"
| "endsWithEol Eps = False"
| "endsWithEol (Seq r1 r2) = endsWithEol r2"
| "endsWithEol (Alt r1 r2) = (endsWithEol r1 \<and> endsWithEol r2)"
| "endsWithEol (Star r) = False"
| "endsWithEol (Lazy r) = False"
| "endsWithEol (Grp k r) = endsWithEol r"
| "endsWithEol Bol = False"
| "endsWithEol Eol = True"
| "endsWithEol Wordb = False"

text \<open>
  What a match of a pattern looks like, whatever the position: \<open>sem r ic w cs cs'\<close>
  holds when the pattern \<open>r\<close> may consume the word \<open>w\<close> and turn the captures \<open>cs\<close>
  into \<open>cs'\<close>.  It is a description of the matches from above (a loop is described
  by the characters it may consume, an anchor by the empty word), against which
  the results of \<open>rx\<close> are proved sound.
\<close>

primrec sem :: "regex \<Rightarrow> bool \<Rightarrow> string \<Rightarrow> (nat \<times> string) list \<Rightarrow> (nat \<times> string) list \<Rightarrow> bool" where
  "sem (Chr p) ic w cs cs' = ((\<exists>c. w = [c] \<and> chrEq ic p c) \<and> cs' = cs)"
| "sem (Cls neg rs) ic w cs cs' = ((\<exists>c. w = [c] \<and> clsMember ic rs c \<noteq> neg) \<and> cs' = cs)"
| "sem Eps ic w cs cs' = (w = [] \<and> cs' = cs)"
| "sem (Seq r1 r2) ic w cs cs' =
     (\<exists>w1 w2 mid. w = w1 @ w2 \<and> sem r1 ic w1 cs mid \<and> sem r2 ic w2 mid cs')"
| "sem (Alt r1 r2) ic w cs cs' = (sem r1 ic w cs cs' \<or> sem r2 ic w cs cs')"
| "sem (Star r) ic w cs cs' = ((\<forall>c \<in> set w. charOK ic r c) \<and> (capFree r \<longrightarrow> cs' = cs))"
| "sem (Lazy r) ic w cs cs' = ((\<forall>c \<in> set w. charOK ic r c) \<and> (capFree r \<longrightarrow> cs' = cs))"
| "sem (Grp k r) ic w cs cs' = (\<exists>mid. sem r ic w cs mid \<and> cs' = (k, w) # mid)"
| "sem Bol ic w cs cs' = (w = [] \<and> cs' = cs)"
| "sem Eol ic w cs cs' = (w = [] \<and> cs' = cs)"
| "sem Wordb ic w cs cs' = (w = [] \<and> cs' = cs)"

text \<open>A hex digit in either case, and a string of decimal digits that is not empty.\<close>

definition isHexChar :: "char \<Rightarrow> bool" where
  "isHexChar c = (isDigit c \<or> (97 \<le> code c \<and> code c \<le> 102) \<or> (65 \<le> code c \<and> code c \<le> 70))"

definition isDigits :: "string \<Rightarrow> bool" where
  "isDigits d = (d \<noteq> [] \<and> list_all isDigit d)"

text \<open>A hex literal of three or six digits, and one of eight; a value that contains a
  match of the pattern \<open>hsl\(\s*(\d+)\s*,\s*(\d+)%\s*,\s*(\d+)%\s*\)\<close>, in either case;
  a value the analyser parses.\<close>

definition isHex36 :: "string \<Rightarrow> bool" where
  "isHex36 v =
     (case v of [] \<Rightarrow> False
      | c # ds \<Rightarrow> c = CHR ''#'' \<and> (length ds = 3 \<or> length ds = 6) \<and> list_all isHexChar ds)"

definition isHex8 :: "string \<Rightarrow> bool" where
  "isHex8 v =
     (case v of [] \<Rightarrow> False | c # ds \<Rightarrow> c = CHR ''#'' \<and> length ds = 8 \<and> list_all isHexChar ds)"

definition containsHslLiteral :: "string \<Rightarrow> bool" where
  "containsHslLiteral v = rxTest hsl_re flagI v"

definition hslParseable :: "string \<Rightarrow> bool" where
  "hslParseable v = (parseColorToHSL v \<noteq> None)"

section \<open>Properties\<close>

subsection \<open>Rounding to a double\<close>

text \<open>The rounding returns a double that is nearest to its argument; hence it is
  monotone, it is odd, and it returns a double unchanged, in particular an integer
  up to \<open>2^53\<close>.\<close>

lemma bitLength_bounds: "0 < n \<Longrightarrow> 2 ^ (bitLength n - 1) \<le> n \<and> n < 2 ^ bitLength n"
proof (induction n rule: bitLength.induct)
  case (1 n)
  show ?case
  proof (cases "n div 2 \<le> 0")
    case True
    with 1(2) have "n = 1" by linarith
    then show ?thesis by (simp add: bitLength.simps)
  next
    case False
    then have p: "0 < n div 2" by simp
    from 1(2) have n: "\<not> n \<le> 0" by simp
    from 1(1) [OF n p] have ih: "2 ^ (bitLength (n div 2) - 1) \<le> n div 2" "n div 2 < 2 ^ bitLength (n div 2)"
      by simp_all
    have b: "bitLength n = Suc (bitLength (n div 2))" using n by (subst bitLength.simps) simp
    have pos: "0 < bitLength (n div 2)" using p by (subst bitLength.simps) simp
    then have e: "(2::int) ^ bitLength (n div 2) = 2 * 2 ^ (bitLength (n div 2) - 1)"
      by (cases "bitLength (n div 2)") simp_all
    have "2 * 2 ^ (bitLength (n div 2) - 1) \<le> 2 * (n div 2)" using ih(1) by simp
    also have "\<dots> \<le> n" by presburger
    finally have l: "2 ^ (bitLength n - 1) \<le> n" by (simp add: b e)
    have "n < 2 * (n div 2) + 2" by presburger
    also have "\<dots> \<le> 2 * 2 ^ bitLength (n div 2)" using ih(2) by simp
    finally have u: "n < 2 ^ bitLength n" by (simp add: b)
    from l u show ?thesis by simp
  qed
qed

lemma bitLength_pos: "0 < n \<Longrightarrow> 0 < bitLength n"
  by (subst bitLength.simps) simp

lemma pow2_powr: "pow2 e = 2 powr (of_int e)"
proof (cases "0 \<le> e")
  case True
  then have "(2::real) powr (of_int e) = 2 powr (real (nat e))" by simp
  also have "\<dots> = 2 ^ nat e" by (rule powr_realpow) simp
  finally show ?thesis using True by (simp add: pow2_def)
next
  case False
  then have "(2::real) powr (of_int e) = 2 powr (- real (nat (- e)))" by simp
  also have "\<dots> = 1 / 2 powr (real (nat (- e)))" by (simp add: powr_minus field_simps)
  also have "2 powr (real (nat (- e))) = (2::real) ^ nat (- e)" by (rule powr_realpow) simp
  finally show ?thesis using False by (simp add: pow2_def)
qed

lemma pow2_pos [simp]: "0 < pow2 e"
  by (simp add: pow2_powr)

lemma pow2_nz [simp]: "pow2 e \<noteq> 0"
  by (simp add: pow2_powr)

lemma abs_pow2 [simp]: "\<bar>pow2 e\<bar> = pow2 e"
  by (simp add: pow2_powr)

lemma pow2_add: "pow2 (a + b) = pow2 a * pow2 b"
  by (simp add: pow2_powr powr_add)

lemma pow2_mono: "a \<le> b \<Longrightarrow> pow2 a \<le> pow2 b"
  by (simp add: pow2_powr)

lemma pow2_nat: "pow2 (int n) = 2 ^ n"
  by (simp add: pow2_def)

lemma pow2_neg_nat: "pow2 (- int n) = 1 / 2 ^ n"
  by (simp add: pow2_powr powr_minus powr_realpow field_simps)

lemma pow2_0 [simp]: "pow2 0 = 1"
  by (simp add: pow2_def)

lemma pow2_diff: "pow2 (a - b) = pow2 a / pow2 b"
  by (simp add: pow2_powr powr_diff)

lemma expo_bounds:
  assumes "0 < x"
  shows "pow2 (expo x) \<le> x" and "x < pow2 (expo x + 1)"
proof -
  have "pow2 (expo x) \<le> x \<and> x < pow2 (expo x + 1)"
  proof (cases "1 \<le> x")
    case True
    define n where "n = \<lfloor>x\<rfloor>"
    have n: "0 < n" using True by (simp add: n_def)
    have nx: "of_int n \<le> x" "x < of_int n + 1" unfolding n_def by linarith+
    note b = bitLength_bounds [OF n]
    note bp = bitLength_pos [OF n]
    have e: "expo x = int (bitLength n - 1)" using True bp by (simp add: expo_def n_def)
    have "pow2 (expo x) = 2 ^ (bitLength n - 1)" unfolding e by (rule pow2_nat)
    also have "\<dots> = real_of_int (2 ^ (bitLength n - 1))" by simp
    also have "\<dots> \<le> of_int n" using b by (simp only: of_int_le_iff)
    finally have l: "pow2 (expo x) \<le> x" using nx by linarith
    have "expo x + 1 = int (bitLength n)" using bp by (simp add: e)
    then have "pow2 (expo x + 1) = 2 ^ bitLength n" by (simp add: pow2_nat)
    also have "\<dots> = real_of_int (2 ^ bitLength n)" by simp
    finally have "pow2 (expo x + 1) = real_of_int (2 ^ bitLength n)" .
    moreover have "n + 1 \<le> 2 ^ bitLength n" using b by simp
    then have "real_of_int (n + 1) \<le> real_of_int (2 ^ bitLength n)" by (simp only: of_int_le_iff)
    ultimately have "x < pow2 (expo x + 1)" using nx by simp
    with l show ?thesis by simp
  next
    case False
    define y where "y = 1 / x"
    have y: "1 < y" using False assms by (simp add: y_def)
    define n where "n = \<lceil>y\<rceil> - 1"
    have c: "2 \<le> \<lceil>y\<rceil>" using y by linarith
    then have n: "0 < n" by (simp add: n_def)
    have ny: "of_int n < y" "y \<le> of_int n + 1" unfolding n_def by linarith+
    note b = bitLength_bounds [OF n]
    note bp = bitLength_pos [OF n]
    have e: "expo x = - int (bitLength n)" using False by (simp add: expo_def n_def y_def)
    have "n + 1 \<le> 2 ^ bitLength n" using b by simp
    then have "real_of_int (n + 1) \<le> real_of_int (2 ^ bitLength n)" by (simp only: of_int_le_iff)
    then have "of_int n + 1 \<le> (2::real) ^ bitLength n" by simp
    with ny have "y \<le> 2 ^ bitLength n" by linarith
    then have "1 / 2 ^ bitLength n \<le> x" using assms by (simp add: y_def field_simps)
    moreover have "pow2 (expo x) = 1 / 2 ^ bitLength n" by (simp only: e pow2_neg_nat)
    ultimately have l: "pow2 (expo x) \<le> x" by simp
    have "real_of_int (2 ^ (bitLength n - 1)) \<le> of_int n" using b by (simp only: of_int_le_iff)
    then have "(2::real) ^ (bitLength n - 1) \<le> of_int n" by simp
    with ny have "2 ^ (bitLength n - 1) < y" by linarith
    then have "x < 1 / 2 ^ (bitLength n - 1)" using assms by (simp add: y_def field_simps)
    moreover have "expo x + 1 = - int (bitLength n - 1)" using bp by (simp add: e)
    then have "pow2 (expo x + 1) = 1 / 2 ^ (bitLength n - 1)" by (simp only: pow2_neg_nat)
    ultimately have "x < pow2 (expo x + 1)" by simp
    with l show ?thesis by simp
  qed
  then show "pow2 (expo x) \<le> x" and "x < pow2 (expo x + 1)" by simp_all
qed

lemma roundHalfEven_cases: "roundHalfEven m = \<lfloor>m\<rfloor> \<and> m - of_int \<lfloor>m\<rfloor> \<le> 1 / 2
    \<or> roundHalfEven m = \<lfloor>m\<rfloor> + 1 \<and> 1 / 2 \<le> m - of_int \<lfloor>m\<rfloor>"
  by (auto simp: roundHalfEven_def Let_def)

lemma roundHalfEven_nearest: "\<bar>m - of_int (roundHalfEven m)\<bar> \<le> \<bar>m - of_int k\<bar>"
proof -
  have f: "of_int \<lfloor>m\<rfloor> \<le> m" "m < of_int \<lfloor>m\<rfloor> + 1" by linarith+
  consider "k \<le> \<lfloor>m\<rfloor>" | "\<lfloor>m\<rfloor> + 1 \<le> k" by linarith
  then show ?thesis
  proof cases
    case 1
    then have "real_of_int k \<le> of_int \<lfloor>m\<rfloor>" by simp
    then show ?thesis using roundHalfEven_cases [of m] f by auto
  next
    case 2
    then have "of_int \<lfloor>m\<rfloor> + 1 \<le> real_of_int k" by linarith
    then show ?thesis using roundHalfEven_cases [of m] f by auto
  qed
qed

lemma roundHalfEven_range: "\<lfloor>m\<rfloor> \<le> roundHalfEven m \<and> roundHalfEven m \<le> \<lfloor>m\<rfloor> + 1"
  using roundHalfEven_cases [of m] by auto


lemma pow2_53: "pow2 53 = 2 ^ 53" "pow2 52 = 2 ^ 52" "pow2 1 = 2"
  by (simp_all add: pow2_def)

lemma pow2_Suc: "pow2 (q + 1) = 2 * pow2 q"
  by (simp add: pow2_add pow2_53)

lemma nearest_scaled:
  assumes "0 < x"
  defines "q \<equiv> max (expo x) (- 1022) - 52"
  shows "nearest x = of_int (roundHalfEven (x / pow2 q)) * pow2 q"
    and "0 < x / pow2 q" and "x / pow2 q < 2 ^ 53" and "- 1074 \<le> q"
    and "- 1074 < q \<Longrightarrow> 2 ^ 52 \<le> x / pow2 q"
proof -
  show "nearest x = of_int (roundHalfEven (x / pow2 q)) * pow2 q"
    by (simp add: nearest_def q_def Let_def)
  show "0 < x / pow2 q" using assms by simp
  have "expo x + 1 \<le> q + 53" by (simp add: q_def)
  then have "pow2 (expo x + 1) \<le> pow2 (q + 53)" by (rule pow2_mono)
  also have "\<dots> = pow2 q * 2 ^ 53" by (simp only: pow2_add pow2_53)
  finally have "x < pow2 q * 2 ^ 53" using expo_bounds(2) [OF assms(1)] by linarith
  then show "x / pow2 q < 2 ^ 53" by (simp add: field_simps)
  show "- 1074 \<le> q" by (simp add: q_def)
  assume "- 1074 < q"
  then have "q + 52 = expo x" by (simp add: q_def max_def split: if_splits)
  then have "pow2 (expo x) = pow2 (q + 52)" by simp
  also have "\<dots> = pow2 q * 2 ^ 52" by (simp only: pow2_add pow2_53)
  finally have "pow2 q * 2 ^ 52 \<le> x" using expo_bounds(1) [OF assms(1)] by linarith
  then show "2 ^ 52 \<le> x / pow2 q" by (simp add: field_simps)
qed

lemma scaled_abs:
  "\<bar>x - of_int n * pow2 q\<bar> = pow2 q * \<bar>x / pow2 q - of_int n\<bar>"
proof -
  have "x - of_int n * pow2 q = pow2 q * (x / pow2 q - of_int n)"
    by (simp add: field_simps)
  then show ?thesis by (simp add: abs_mult)
qed

lemma nearest_closest:
  assumes "0 < x" "isDouble d"
  shows "\<bar>x - nearest x\<bar> \<le> \<bar>x - d\<bar>"
proof -
  define q where "q = max (expo x) (- 1022) - 52"
  define m where "m = x / pow2 q"
  note s = nearest_scaled [OF assms(1), folded q_def, folded m_def]
  from assms(2) obtain k q' where d: "\<bar>k\<bar> < 2 ^ 53" "- 1074 \<le> q'" "d = of_int k * pow2 q'"
    by (auto simp: isDouble_def)
  have l: "\<bar>x - nearest x\<bar> = pow2 q * \<bar>m - of_int (roundHalfEven m)\<bar>"
    unfolding s(1) m_def by (rule scaled_abs)
  show ?thesis
  proof (cases "q \<le> q'")
    case True
    define j where "j = k * 2 ^ nat (q' - q)"
    have "pow2 q' = pow2 (q + int (nat (q' - q)))" using True by simp
    also have "\<dots> = pow2 q * 2 ^ nat (q' - q)" by (simp only: pow2_add pow2_nat)
    finally have "d = of_int j * pow2 q" unfolding d(3) j_def by simp
    then have "\<bar>x - d\<bar> = pow2 q * \<bar>m - of_int j\<bar>"
      unfolding m_def by (simp only: scaled_abs)
    with l roundHalfEven_nearest [of m j] show ?thesis by simp
  next
    case False
    then have lt: "- 1074 < q" "q' + 1 \<le> q" using d(2) by simp_all
    have "\<bar>d\<bar> = \<bar>of_int k\<bar> * pow2 q'" by (simp add: d(3) abs_mult)
    also have "\<dots> \<le> 2 ^ 53 * pow2 q'"
    proof -
      have "\<bar>k\<bar> \<le> 2 ^ 53" using d(1) by simp
      then have "real_of_int \<bar>k\<bar> \<le> real_of_int (2 ^ 53)" by (simp only: of_int_le_iff)
      then have "\<bar>real_of_int k\<bar> \<le> 2 ^ 53" by simp
      then show ?thesis by (simp add: mult_right_mono)
    qed
    also have "\<dots> = 2 ^ 52 * pow2 (q' + 1)" by (simp only: pow2_Suc) simp
    also have "\<dots> \<le> 2 ^ 52 * pow2 q" using pow2_mono [OF lt(2)] by simp
    finally have dd: "\<bar>d\<bar> \<le> 2 ^ 52 * pow2 q" .
    have mm: "2 ^ 52 \<le> m" using s(5) [OF lt(1)] .
    have x: "x = m * pow2 q" by (simp add: m_def)
    have "\<bar>m - of_int (roundHalfEven m)\<bar> \<le> \<bar>m - of_int (2 ^ 52)\<bar>"
      by (rule roundHalfEven_nearest)
    also have "\<dots> = m - 2 ^ 52" using mm by simp
    finally have "pow2 q * \<bar>m - of_int (roundHalfEven m)\<bar> \<le> pow2 q * (m - 2 ^ 52)"
      by (simp add: mult_left_mono)
    also have "\<dots> = x - 2 ^ 52 * pow2 q" by (simp add: x field_simps)
    also have "\<dots> \<le> \<bar>x - d\<bar>" using dd by linarith
    finally show ?thesis using l by simp
  qed
qed

lemma nearest_isDouble:
  assumes "0 < x"
  shows "isDouble (nearest x)"
proof -
  define q where "q = max (expo x) (- 1022) - 52"
  define m where "m = x / pow2 q"
  note s = nearest_scaled [OF assms(1), folded q_def, folded m_def]
  define n where "n = roundHalfEven m"
  have "0 \<le> \<lfloor>m\<rfloor>" using s(2) by simp
  moreover have "\<lfloor>m\<rfloor> < 2 ^ 53" using s(3) by (simp add: floor_less_iff)
  ultimately have n: "0 \<le> n" "n \<le> 2 ^ 53"
    using roundHalfEven_range [of m] unfolding n_def by linarith+
  show ?thesis
  proof (cases "n = 2 ^ 53")
    case True
    have "nearest x = of_int n * pow2 q" by (simp add: s(1) n_def)
    also have "\<dots> = of_int (2 ^ 52) * pow2 (q + 1)" unfolding True pow2_Suc by simp
    finally have "nearest x = of_int (2 ^ 52) * pow2 (q + 1)" .
    moreover have "\<bar>2 ^ 52 :: int\<bar> < 2 ^ 53" by simp
    moreover have "- 1074 \<le> q + 1" using s(4) by simp
    ultimately show ?thesis unfolding isDouble_def by blast
  next
    case False
    with n have "\<bar>n\<bar> < 2 ^ 53" by simp
    moreover have "nearest x = of_int n * pow2 q" by (simp add: s(1) n_def)
    ultimately show ?thesis using s(4) unfolding isDouble_def by blast
  qed
qed

lemma isDouble_0 [simp]: "isDouble 0"
  unfolding isDouble_def by (rule exI [of _ 0], rule exI [of _ 0]) simp

lemma isDouble_minus: "isDouble d \<Longrightarrow> isDouble (- d)"
  unfolding isDouble_def
proof (elim exE conjE)
  fix k q assume "\<bar>k\<bar> < 2 ^ 53" "- 1074 \<le> q" "d = of_int k * pow2 q"
  then have "\<bar>- k\<bar> < 2 ^ 53 \<and> - 1074 \<le> q \<and> - d = of_int (- k) * pow2 q" by simp
  then show "\<exists>k q. \<bar>k\<bar> < 2 ^ 53 \<and> - 1074 \<le> q \<and> - d = of_int k * pow2 q" by blast
qed

lemma dblR_minus: "dblR (- x) = - dblR x"
  by (simp add: dblR_def)

lemma dblR_isDouble: "isDouble (dblR x)"
  by (simp add: dblR_def nearest_isDouble isDouble_minus)

lemma dblR_closest:
  assumes "isDouble d"
  shows "\<bar>x - dblR x\<bar> \<le> \<bar>x - d\<bar>"
proof -
  consider "x < 0" | "x = 0" | "0 < x" by linarith
  then show ?thesis
  proof cases
    case 1
    then have "0 < - x" by simp
    from nearest_closest [OF this isDouble_minus [OF assms]]
    have "\<bar>- x - nearest (- x)\<bar> \<le> \<bar>- x - - d\<bar>" .
    moreover have "- x - nearest (- x) = - (x + nearest (- x))" by simp
    then have "\<bar>- x - nearest (- x)\<bar> = \<bar>x + nearest (- x)\<bar>"
      by (simp only: abs_minus_cancel)
    moreover have "- x - - d = - (x - d)" by simp
    then have "\<bar>- x - - d\<bar> = \<bar>x - d\<bar>" by (simp only: abs_minus_cancel)
    moreover have "x - dblR x = x + nearest (- x)" using 1 by (simp add: dblR_def)
    ultimately show ?thesis by simp
  next
    case 2
    then show ?thesis by (simp add: dblR_def)
  next
    case 3
    then show ?thesis using nearest_closest [OF 3 assms] by (simp add: dblR_def)
  qed
qed

lemma dblR_fix: "isDouble d \<Longrightarrow> dblR d = d"
  using dblR_closest [of d d] by simp

lemma dblR_mono:
  assumes "x \<le> y"
  shows "dblR x \<le> dblR y"
proof (rule ccontr)
  assume "\<not> dblR x \<le> dblR y"
  then have gt: "dblR y < dblR x" by simp
  from dblR_closest [OF dblR_isDouble, of x y] have a: "\<bar>x - dblR x\<bar> \<le> \<bar>x - dblR y\<bar>" .
  from dblR_closest [OF dblR_isDouble, of y x] have b: "\<bar>y - dblR y\<bar> \<le> \<bar>y - dblR x\<bar>" .
  from a gt have "dblR x + dblR y \<le> 2 * x" by linarith
  moreover from b gt have "2 * y \<le> dblR x + dblR y" by linarith
  ultimately have "x = y" using assms by linarith
  with gt show False by simp
qed

lemma isDouble_int:
  assumes "\<bar>k\<bar> \<le> 2 ^ 53"
  shows "isDouble (of_int k)"
proof (cases "\<bar>k\<bar> = 2 ^ 53")
  case True
  then have "k = 2 ^ 53 \<or> k = - (2 ^ 53)" by linarith
  then have "real_of_int k = of_int (2 ^ 52) * pow2 1 \<or> real_of_int k = of_int (- (2 ^ 52)) * pow2 1"
    unfolding pow2_53 by auto
  moreover have "\<bar>2 ^ 52 :: int\<bar> < 2 ^ 53" "\<bar>- (2 ^ 52) :: int\<bar> < 2 ^ 53" by simp_all
  moreover have "- 1074 \<le> (1::int)" by simp
  ultimately show ?thesis unfolding isDouble_def by blast
next
  case False
  with assms have "\<bar>k\<bar> < 2 ^ 53" by simp
  moreover have "real_of_int k = of_int k * pow2 0" by simp
  moreover have "- 1074 \<le> (0::int)" by simp
  ultimately show ?thesis unfolding isDouble_def by blast
qed

lemma dblR_int: "\<bar>k\<bar> \<le> 2 ^ 53 \<Longrightarrow> dblR (of_int k) = of_int k"
  by (rule dblR_fix) (rule isDouble_int)

lemma dblR_between:
  assumes "of_int a \<le> x" "x \<le> of_int b" "\<bar>a\<bar> \<le> 2 ^ 53" "\<bar>b\<bar> \<le> 2 ^ 53"
  shows "of_int a \<le> dblR x" and "dblR x \<le> of_int b"
  using dblR_mono [OF assms(1)] dblR_mono [OF assms(2)] dblR_int [OF assms(3)] dblR_int [OF assms(4)]
  by simp_all
subsection \<open>Operations on numbers\<close>

lemma maxDouble_large: "2 ^ 53 \<le> maxDouble"
  by (simp add: maxDouble_def)

lemma dbl_range:
  assumes "of_int a \<le> x" "x \<le> of_int b" "\<bar>a\<bar> \<le> 2 ^ 53" "\<bar>b\<bar> \<le> 2 ^ 53"
  shows "dbl x = Fin (dblR x)" and "of_int a \<le> dblR x" and "dblR x \<le> of_int b"
proof -
  note r = dblR_between [OF assms]
  show "of_int a \<le> dblR x" and "dblR x \<le> of_int b" using r by simp_all
  have "real_of_int b \<le> real_of_int (2 ^ 53)" "real_of_int (- (2 ^ 53)) \<le> real_of_int a"
    using assms(3,4) by (simp_all only: of_int_le_iff)
  then have "dblR x \<le> 2 ^ 53" "- (2 ^ 53) \<le> dblR x" using r by simp_all
  with maxDouble_large show "dbl x = Fin (dblR x)" by (simp add: dbl_def Let_def)
qed

lemma dbl_int: "\<bar>k\<bar> \<le> 2 ^ 53 \<Longrightarrow> dbl (of_int k) = Fin (of_int k)"
  using dbl_range(1) [of k "of_int k" k] by (simp add: dblR_int)

lemma dbl_nat: "n \<le> 2 ^ 53 \<Longrightarrow> dbl (real n) = Fin (real n)"
  using dbl_int [of "int n"] by simp

lemma dbl_0 [simp]: "dbl 0 = Fin 0"
  using dbl_int [of 0] by simp

lemma jmax_Fin [simp]: "jmax (Fin x) (Fin y) = Fin (max x y)"
  by (simp add: jmax_def isNaN_def max_def)

lemma jmin_Fin [simp]: "jmin (Fin x) (Fin y) = Fin (min x y)"
  by (simp add: jmin_def isNaN_def min_def)

lemma jsub_Fin [simp]: "jsub (Fin x) (Fin y) = dbl (x - y)"
  by (simp add: jsub_def)

lemma jeq_Fin [simp]: "jeq (Fin x) (Fin y) = (x = y)"
  by (simp add: jeq_def)

lemma jgt_Fin [simp]: "jgt (Fin x) (Fin y) = (y < x)"
  by (simp add: jgt_def)

lemma jdiv_Fin: "y \<noteq> 0 \<Longrightarrow> jdiv (Fin x) (Fin y) = dbl (x / y)"
  by simp

text \<open>The definitions that evaluate the rounding of a given number.\<close>

lemmas dbl_eval = dbl_def dblR_def nearest_def expo_def roundHalfEven_def pow2_def
  bitLength.simps maxDouble_def Let_def

subsection \<open>The hue of a colour\<close>

text \<open>A channel from 0 to 255, divided by 255, is a number from 0 to 1.\<close>

lemma channel_unit:
  fixes r :: int
  assumes "0 \<le> r" "r \<le> 255"
  shows "\<exists>X. jdiv (Fin (of_int r)) (Fin 255) = Fin X \<and> 0 \<le> X \<and> X \<le> 1"
proof -
  have "of_int 0 \<le> real_of_int r / 255" "real_of_int r / 255 \<le> of_int 1" using assms by simp_all
  from dbl_range [OF this] show ?thesis by (simp add: jdiv_Fin)
qed

text \<open>The quotient of a difference of two channels by the spread of the three.\<close>

lemma hue_ratio:
  fixes A B mx mn :: real
  assumes "mn \<le> A" "A \<le> mx" "mn \<le> B" "B \<le> mx" "0 \<le> mn" "mx \<le> 1"
    and nz: "dbl (mx - mn) \<noteq> Fin 0"
  shows "\<exists>u. jdiv (dbl (A - B)) (dbl (mx - mn)) = Fin u \<and> - 1 \<le> u \<and> u \<le> 1
           \<and> (A < B \<longrightarrow> u \<le> 0) \<and> (\<not> A < B \<longrightarrow> 0 \<le> u)"
proof -
  define d where "d = dblR (mx - mn)"
  define a where "a = dblR (A - B)"
  have "of_int 0 \<le> mx - mn" "mx - mn \<le> of_int 1" using assms by simp_all
  from dbl_range [OF this] have d: "dbl (mx - mn) = Fin d" "0 \<le> d" by (simp_all add: d_def)
  with nz have dp: "0 < d" by simp
  have "of_int (- 1) \<le> A - B" "A - B \<le> of_int 1" using assms by simp_all
  from dbl_range [OF this] have a: "dbl (A - B) = Fin a" by (simp add: a_def)
  have "a \<le> d" unfolding a_def d_def using assms by (intro dblR_mono) simp
  moreover have "- a \<le> d" unfolding a_def d_def dblR_minus [symmetric]
    using assms by (intro dblR_mono) simp
  ultimately have q: "- 1 \<le> a / d" "a / d \<le> 1" using dp by (simp_all add: field_simps)
  have neg: "A < B \<Longrightarrow> a / d \<le> 0"
  proof -
    assume "A < B"
    then have "A - B \<le> 0" by simp
    from dblR_mono [OF this] have "a \<le> 0" by (simp add: a_def dblR_def)
    with dp show "a / d \<le> 0" by (simp add: field_simps)
  qed
  have pos: "\<not> A < B \<Longrightarrow> 0 \<le> a / d"
  proof -
    assume "\<not> A < B"
    then have "0 \<le> A - B" by simp
    from dblR_mono [OF this] have "0 \<le> a" by (simp add: a_def dblR_def)
    with dp show "0 \<le> a / d" by simp
  qed
  have "of_int (- 1) \<le> a / d" "a / d \<le> of_int 1" using q by simp_all
  note u = dbl_range [OF this]
  have "jdiv (dbl (A - B)) (dbl (mx - mn)) = Fin (dblR (a / d))"
    using dp u(1) by (simp add: a d)
  moreover have "- 1 \<le> dblR (a / d)" "dblR (a / d) \<le> 1" using u by simp_all
  moreover have "A < B \<Longrightarrow> dblR (a / d) \<le> 0"
    using dblR_mono [OF neg] by (simp add: dblR_def)
  moreover have "\<not> A < B \<Longrightarrow> 0 \<le> dblR (a / d)"
    using dblR_mono [OF pos] by (simp add: dblR_def)
  ultimately show ?thesis by blast
qed

text \<open>Shifting the quotient into its sextant and dividing by six.\<close>

lemma hue_shift:
  fixes u c :: real
  assumes "0 \<le> u + c" "u + c \<le> 6"
  shows "\<exists>t. jdiv (jadd (Fin u) (Fin c)) (Fin 6) = Fin t \<and> 0 \<le> t \<and> t \<le> 1"
proof -
  have "of_int 0 \<le> u + c" "u + c \<le> of_int 6" using assms by simp_all
  note v = dbl_range [OF this]
  have "of_int 0 \<le> dblR (u + c) / 6" "dblR (u + c) / 6 \<le> of_int 1" using v by simp_all
  note t = dbl_range [OF this]
  have "jdiv (jadd (Fin u) (Fin c)) (Fin 6) = Fin (dblR (dblR (u + c) / 6))"
    using v(1) t(1) by simp
  with t show ?thesis by simp
qed

lemma hue_value:
  fixes X Y Z :: real
  assumes "0 \<le> X" "X \<le> 1" "0 \<le> Y" "Y \<le> 1" "0 \<le> Z" "Z \<le> 1"
  defines "mx \<equiv> max (max X Y) Z" and "mn \<equiv> min (min X Y) Z"
  shows "\<exists>t. 0 \<le> t \<and> t \<le> 1 \<and>
         (if dbl (mx - mn) \<noteq> Fin 0
          then jdiv (if mx = X then
                       jadd (jdiv (dbl (Y - Z)) (dbl (mx - mn)))
                            (if jlt (Fin Y) (Fin Z) then Fin 6 else Fin 0)
                     else if mx = Y then
                       jadd (jdiv (dbl (Z - X)) (dbl (mx - mn))) (Fin 2)
                     else if mx = Z then
                       jadd (jdiv (dbl (X - Y)) (dbl (mx - mn))) (Fin 4)
                     else Fin 0) (Fin 6)
          else Fin 0) = Fin t"
proof (cases "dbl (mx - mn) = Fin 0")
  case True
  then show ?thesis by (intro exI [of _ 0]) simp
next
  case False
  have b: "mn \<le> X" "X \<le> mx" "mn \<le> Y" "Y \<le> mx" "mn \<le> Z" "Z \<le> mx" "0 \<le> mn" "mx \<le> 1"
    using assms(1-6) by (simp_all add: mx_def mn_def)
  have m: "mx = X \<or> mx = Y \<or> mx = Z" by (auto simp: mx_def max_def)
  consider (r) "mx = X" | (g) "mx \<noteq> X" "mx = Y" | (b) "mx \<noteq> X" "mx \<noteq> Y" "mx = Z"
    using m by blast
  then show ?thesis
  proof cases
    case r
    from hue_ratio [OF b(3) b(4) b(5) b(6) b(7) b(8) False] obtain u where
      u: "jdiv (dbl (Y - Z)) (dbl (mx - mn)) = Fin u" "- 1 \<le> u" "u \<le> 1"
        "Y < Z \<longrightarrow> u \<le> 0" "\<not> Y < Z \<longrightarrow> 0 \<le> u" by blast
    have "0 \<le> u + (if Y < Z then 6 else 0)" "u + (if Y < Z then 6 else 0) \<le> 6"
      using u by auto
    from hue_shift [OF this] obtain t where
      "jdiv (jadd (Fin u) (Fin (if Y < Z then 6 else 0))) (Fin 6) = Fin t" "0 \<le> t" "t \<le> 1"
      by blast
    moreover have "(if jlt (Fin Y) (Fin Z) then Fin 6 else Fin 0) = Fin (if Y < Z then 6 else 0)"
      by simp
    ultimately show ?thesis using False r u(1) by (intro exI [of _ t]) (simp del: jadd.simps jdiv.simps)
  next
    case g
    from hue_ratio [OF b(5) b(6) b(1) b(2) b(7) b(8) False] obtain u where
      u: "jdiv (dbl (Z - X)) (dbl (mx - mn)) = Fin u" "- 1 \<le> u" "u \<le> 1" by blast
    have "0 \<le> u + 2" "u + 2 \<le> 6" using u by simp_all
    from hue_shift [OF this] obtain t where
      "jdiv (jadd (Fin u) (Fin 2)) (Fin 6) = Fin t" "0 \<le> t" "t \<le> 1" by blast
    then show ?thesis using False g u(1) by (intro exI [of _ t]) (simp del: jadd.simps jdiv.simps)
  next
    case b
    from hue_ratio [OF \<open>mn \<le> X\<close> \<open>X \<le> mx\<close> \<open>mn \<le> Y\<close> \<open>Y \<le> mx\<close> \<open>0 \<le> mn\<close> \<open>mx \<le> 1\<close> False]
    obtain u where
      u: "jdiv (dbl (X - Y)) (dbl (mx - mn)) = Fin u" "- 1 \<le> u" "u \<le> 1" by blast
    have "0 \<le> u + 4" "u + 4 \<le> 6" using u by simp_all
    from hue_shift [OF this] obtain t where
      "jdiv (jadd (Fin u) (Fin 4)) (Fin 6) = Fin t" "0 \<le> t" "t \<le> 1" by blast
    then show ?thesis using False b u(1) by (intro exI [of _ t]) (simp del: jadd.simps jdiv.simps)
  qed
qed

text \<open>Scaling a fraction of the circle to degrees and rounding it.\<close>

lemma hue_degrees:
  fixes t :: real
  assumes "0 \<le> t" "t \<le> 1"
  shows "\<exists>k::int. 0 \<le> k \<and> k \<le> 360 \<and> jround (jmul (Fin t) (Fin 360)) = Fin (of_int k)"
proof -
  have "of_int 0 \<le> t * 360" "t * 360 \<le> of_int 360" using assms by simp_all
  note w = dbl_range [OF this]
  define k where "k = \<lfloor>dblR (t * 360) + 1 / 2\<rfloor>"
  have "0 \<le> k" using w(2) by (simp add: k_def)
  moreover have "dblR (t * 360) + 1 / 2 < 361" using w(3) by simp
  then have "k < 361" unfolding k_def by (simp only: floor_less_iff)
  moreover have "jround (jmul (Fin t) (Fin 360)) = Fin (of_int k)" using w(1) by (simp add: k_def)
  ultimately show ?thesis by (intro exI [of _ k]) simp
qed

lemma rgbToHsl_cc_hue:
  assumes "jdiv r0 (Fin 255) = Fin X" "jdiv g0 (Fin 255) = Fin Y" "jdiv b0 (Fin 255) = Fin Z"
    and "0 \<le> X" "X \<le> 1" "0 \<le> Y" "Y \<le> 1" "0 \<le> Z" "Z \<le> 1"
  shows "\<exists>k::int. 0 \<le> k \<and> k \<le> 360
           \<and> hue (rgbToHsl_cc \<lparr>red = r0, green = g0, blue = b0, alpha = al\<rparr>) = Fin (of_int k)"
proof -
  from hue_value [OF assms(4-9)] obtain t where t: "0 \<le> t" "t \<le> 1" and
    e: "(if dbl (max (max X Y) Z - min (min X Y) Z) \<noteq> Fin 0
          then jdiv (if max (max X Y) Z = X then
                       jadd (jdiv (dbl (Y - Z)) (dbl (max (max X Y) Z - min (min X Y) Z)))
                            (if jlt (Fin Y) (Fin Z) then Fin 6 else Fin 0)
                     else if max (max X Y) Z = Y then
                       jadd (jdiv (dbl (Z - X)) (dbl (max (max X Y) Z - min (min X Y) Z))) (Fin 2)
                     else if max (max X Y) Z = Z then
                       jadd (jdiv (dbl (X - Y)) (dbl (max (max X Y) Z - min (min X Y) Z))) (Fin 4)
                     else Fin 0) (Fin 6)
          else Fin 0) = Fin t" by blast
  have "hue (rgbToHsl_cc \<lparr>red = r0, green = g0, blue = b0, alpha = al\<rparr>) = jround (jmul (Fin t) (Fin 360))"
    unfolding rgbToHsl_cc_def Let_def RgbColor.select_convs HslColor.select_convs assms(1-3)
      max3_def min3_def jmax_Fin jmin_Fin jsub_Fin jeq_Fin e
    by (rule refl)
  with hue_degrees [OF t] show ?thesis by simp
qed

text \<open>The two copies of \<open>rgbToHsl\<close> compute the hue by the same operations: one
  divides by six in each case of the \<open>switch\<close>, the other after it.\<close>

lemma rgbToHsl_same_hue: "hue (rgbToHsl rgb) = hue (rgbToHsl_cc rgb)"
proof -
  have d: "(if c1 then jdiv A (Fin 6) else if c2 then jdiv B (Fin 6)
            else if c3 then jdiv C (Fin 6) else Fin 0)
           = jdiv (if c1 then A else if c2 then B else if c3 then C else Fin 0) (Fin 6)"
    for c1 c2 c3 A B C by simp
  show ?thesis
    unfolding rgbToHsl_def rgbToHsl_cc_def Let_def HslColor.select_convs d
    by (rule refl)
qed

text \<open>
  Claim C2, as amended.  For integer channels between 0 and 255 and any alpha, both
  \<open>rgbToHsl\<close> of the utilities and \<open>rgbToHsl\<close> of the converter return the same
  hue, an integer \<open>k\<close> with \<open>0 \<le> k \<le> 360\<close>.  The upper bound is attained: the hue is
  rounded after it is scaled, and nothing takes it modulo 360.
\<close>

theorem rgbToHsl_hue_range:
  fixes r g b :: int
  assumes "0 \<le> r" "r \<le> 255" "0 \<le> g" "g \<le> 255" "0 \<le> b" "b \<le> 255"
  shows "\<exists>k::int. 0 \<le> k \<and> k \<le> 360
           \<and> hue (rgbToHsl \<lparr>red = Fin (of_int r), green = Fin (of_int g), blue = Fin (of_int b), alpha = al\<rparr>) = Fin (of_int k)
           \<and> hue (rgbToHsl_cc \<lparr>red = Fin (of_int r), green = Fin (of_int g), blue = Fin (of_int b), alpha = al\<rparr>) = Fin (of_int k)"
proof -
  from channel_unit [OF assms(1,2)] obtain X where
    X: "jdiv (Fin (of_int r)) (Fin 255) = Fin X" "0 \<le> X" "X \<le> 1" by blast
  from channel_unit [OF assms(3,4)] obtain Y where
    Y: "jdiv (Fin (of_int g)) (Fin 255) = Fin Y" "0 \<le> Y" "Y \<le> 1" by blast
  from channel_unit [OF assms(5,6)] obtain Z where
    Z: "jdiv (Fin (of_int b)) (Fin 255) = Fin Z" "0 \<le> Z" "Z \<le> 1" by blast
  from rgbToHsl_cc_hue [OF X(1) Y(1) Z(1) X(2,3) Y(2,3) Z(2,3)] obtain k :: int where
    "0 \<le> k" "k \<le> 360"
    "hue (rgbToHsl_cc \<lparr>red = Fin (of_int r), green = Fin (of_int g), blue = Fin (of_int b), alpha = al\<rparr>) = Fin (of_int k)"
    by blast
  then show ?thesis unfolding rgbToHsl_same_hue by blast
qed

text \<open>On the channels \<open>(255, 0, 1)\<close> the hue is \<open>360\<close>: the fraction of the circle is
  near \<open>1 - 1/1530\<close>, which scales to \<open>359.76...\<close> and rounds up.\<close>

theorem rgbToHsl_hue_360:
  "hue (rgbToHsl \<lparr>red = Fin 255, green = Fin 0, blue = Fin 1, alpha = None\<rparr>) = Fin 360
   \<and> hue (rgbToHsl_cc \<lparr>red = Fin 255, green = Fin 0, blue = Fin 1, alpha = None\<rparr>) = Fin 360"
  by (simp add: rgbToHsl_def rgbToHsl_cc_def max3_def min3_def dbl_eval)

theorem rgbToHsl_hue_range_witness:
  "(0::int) \<le> 255 \<and> (0::int) \<le> 0 \<and> (0::int) \<le> 1 \<and> (1::int) \<le> 255
   \<and> (\<exists>k::int. 0 \<le> k \<and> k \<le> 360
         \<and> hue (rgbToHsl \<lparr>red = Fin 255, green = Fin 0, blue = Fin 1, alpha = None\<rparr>)
             = Fin (of_int k)
         \<and> hue (rgbToHsl_cc \<lparr>red = Fin 255, green = Fin 0, blue = Fin 1, alpha = None\<rparr>)
             = Fin (of_int k))"
  using rgbToHsl_hue_range [of 255 0 1 None] by simp

subsection \<open>Hex round trip\<close>

lemma lowerHex_facts:
  assumes "isLowerHex c"
  shows "\<not> isSpace c" "c \<noteq> CHR ''-''" "c \<noteq> CHR ''+''" "c \<noteq> CHR ''x''" "c \<noteq> CHR ''X''" "c \<noteq> CHR ''#''"
    "digitVal c < 16" "hexChar (digitVal c) = c"
  using assms
  by (auto simp: isLowerHex_def isDigit_def isSpace_def code_def digitVal_def hexChar_def
        isLowerAscii_def isUpperAscii_def)

lemma natToString_small: "n < 16 \<Longrightarrow> natToString 16 n = [hexChar n]"
  by (simp add: natToString.simps)

lemma natToString_two: "16 \<le> n \<Longrightarrow> n < 256 \<Longrightarrow> natToString 16 n = [hexChar (n div 16), hexChar (n mod 16)]"
  by (subst natToString.simps) (simp add: natToString_small less_mult_imp_div_less)

lemma parseInt_pair:
  assumes "isLowerHex c" "isLowerHex d"
  shows "parseInt [c, d] 16 = Fin (real (digitVal c * 16 + digitVal d))"
proof -
  note c = lowerHex_facts [OF assms(1)] and d = lowerHex_facts [OF assms(2)]
  define k where "k = int (digitVal c) * 16 + int (digitVal d)"
  have "parseInt [c, d] 16 = dbl (of_int k)"
    using c d by (simp add: parseInt_def startsWith_def digitsValue_def Let_def k_def)
  also have "\<dots> = Fin (of_int k)" using c(7) d(7) by (intro dbl_int) (simp add: k_def)
  also have "real_of_int k = real (digitVal c * 16 + digitVal d)" by (simp add: k_def)
  finally show ?thesis .
qed

lemma hexChar_0: "hexChar 0 = CHR ''0''"
  by code_simp

lemma digitVal_0: "isLowerHex c \<Longrightarrow> digitVal c = 0 \<Longrightarrow> c = CHR ''0''"
  using lowerHex_facts(8) [of c] by (simp add: hexChar_0)

lemma toHex_nat: "toHex (Fin (real n)) = padStart2 (natToString 16 n)"
  by (simp add: toHex_def intToString_def)

lemma toHex_pair:
  assumes "isLowerHex c" "isLowerHex d"
  shows "toHex (Fin (real (digitVal c * 16 + digitVal d))) = [c, d]"
proof -
  have c: "digitVal c < 16" "hexChar (digitVal c) = c" and d: "digitVal d < 16" "hexChar (digitVal d) = d"
    using lowerHex_facts assms by simp_all
  show ?thesis
  proof (cases "digitVal c = 0")
    case True
    then have "c = CHR ''0''" using assms(1) digitVal_0 by blast
    then show ?thesis
      unfolding toHex_nat using True d by (simp add: natToString_small padStart2_def)
  next
    case False
    then have "16 \<le> digitVal c * 16 + digitVal d" "digitVal c * 16 + digitVal d < 256"
      using c d by simp_all
    then show ?thesis
      unfolding toHex_nat using c d by (simp add: natToString_two padStart2_def)
  qed
qed

lemma list6: "length ds = 6 \<Longrightarrow> \<exists>c1 c2 c3 c4 c5 c6. ds = [c1, c2, c3, c4, c5, c6]"
  by (auto simp: length_Suc_conv numeral_eq_Suc)

text \<open>
  Claim C1.  For a string \<open>h\<close> made of \<open>#\<close> and six lower-case hex digits,
  \<open>parseColor h\<close> is a colour with no alpha whose three channels are integers from
  0 to 255, and \<open>rgbToHex\<close> of that colour is \<open>h\<close> again.
\<close>

theorem hex_roundtrip:
  assumes "length ds = 6" and "\<forall>c \<in> set ds. isLowerHex c"
  shows "\<exists>r g b. r \<le> 255 \<and> g \<le> 255 \<and> b \<le> 255
           \<and> parseColor (CHR ''#'' # ds) = Some \<lparr>red = Fin (real r), green = Fin (real g), blue = Fin (real b), alpha = None\<rparr>
           \<and> rgbToHex \<lparr>red = Fin (real r), green = Fin (real g), blue = Fin (real b), alpha = None\<rparr> = CHR ''#'' # ds"
proof -
  obtain c1 c2 c3 c4 c5 c6 where ds: "ds = [c1, c2, c3, c4, c5, c6]"
    using list6 [OF assms(1)] by blast
  have h: "isLowerHex c1" "isLowerHex c2" "isLowerHex c3" "isLowerHex c4" "isLowerHex c5" "isLowerHex c6"
    using assms(2) by (simp_all add: ds)
  define r where "r = digitVal c1 * 16 + digitVal c2"
  define g where "g = digitVal c3 * 16 + digitVal c4"
  define b where "b = digitVal c5 * 16 + digitVal c6"
  have bounds: "r \<le> 255" "g \<le> 255" "b \<le> 255"
    using h lowerHex_facts(7) [of c1] lowerHex_facts(7) [of c2] lowerHex_facts(7) [of c3]
      lowerHex_facts(7) [of c4] lowerHex_facts(7) [of c5] lowerHex_facts(7) [of c6]
    by (simp_all add: r_def g_def b_def)
  have tr: "trim (CHR ''#'' # ds) = CHR ''#'' # ds"
    using lowerHex_facts(1) [OF h(6)] by (simp add: trim_def ds isSpace_def code_def)
  have ph: "parseHex (CHR ''#'' # ds) = Some \<lparr>red = Fin (real r), green = Fin (real g), blue = Fin (real b), alpha = None\<rparr>"
    unfolding parseHex_def ds r_def g_def b_def
    by (simp add: startsWith_def substring_def parseInt_pair h Let_def del: of_nat_add of_nat_mult)
  have pc: "parseColor (CHR ''#'' # ds) = Some \<lparr>red = Fin (real r), green = Fin (real g), blue = Fin (real b), alpha = None\<rparr>"
    unfolding parseColor_def tr Let_def using ph by (simp add: startsWith_def)
  have th: "rgbToHex \<lparr>red = Fin (real r), green = Fin (real g), blue = Fin (real b), alpha = None\<rparr> = CHR ''#'' # ds"
    unfolding rgbToHex_def Let_def r_def g_def b_def
    by (simp add: toHex_pair h ds del: of_nat_add of_nat_mult)
  show ?thesis using bounds pc th by blast
qed

theorem hex_roundtrip_witness:
  "length ''ff00a0'' = 6
   \<and> (\<exists>r g b. r \<le> 255 \<and> g \<le> 255 \<and> b \<le> 255
         \<and> parseColor ''#ff00a0''
             = Some \<lparr>red = Fin (real r), green = Fin (real g), blue = Fin (real b), alpha = None\<rparr>
         \<and> rgbToHex \<lparr>red = Fin (real r), green = Fin (real g), blue = Fin (real b), alpha = None\<rparr>
             = ''#ff00a0'')"
proof -
  have h: "length ''ff00a0'' = 6" "\<forall>c \<in> set ''ff00a0''. isLowerHex c"
    by (simp_all add: isLowerHex_def isDigit_def code_def)
  show ?thesis using h(1) hex_roundtrip [OF h] by blast
qed

subsection \<open>Hex serialisation and alpha\<close>



lemma natToString_len2: "n < 256 \<Longrightarrow> length (natToString 16 n) \<le> 2"
  by (cases "n < 16") (simp_all add: natToString_small natToString_two)

lemma dbl_not_NaN [simp]: "\<not> isNaN (dbl x)"
  by (simp add: dbl_def Let_def isNaN_def)
















subsection \<open>convertColor\<close>

text \<open>
  Claim C4.  When the converter's parser returns \<open>null\<close> for the value of a colour,
  \<open>convertColor\<close> returns, for any options, a result with \<open>success = false\<close>, the
  error \<open>Unable to parse color: \<close> followed by the value, and \<open>converted\<close> equal to
  the value.  No input makes it throw: the only \<open>throw\<close> of the body, for a target
  format that is not listed, is caught, so every call returns either a success
  without an error or a failure with an error and the untouched value.
\<close>

theorem convertColor_unparseable:
  "(parseColorToRGB (val c) = None \<longrightarrow>
      success (convertColor fracText now c opts) = False
      \<and> error (convertColor fracText now c opts) = Some (''Unable to parse color: '' @ val c)
      \<and> converted (convertColor fracText now c opts) = val c)
   \<and> (success (convertColor fracText now c opts) \<and> error (convertColor fracText now c opts) = None
        \<or> \<not> success (convertColor fracText now c opts)
          \<and> error (convertColor fracText now c opts) \<noteq> None
          \<and> converted (convertColor fracText now c opts) = val c)"
  by (auto simp: convertColor_def convertColor_try_def split: option.splits sum.splits)

theorem convertColor_unparseable_witness:
  "parseColorToRGB ''garbage'' = None
   \<and> success (convertColor noFracText 0
         \<lparr>val = ''garbage'', fmt = Unknown, position = None, ctx = None\<rparr>
         \<lparr>targetFormat = ''hex'', preserveAlpha = False, roundValues = False, uppercase = False,
          shortHex = False\<rparr>) = False
   \<and> converted (convertColor noFracText 0
         \<lparr>val = ''garbage'', fmt = Unknown, position = None, ctx = None\<rparr>
         \<lparr>targetFormat = ''hex'', preserveAlpha = False, roundValues = False, uppercase = False,
          shortHex = False\<rparr>) = ''garbage''"
proof -
  have h: "parseColorToRGB ''garbage'' = None" by code_simp
  show ?thesis
    using h convertColor_unparseable [of "\<lparr>val = ''garbage'', fmt = Unknown, position = None, ctx = None\<rparr>"
        noFracText 0 "\<lparr>targetFormat = ''hex'', preserveAlpha = False, roundValues = False,
          uppercase = False, shortHex = False\<rparr>"]
    by simp
qed

text \<open>
  Claim C9, as amended.  Two calls of \<open>convertColor\<close> with equal arguments return
  results that agree in \<open>original\<close>, \<open>converted\<close>, \<open>format\<close>, \<open>success\<close> and \<open>error\<close>;
  the field \<open>timestamp\<close> is the reading of the clock at each call.
\<close>

theorem convertColor_clock:
  "convertColor fracText now1 c opts = (convertColor fracText now2 c opts)\<lparr>timestamp := now1\<rparr>
   \<and> timestamp (convertColor fracText now1 c opts) = now1"
  by (auto simp: convertColor_def convertColor_try_def split: option.splits sum.splits)

text \<open>Two calls with equal arguments at the clock readings 0 and 1 return different
  results.\<close>

theorem convertColor_timestamps_differ:
  "convertColor noFracText 0
       \<lparr>val = ''#ff0000'', fmt = Hex, position = None, ctx = None\<rparr>
       \<lparr>targetFormat = ''hex'', preserveAlpha = False, roundValues = False, uppercase = False,
        shortHex = False\<rparr>
   \<noteq> convertColor noFracText 1
       \<lparr>val = ''#ff0000'', fmt = Hex, position = None, ctx = None\<rparr>
       \<lparr>targetFormat = ''hex'', preserveAlpha = False, roundValues = False, uppercase = False,
        shortHex = False\<rparr>"
  by (simp add: convertColor_def convertColor_try_def split: option.splits sum.splits)

subsection \<open>The matcher\<close>


text \<open>A step of the matcher: \<open>st'\<close> is one of the results of \<open>r\<close> at \<open>st\<close>.\<close>

lemma rx_Seq_iff:
  "st'' \<in> set (rx (Seq r1 r2) fl st) \<longleftrightarrow> (\<exists>st' \<in> set (rx r1 fl st). st'' \<in> set (rx r2 fl st'))"
  by auto

lemma rx_SeqE:
  assumes "st'' \<in> set (rx (Seq r1 r2) fl st)"
  obtains st' where "st' \<in> set (rx r1 fl st)" "st'' \<in> set (rx r2 fl st')"
  using assms by auto

text \<open>What a state has consumed since another: a word \<open>w\<close>.\<close>

definition consumed :: "mstate \<Rightarrow> mstate \<Rightarrow> string \<Rightarrow> bool" where
  "consumed st st' w \<longleftrightarrow> fst st' = rev w @ fst st \<and> fst (snd st) = w @ fst (snd st')"

lemma consumed_refl: "consumed st st []"
  by (simp add: consumed_def)

lemma consumed_trans: "consumed st st' w \<Longrightarrow> consumed st' st'' w' \<Longrightarrow> consumed st st'' (w @ w')"
  by (simp add: consumed_def)

lemma consumed_remaining: "consumed st st' w \<Longrightarrow> remaining st = length w + remaining st'"
  by (simp add: consumed_def remaining_def)

lemma greedyLoop_chars:
  assumes f: "\<And>st st'. st' \<in> set (f st) \<Longrightarrow> \<exists>w. consumed st st' w \<and> (\<forall>c \<in> set w. P c)"
  shows "st' \<in> set (greedyLoop f n st) \<Longrightarrow> \<exists>w. consumed st st' w \<and> (\<forall>c \<in> set w. P c)"
proof (induction n arbitrary: st)
  case 0
  then show ?case by (intro exI [of _ "[]"]) (simp add: consumed_refl)
next
  case (Suc n)
  from Suc.prems consider "st' = st"
    | st1 where "st1 \<in> set (f st)" "st' \<in> set (greedyLoop f n st1)"
    by auto
  then show ?case
  proof cases
    case 1
    then show ?thesis by (intro exI [of _ "[]"]) (simp add: consumed_refl)
  next
    case 2
    from f [OF 2(1)] obtain w1 where w1: "consumed st st1 w1" "\<forall>c \<in> set w1. P c" by blast
    from Suc.IH [OF 2(2)] obtain w2 where w2: "consumed st1 st' w2" "\<forall>c \<in> set w2. P c" by blast
    from consumed_trans [OF w1(1) w2(1)] w1(2) w2(2) show ?thesis
      by (intro exI [of _ "w1 @ w2"]) auto
  qed
qed

lemma lazyLoop_chars:
  assumes f: "\<And>st st'. st' \<in> set (f st) \<Longrightarrow> \<exists>w. consumed st st' w \<and> (\<forall>c \<in> set w. P c)"
  shows "st' \<in> set (lazyLoop f n st) \<Longrightarrow> \<exists>w. consumed st st' w \<and> (\<forall>c \<in> set w. P c)"
proof (induction n arbitrary: st)
  case 0
  then show ?case by (intro exI [of _ "[]"]) (simp add: consumed_refl)
next
  case (Suc n)
  from Suc.prems consider "st' = st"
    | st1 where "st1 \<in> set (f st)" "st' \<in> set (lazyLoop f n st1)"
    by auto
  then show ?case
  proof cases
    case 1
    then show ?thesis by (intro exI [of _ "[]"]) (simp add: consumed_refl)
  next
    case 2
    from f [OF 2(1)] obtain w1 where w1: "consumed st st1 w1" "\<forall>c \<in> set w1. P c" by blast
    from Suc.IH [OF 2(2)] obtain w2 where w2: "consumed st1 st' w2" "\<forall>c \<in> set w2. P c" by blast
    from consumed_trans [OF w1(1) w2(1)] w1(2) w2(2) show ?thesis
      by (intro exI [of _ "w1 @ w2"]) auto
  qed
qed

lemma consumed_setCapture: "consumed st st' w \<Longrightarrow> consumed st (setCapture k st0 st') w"
  by (cases st') (simp add: consumed_def setCapture_def)

lemma rx_Chr_iff:
  "st' \<in> set (rx (Chr p) fl st) \<longleftrightarrow>
     (\<exists>c aft. fst (snd st) = c # aft \<and> chrEq (ignoreCase fl) p c
        \<and> st' = (c # fst st, aft, snd (snd st)))"
  by (cases st) (auto split: list.splits)

lemma rx_Cls_iff:
  "st' \<in> set (rx (Cls neg rs) fl st) \<longleftrightarrow>
     (\<exists>c aft. fst (snd st) = c # aft \<and> clsMember (ignoreCase fl) rs c \<noteq> neg
        \<and> st' = (c # fst st, aft, snd (snd st)))"
  by (cases st) (auto split: list.splits)

lemma consumed_one: "fst (snd st) = c # aft \<Longrightarrow> consumed st (c # fst st, aft, caps) [c]"
  by (simp add: consumed_def)

lemma rx_chars:
  "st' \<in> set (rx r fl st) \<Longrightarrow> \<exists>w. consumed st st' w \<and> (\<forall>c \<in> set w. charOK (ignoreCase fl) r c)"
proof (induction r arbitrary: st st')
  case (Chr p)
  then obtain c aft where "fst (snd st) = c # aft" "chrEq (ignoreCase fl) p c"
    "st' = (c # fst st, aft, snd (snd st))"
    unfolding rx_Chr_iff by blast
  then show ?case
    by (intro exI [of _ "[c]"]) (simp add: consumed_one)
next
  case (Cls neg rs)
  then obtain c aft where "fst (snd st) = c # aft" "clsMember (ignoreCase fl) rs c \<noteq> neg"
    "st' = (c # fst st, aft, snd (snd st))"
    unfolding rx_Cls_iff by blast
  then show ?case
    by (intro exI [of _ "[c]"]) (simp add: consumed_one)
next
  case Eps
  then show ?case by (intro exI [of _ "[]"]) (simp add: consumed_refl)
next
  case (Seq r1 r2)
  from Seq.prems obtain st1 where s: "st1 \<in> set (rx r1 fl st)" "st' \<in> set (rx r2 fl st1)"
    by (rule rx_SeqE)
  from Seq.IH(1) [OF s(1)] obtain w1 where w1: "consumed st st1 w1"
    "\<forall>c \<in> set w1. charOK (ignoreCase fl) r1 c" by blast
  from Seq.IH(2) [OF s(2)] obtain w2 where w2: "consumed st1 st' w2"
    "\<forall>c \<in> set w2. charOK (ignoreCase fl) r2 c" by blast
  from consumed_trans [OF w1(1) w2(1)] w1(2) w2(2) show ?case
    by (intro exI [of _ "w1 @ w2"]) auto
next
  case (Alt r1 r2)
  from Alt.prems have "st' \<in> set (rx r1 fl st) \<or> st' \<in> set (rx r2 fl st)" by simp
  then show ?case
  proof
    assume "st' \<in> set (rx r1 fl st)"
    from Alt.IH(1) [OF this] show ?thesis by auto
  next
    assume "st' \<in> set (rx r2 fl st)"
    from Alt.IH(2) [OF this] show ?thesis by auto
  qed
next
  case (Star r)
  then show ?case using greedyLoop_chars [of "rx r fl" "charOK (ignoreCase fl) r"] by simp
next
  case (Lazy r)
  then show ?case using lazyLoop_chars [of "rx r fl" "charOK (ignoreCase fl) r"] by simp
next
  case (Grp k r)
  from Grp.prems obtain st1 where s: "st1 \<in> set (rx r fl st)" "st' = setCapture k st st1"
    by auto
  from Grp.IH [OF s(1)] obtain w where "consumed st st1 w" "\<forall>c \<in> set w. charOK (ignoreCase fl) r c"
    by blast
  then show ?case
    unfolding s(2) by (intro exI [of _ w]) (simp add: consumed_setCapture)
next
  case Bol
  then have "st' = st" by (cases st) (auto split: list.splits if_splits)
  then show ?case by (intro exI [of _ "[]"]) (simp add: consumed_refl)
next
  case Eol
  then have "st' = st" by (cases st) (auto split: list.splits if_splits)
  then show ?case by (intro exI [of _ "[]"]) (simp add: consumed_refl)
next
  case Wordb
  then have "st' = st" by (cases st) (auto split: list.splits if_splits)
  then show ?case by (intro exI [of _ "[]"]) (simp add: consumed_refl)
qed

lemma rx_consumed:
  assumes "st' \<in> set (rx r fl st)"
  shows "\<exists>w. consumed st st' w"
proof -
  from rx_chars [OF assms] obtain w where "consumed st st' w" by blast
  then show ?thesis by (rule exI)
qed

lemma rx_mono:
  assumes "st' \<in> set (rx r fl st)"
  shows "remaining st' \<le> remaining st"
proof -
  from rx_consumed [OF assms] obtain w where "consumed st st' w" by blast
  then show ?thesis by (simp add: consumed_remaining)
qed

lemma rx_consuming:
  "consuming r \<Longrightarrow> st' \<in> set (rx r fl st) \<Longrightarrow> remaining st' < remaining st"
proof (induction r arbitrary: st st')
  case (Seq r1 r2)
  from Seq.prems(2) obtain st1 where s: "st1 \<in> set (rx r1 fl st)" "st' \<in> set (rx r2 fl st1)"
    by (rule rx_SeqE)
  from Seq.prems(1) have "consuming r1 \<or> consuming r2" by simp
  then show ?case
  proof
    assume "consuming r1"
    from Seq.IH(1) [OF this s(1)] rx_mono [OF s(2)] show ?thesis by simp
  next
    assume "consuming r2"
    from Seq.IH(2) [OF this s(2)] rx_mono [OF s(1)] show ?thesis by simp
  qed
next
  case (Grp k r)
  from Grp.prems(2) obtain st1 where s: "st1 \<in> set (rx r fl st)" "st' = setCapture k st st1"
    by auto
  have "remaining (setCapture k st st1) = remaining st1"
    by (cases st1) (simp add: remaining_def setCapture_def)
  with Grp.IH [OF _ s(1)] Grp.prems(1) s(2) show ?case by simp
next
  case (Chr p)
  then show ?case unfolding rx_Chr_iff by (auto simp: remaining_def)
next
  case (Cls neg rs)
  then show ?case unfolding rx_Cls_iff by (auto simp: remaining_def)
next
  case (Alt r1 r2)
  from Alt.prems have c: "consuming r1" "consuming r2"
    and m: "st' \<in> set (rx r1 fl st) \<or> st' \<in> set (rx r2 fl st)" by simp_all
  from m Alt.IH(1) [OF c(1)] Alt.IH(2) [OF c(2)] show ?case by blast
qed simp_all

subsection \<open>Searching\<close>

lemma rxSearch_Some:
  "rxSearch r fl bef aft = Some (m, bef', aft') \<Longrightarrow>
     \<exists>pre post st' rest. aft = pre @ post \<and> rx r fl (rev pre @ bef, post, []) = st' # rest
       \<and> m = mkMatch (rev pre @ bef) st' \<and> bef' = fst st' \<and> aft' = fst (snd st')"
proof (induction r fl bef aft rule: rxSearch.induct)
  case (1 r fl bef aft)
  show ?case
  proof (cases "rx r fl (bef, aft, [])")
    case Nil
    with "1.prems" obtain c aft2 where a: "aft = c # aft2"
      and s: "rxSearch r fl (c # bef) aft2 = Some (m, bef', aft')"
      by (auto split: list.splits)
    from "1.IH" [OF Nil a s] obtain pre post st' rest where
      "aft2 = pre @ post" "rx r fl (rev pre @ c # bef, post, []) = st' # rest"
      "m = mkMatch (rev pre @ c # bef) st'" "bef' = fst st'" "aft' = fst (snd st')"
      by blast
    then show ?thesis
      using a by (intro exI [of _ "c # pre"] exI [of _ post] exI [of _ st'] exI [of _ rest]) simp
  next
    case (Cons st' rest)
    with "1.prems" show ?thesis
      by (intro exI [of _ "[]"] exI [of _ aft] exI [of _ st'] exI [of _ rest]) simp
  qed
qed

lemma rxSearch_shorter:
  assumes "consuming r" "rxSearch r fl bef aft = Some (m, bef', aft')"
  shows "length aft' < length aft"
proof -
  from rxSearch_Some [OF assms(2)] obtain pre post st' rest where
    p: "aft = pre @ post" "rx r fl (rev pre @ bef, post, []) = st' # rest" "aft' = fst (snd st')"
    by blast
  then have "st' \<in> set (rx r fl (rev pre @ bef, post, []))" by simp
  from rx_consuming [OF assms(1) this] show ?thesis
    using p by (simp add: remaining_def)
qed

lemma rxExecLoop_total:
  "consuming r \<Longrightarrow> \<exists>ms. rxExecLoop r fl bef aft = Some ms"
proof (induction r fl bef aft rule: rxExecLoop.induct)
  case (1 r fl bef aft)
  show ?case
  proof (cases "rxSearch r fl bef aft")
    case None
    then show ?thesis by (simp add: rxExecLoop.simps)
  next
    case (Some x)
    obtain m bef' aft' where x: "x = (m, bef', aft')" by (cases x)
    have lt: "length aft' < length aft"
      using rxSearch_shorter [OF "1.prems"] Some x by blast
    from "1.IH" [OF Some x [symmetric] refl lt "1.prems"]
    obtain ms where "rxExecLoop r fl bef' aft' = Some ms" by blast
    then show ?thesis
      using Some x lt by (subst rxExecLoop.simps) simp
  qed
qed

lemma execAll_total: "consuming r \<Longrightarrow> \<exists>ms. execAll r fl row = Some ms"
  by (simp add: execAll_def rxExecLoop_total)

subsection \<open>Line by line\<close>

lemma those_Some: "those xs = Some ys \<Longrightarrow> xs = map Some ys"
  by (induction xs arbitrary: ys) (auto split: option.splits)

lemma those_total: "(\<And>x. x \<in> set xs \<Longrightarrow> \<exists>y. x = Some y) \<Longrightarrow> \<exists>ys. those xs = Some ys"
  by (induction xs) (auto split: option.splits)

lemma forEachLine_total:
  assumes "\<And>row i. \<exists>cs. f row i = Some cs"
  shows "\<exists>cs. forEachLine f content = Some cs"
proof -
  have "\<exists>ys. those (map (\<lambda>(i, row). f row i) (enumerate 0 (splitLines content))) = Some ys"
    by (rule those_total) (use assms in auto)
  then show ?thesis by (auto simp: forEachLine_def)
qed

lemma forEachLine_member:
  assumes "forEachLine f content = Some cs" "c \<in> set cs"
  shows "\<exists>i csi. i < length (splitLines content) \<and> f (splitLines content ! i) i = Some csi
           \<and> c \<in> set csi"
proof -
  from assms(1) obtain ys where
    ys: "those (map (\<lambda>(i, row). f row i) (enumerate 0 (splitLines content))) = Some ys"
    and cs: "cs = concat ys"
    by (auto simp: forEachLine_def)
  from those_Some [OF ys]
  have m: "map (\<lambda>(i, row). f row i) (enumerate 0 (splitLines content)) = map Some ys" .
  from assms(2) cs obtain csi where csi: "csi \<in> set ys" "c \<in> set csi" by auto
  then have "Some csi \<in> set (map (\<lambda>(i, row). f row i) (enumerate 0 (splitLines content)))"
    unfolding m by simp
  then obtain i row where "(i, row) \<in> set (enumerate 0 (splitLines content))" "f row i = Some csi"
    by auto
  then have "i < length (splitLines content)" "f (splitLines content ! i) i = Some csi"
    by (auto simp: in_set_enumerate_eq)
  with csi(2) show ?thesis by blast
qed

subsection \<open>The stylesheet extractor\<close>

lemma consuming_patterns:
  "consuming HEX_PATTERN" "consuming RGB_PATTERN" "consuming RGBA_PATTERN"
  "consuming HSL_PATTERN" "consuming HSLA_PATTERN" "consuming STRING_COLOR_PATTERN"
  by (simp_all add: HEX_PATTERN_def RGB_PATTERN_def RGBA_PATTERN_def HSL_PATTERN_def
        HSLA_PATTERN_def STRING_COLOR_PATTERN_def lit_def)

lemma cssLine_total: "\<exists>cs. cssLine row i = Some cs"
proof -
  obtain m1 m2 m3 m4 m5 where
    "execAll HEX_PATTERN noFlags row = Some m1" "execAll RGB_PATTERN noFlags row = Some m2"
    "execAll RGBA_PATTERN noFlags row = Some m3" "execAll HSL_PATTERN noFlags row = Some m4"
    "execAll HSLA_PATTERN noFlags row = Some m5"
    using execAll_total consuming_patterns by metis
  then show ?thesis by (simp add: cssLine_def)
qed

lemma cssLine_member:
  assumes "cssLine row i = Some cs" "c \<in> set cs"
  shows "\<exists>k. \<not> isInComment row k
           \<and> position c = Some \<lparr>line = i + 1, column = k + 1\<rparr>"
  using assms
  by (auto simp: cssLine_def addColor_def split: bind_splits if_splits)

lemma extractFromCss_total: "\<exists>cs. extractFromCss content = Some cs"
  unfolding extractFromCss_def by (rule forEachLine_total) (rule cssLine_total)

lemma extractFromCss_member:
  assumes "extractFromCss content = Some cs" "c \<in> set cs"
  shows "\<exists>p. position c = Some p \<and> 1 \<le> line p \<and> line p \<le> length (splitLines content)
           \<and> 1 \<le> column p
           \<and> \<not> isInComment (splitLines content ! (line p - 1)) (column p - 1)"
proof -
  from forEachLine_member [OF assms [unfolded extractFromCss_def]]
  obtain i csi where i: "i < length (splitLines content)"
    "cssLine (splitLines content ! i) i = Some csi" "c \<in> set csi" by blast
  from cssLine_member [OF i(2) i(3)] obtain k where
    "\<not> isInComment (splitLines content ! i) k"
    "position c = Some \<lparr>line = i + 1, column = k + 1\<rparr>" by blast
  with i(1) show ?thesis by simp
qed

lemma css_example:
  "extractFromCss ''.c{color:#ff0000}/* #00ff00 */'' =
     Some [\<lparr>val = ''#ff0000'', fmt = Hex, position = Some \<lparr>line = 1, column = 10\<rparr>,
            ctx = Some ''.c{color:#ff0000}/* #00ff00 */''\<rparr>]"
  by code_simp

subsection \<open>The script extractor\<close>

lemma mapSet_values: "snd ` set (mapSet m k v) \<subseteq> insert v (snd ` set m)"
  by (induction m) auto

lemma foldl_mapSet_values:
  "snd ` set (foldl (\<lambda>m c. mapSet m (key c) c) m0 cs) \<subseteq> snd ` set m0 \<union> set cs"
proof (induction cs arbitrary: m0)
  case Nil
  then show ?case by simp
next
  case (Cons c cs)
  from Cons.IH [of "mapSet m0 (key c) c"] mapSet_values [of m0 "key c" c]
  show ?case by auto
qed

lemma uniqueByKey_subset: "set (uniqueByKey cs) \<subseteq> set cs"
  using foldl_mapSet_values [of colorKey "[]" cs] by (simp add: uniqueByKey_def)

lemma jsLine_total: "\<exists>cs. jsLine row i = Some cs"
proof -
  obtain m1 m2 m3 m4 m5 m6 where
    "execAll HEX_PATTERN noFlags row = Some m1" "execAll RGB_PATTERN noFlags row = Some m2"
    "execAll RGBA_PATTERN noFlags row = Some m3" "execAll HSL_PATTERN noFlags row = Some m4"
    "execAll HSLA_PATTERN noFlags row = Some m5" "execAll STRING_COLOR_PATTERN noFlags row = Some m6"
    using execAll_total consuming_patterns by metis
  then show ?thesis by (simp add: jsLine_def)
qed

lemma jsLine_member:
  assumes "jsLine row i = Some cs" "c \<in> set cs"
  shows "\<exists>k. isStyleContext row k \<and> position c = Some \<lparr>line = i + 1, column = k + 1\<rparr>"
  using assms
  by (auto simp: jsLine_def pushToken_def pushString_def jsColor_def
        split: bind_splits if_splits option.splits)

text \<open>What \<open>isStyleContext\<close> demands of a line and an index.\<close>

lemma isStyleContext_evidence:
  assumes "isStyleContext row k"
  shows "\<not> includesStr (substring row 0 k) ''//''
         \<and> (hasStyleKeyword row \<or> hasCssInJs row
            \<or> (rxTest objectPattern noFlags (substring row 0 k)
                \<and> rxTest stylePropertyPattern noFlags row)
            \<or> rxTest styleVarPattern noFlags row
            \<or> rxTest themeContextPattern noFlags row)"
  using assms unfolding isStyleContext_def Let_def by (simp split: if_splits)

lemma extractFromJavaScript_total: "\<exists>cs. extractFromJavaScript content = Some cs"
proof -
  have "\<exists>cs. forEachLine jsLine content = Some cs"
    by (rule forEachLine_total) (rule jsLine_total)
  then show ?thesis by (auto simp: extractFromJavaScript_def)
qed

lemma extractFromJavaScript_member:
  assumes "extractFromJavaScript content = Some cs" "c \<in> set cs"
  shows "\<exists>p. position c = Some p \<and> 1 \<le> line p \<and> line p \<le> length (splitLines content)
           \<and> 1 \<le> column p
           \<and> isStyleContext (splitLines content ! (line p - 1)) (column p - 1)"
proof -
  from assms(1) obtain cs0 where cs0: "forEachLine jsLine content = Some cs0"
    "cs = uniqueByKey cs0"
    by (auto simp: extractFromJavaScript_def)
  with assms(2) uniqueByKey_subset have "c \<in> set cs0" by blast
  from forEachLine_member [OF cs0(1) this]
  obtain i csi where i: "i < length (splitLines content)"
    "jsLine (splitLines content ! i) i = Some csi" "c \<in> set csi" by blast
  from jsLine_member [OF i(2) i(3)] obtain k where
    "isStyleContext (splitLines content ! i) k"
    "position c = Some \<lparr>line = i + 1, column = k + 1\<rparr>" by blast
  with i(1) show ?thesis by simp
qed

lemma js_example:
  "extractFromJavaScript (''const url='' @ [CHR 0x27] @ ''https://x/#ff0000'' @ [CHR 0x27] @ '';'')
     = Some []"
  by code_simp

subsection \<open>The claims about the extractors\<close>

text \<open>
  Claim C5.  \<open>extractFromCss\<close> returns for every document, and every colour it
  returns carries a position, 1-based in line and column, whose match index on its
  line is not inside a comment as \<open>isInComment\<close> decides it: the last \<open>/*\<close> before
  the index is not after the last \<open>*/\<close> before it.  On the document
  \<open>.c{color:#ff0000}/* #00ff00 */\<close> it returns exactly one colour, \<open>#ff0000\<close>.
\<close>

theorem extractFromCss_skips_comments:
  "(\<exists>cs. extractFromCss content = Some cs)
   \<and> (\<forall>cs c. extractFromCss content = Some cs \<and> c \<in> set cs \<longrightarrow>
         (\<exists>p. position c = Some p \<and> 1 \<le> line p \<and> line p \<le> length (splitLines content)
            \<and> 1 \<le> column p
            \<and> \<not> isInComment (splitLines content ! (line p - 1)) (column p - 1)))
   \<and> extractFromCss ''.c{color:#ff0000}/* #00ff00 */'' =
       Some [\<lparr>val = ''#ff0000'', fmt = Hex, position = Some \<lparr>line = 1, column = 10\<rparr>,
            ctx = Some ''.c{color:#ff0000}/* #00ff00 */''\<rparr>]"
  using extractFromCss_total extractFromCss_member css_example by blast

theorem extractFromCss_skips_comments_witness:
  "\<exists>p. position \<lparr>val = ''#ff0000'', fmt = Hex, position = Some \<lparr>line = 1, column = 10\<rparr>,
            ctx = Some ''.c{color:#ff0000}/* #00ff00 */''\<rparr> = Some p
     \<and> 1 \<le> line p \<and> line p \<le> length (splitLines ''.c{color:#ff0000}/* #00ff00 */'')
     \<and> 1 \<le> column p
     \<and> \<not> isInComment (splitLines ''.c{color:#ff0000}/* #00ff00 */'' ! (line p - 1)) (column p - 1)"
  using extractFromCss_skips_comments [of "''.c{color:#ff0000}/* #00ff00 */''",
      THEN conjunct2, THEN conjunct1, rule_format,
      of "[\<lparr>val = ''#ff0000'', fmt = Hex, position = Some \<lparr>line = 1, column = 10\<rparr>,
            ctx = Some ''.c{color:#ff0000}/* #00ff00 */''\<rparr>]" "\<lparr>val = ''#ff0000'', fmt = Hex, position = Some \<lparr>line = 1, column = 10\<rparr>,
            ctx = Some ''.c{color:#ff0000}/* #00ff00 */''\<rparr>"]
    css_example
  by simp

text \<open>
  Claim C6.  \<open>extractFromJavaScript\<close> returns for every document.  Every colour it
  returns was accepted by \<open>isStyleContext\<close> at its line and match index: no \<open>//\<close>
  precedes the match on the line, and the line shows evidence of a style context
  (a style keyword, a CSS-in-JS pattern, an open object with a style property, a
  style variable, or a theme context).  On the line
  \<open>const url='https://x/#ff0000';\<close> it returns no colour.
\<close>

theorem extractFromJavaScript_style_context:
  "(\<exists>cs. extractFromJavaScript content = Some cs)
   \<and> (\<forall>cs c. extractFromJavaScript content = Some cs \<and> c \<in> set cs \<longrightarrow>
         (\<exists>p. position c = Some p \<and> 1 \<le> line p \<and> line p \<le> length (splitLines content)
            \<and> 1 \<le> column p
            \<and> \<not> includesStr (substring (splitLines content ! (line p - 1)) 0 (column p - 1)) ''//''
            \<and> (hasStyleKeyword (splitLines content ! (line p - 1))
               \<or> hasCssInJs (splitLines content ! (line p - 1))
               \<or> (rxTest objectPattern noFlags
                      (substring (splitLines content ! (line p - 1)) 0 (column p - 1))
                   \<and> rxTest stylePropertyPattern noFlags (splitLines content ! (line p - 1)))
               \<or> rxTest styleVarPattern noFlags (splitLines content ! (line p - 1))
               \<or> rxTest themeContextPattern noFlags (splitLines content ! (line p - 1)))))
   \<and> extractFromJavaScript
        (''const url='' @ [CHR 0x27] @ ''https://x/#ff0000'' @ [CHR 0x27] @ '';'') = Some []"
proof -
  have "\<exists>p. position c = Some p \<and> 1 \<le> line p \<and> line p \<le> length (splitLines content)
            \<and> 1 \<le> column p
            \<and> \<not> includesStr (substring (splitLines content ! (line p - 1)) 0 (column p - 1)) ''//''
            \<and> (hasStyleKeyword (splitLines content ! (line p - 1))
               \<or> hasCssInJs (splitLines content ! (line p - 1))
               \<or> (rxTest objectPattern noFlags
                      (substring (splitLines content ! (line p - 1)) 0 (column p - 1))
                   \<and> rxTest stylePropertyPattern noFlags (splitLines content ! (line p - 1)))
               \<or> rxTest styleVarPattern noFlags (splitLines content ! (line p - 1))
               \<or> rxTest themeContextPattern noFlags (splitLines content ! (line p - 1)))"
    if "extractFromJavaScript content = Some cs" "c \<in> set cs" for cs c
  proof -
    from extractFromJavaScript_member [OF that] obtain p where
      p: "position c = Some p" "1 \<le> line p" "line p \<le> length (splitLines content)"
        "1 \<le> column p"
        "isStyleContext (splitLines content ! (line p - 1)) (column p - 1)"
      by blast
    from isStyleContext_evidence [OF p(5)] p(1-4) show ?thesis by blast
  qed
  then show ?thesis
    using extractFromJavaScript_total js_example by blast
qed

text \<open>A line with a style variable: the colour of
  \<open>const color = '#ff0000';\<close> is returned, with its evidence.\<close>

lemma js_style_example:
  "extractFromJavaScript (''const color = '' @ [CHR 0x27] @ ''#ff0000'' @ [CHR 0x27] @ '';'')
     = Some [\<lparr>val = ''#ff0000'', fmt = Hex, position = Some \<lparr>line = 1, column = 15\<rparr>,
              ctx = Some (''const color = '' @ [CHR 0x27] @ ''#ff0000'' @ [CHR 0x27] @ '';'')\<rparr>]"
  by code_simp

theorem extractFromJavaScript_style_context_witness:
  "\<exists>p. Some \<lparr>line = 1, column = 15\<rparr> = Some p \<and> 1 \<le> line p \<and> 1 \<le> column p
     \<and> line p \<le> length (splitLines
           (''const color = '' @ [CHR 0x27] @ ''#ff0000'' @ [CHR 0x27] @ '';''))"
  using extractFromJavaScript_style_context
      [of "''const color = '' @ [CHR 0x27] @ ''#ff0000'' @ [CHR 0x27] @ '';''",
       THEN conjunct2, THEN conjunct1, rule_format,
       of "[\<lparr>val = ''#ff0000'', fmt = Hex, position = Some \<lparr>line = 1, column = 15\<rparr>,
              ctx = Some (''const color = '' @ [CHR 0x27] @ ''#ff0000'' @ [CHR 0x27] @ '';'')\<rparr>]"
          "\<lparr>val = ''#ff0000'', fmt = Hex, position = Some \<lparr>line = 1, column = 15\<rparr>,
              ctx = Some (''const color = '' @ [CHR 0x27] @ ''#ff0000'' @ [CHR 0x27] @ '';'')\<rparr>"]
    js_style_example
  by auto

text \<open>
  Claim C7 fails on the Stylus extractor, which stores the index of the match as the
  column where the other extractors store the index plus one.  On the line
  \<open>primary = #ff0000\<close> the variable pattern matches at index 0, and the colour is
  returned with column 0.
\<close>

theorem extractFromStylus_column_zero:
  "extractFromStylus ''primary = #ff0000'' =
     Some [\<lparr>val = ''#ff0000'', fmt = Hex, position = Some \<lparr>line = 1, column = 0\<rparr>,
            ctx = Some ''Stylus variable''\<rparr>,
           \<lparr>val = ''#ff0000'', fmt = Hex, position = Some \<lparr>line = 1, column = 10\<rparr>,
            ctx = Some ''Stylus variable''\<rparr>]"
  by code_simp

subsection \<open>Captures and the shape of a match\<close>

lemma greedyLoop_inv:
  assumes f: "\<And>st st'. st' \<in> set (f st) \<Longrightarrow> g st' = g st"
  shows "st' \<in> set (greedyLoop f n st) \<Longrightarrow> g st' = g st"
proof (induction n arbitrary: st)
  case 0
  then show ?case by simp
next
  case (Suc n)
  from Suc.prems consider "st' = st"
    | st1 where "st1 \<in> set (f st)" "st' \<in> set (greedyLoop f n st1)"
    by auto
  then show ?case
  proof cases
    case 1
    then show ?thesis by simp
  next
    case 2
    from Suc.IH [OF 2(2)] f [OF 2(1)] show ?thesis by simp
  qed
qed

lemma lazyLoop_inv:
  assumes f: "\<And>st st'. st' \<in> set (f st) \<Longrightarrow> g st' = g st"
  shows "st' \<in> set (lazyLoop f n st) \<Longrightarrow> g st' = g st"
proof (induction n arbitrary: st)
  case 0
  then show ?case by simp
next
  case (Suc n)
  from Suc.prems consider "st' = st"
    | st1 where "st1 \<in> set (f st)" "st' \<in> set (lazyLoop f n st1)"
    by auto
  then show ?case
  proof cases
    case 1
    then show ?thesis by simp
  next
    case 2
    from Suc.IH [OF 2(2)] f [OF 2(1)] show ?thesis by simp
  qed
qed

lemma rx_capFree:
  "capFree r \<Longrightarrow> st' \<in> set (rx r fl st) \<Longrightarrow> snd (snd st') = snd (snd st)"
proof (induction r arbitrary: st st')
  case (Chr p)
  then show ?case unfolding rx_Chr_iff by auto
next
  case (Cls neg rs)
  then show ?case unfolding rx_Cls_iff by auto
next
  case (Seq r1 r2)
  from Seq.prems(2) obtain st1 where s: "st1 \<in> set (rx r1 fl st)" "st' \<in> set (rx r2 fl st1)"
    by (rule rx_SeqE)
  from Seq.prems(1) have c: "capFree r1" "capFree r2" by simp_all
  from Seq.IH(1) [OF c(1) s(1)] Seq.IH(2) [OF c(2) s(2)] show ?case by simp
next
  case (Alt r1 r2)
  from Alt.prems have c: "capFree r1" "capFree r2"
    and m: "st' \<in> set (rx r1 fl st) \<or> st' \<in> set (rx r2 fl st)" by simp_all
  from m Alt.IH(1) [OF c(1)] Alt.IH(2) [OF c(2)] show ?case by blast
next
  case (Star r)
  from Star.prems have c: "capFree r" and m: "st' \<in> set (greedyLoop (rx r fl) (remaining st) st)"
    by simp_all
  show ?case
    by (rule greedyLoop_inv [of "rx r fl" "\<lambda>s. snd (snd s)", OF Star.IH [OF c] m])
next
  case (Lazy r)
  from Lazy.prems have c: "capFree r" and m: "st' \<in> set (lazyLoop (rx r fl) (remaining st) st)"
    by simp_all
  show ?case
    by (rule lazyLoop_inv [of "rx r fl" "\<lambda>s. snd (snd s)", OF Lazy.IH [OF c] m])
next
  case Bol
  then show ?case by (cases st) (auto split: list.splits if_splits)
next
  case Eol
  then show ?case by (cases st) (auto split: list.splits if_splits)
next
  case Wordb
  then show ?case by (cases st) (auto split: list.splits if_splits)
qed simp_all

lemma consumed_unique: "consumed st st' w \<Longrightarrow> consumed st st' w' \<Longrightarrow> w = w'"
  by (auto simp: consumed_def)

lemma setCapture_consumed:
  assumes "consumed st st1 w"
  shows "setCapture k st st1 = (fst st1, fst (snd st1), (k, w) # snd (snd st1))"
  using assms by (cases st1) (simp add: consumed_def setCapture_def)

lemma rx_sem:
  "st' \<in> set (rx r fl st) \<Longrightarrow>
     \<exists>w. consumed st st' w \<and> sem r (ignoreCase fl) w (snd (snd st)) (snd (snd st'))"
proof (induction r arbitrary: st st')
  case (Chr p)
  then obtain c aft where "fst (snd st) = c # aft" "chrEq (ignoreCase fl) p c"
    "st' = (c # fst st, aft, snd (snd st))"
    unfolding rx_Chr_iff by blast
  then show ?case
    by (intro exI [of _ "[c]"]) (simp add: consumed_one)
next
  case (Cls neg rs)
  then obtain c aft where "fst (snd st) = c # aft" "clsMember (ignoreCase fl) rs c \<noteq> neg"
    "st' = (c # fst st, aft, snd (snd st))"
    unfolding rx_Cls_iff by blast
  then show ?case
    by (intro exI [of _ "[c]"]) (simp add: consumed_one)
next
  case Eps
  then show ?case by (intro exI [of _ "[]"]) (simp add: consumed_refl)
next
  case (Seq r1 r2)
  from Seq.prems obtain st1 where s: "st1 \<in> set (rx r1 fl st)" "st' \<in> set (rx r2 fl st1)"
    by (rule rx_SeqE)
  from Seq.IH(1) [OF s(1)] obtain w1 where w1: "consumed st st1 w1"
    "sem r1 (ignoreCase fl) w1 (snd (snd st)) (snd (snd st1))" by blast
  from Seq.IH(2) [OF s(2)] obtain w2 where w2: "consumed st1 st' w2"
    "sem r2 (ignoreCase fl) w2 (snd (snd st1)) (snd (snd st'))" by blast
  from consumed_trans [OF w1(1) w2(1)] w1(2) w2(2) show ?case
    by (intro exI [of _ "w1 @ w2"]) auto
next
  case (Alt r1 r2)
  from Alt.prems have "st' \<in> set (rx r1 fl st) \<or> st' \<in> set (rx r2 fl st)" by simp
  then show ?case
  proof
    assume "st' \<in> set (rx r1 fl st)"
    from Alt.IH(1) [OF this] show ?thesis by auto
  next
    assume "st' \<in> set (rx r2 fl st)"
    from Alt.IH(2) [OF this] show ?thesis by auto
  qed
next
  case (Star r)
  from rx_chars [OF Star.prems] obtain w where
    w: "consumed st st' w" "\<forall>c \<in> set w. charOK (ignoreCase fl) (Star r) c" by blast
  have "capFree r \<Longrightarrow> snd (snd st') = snd (snd st)"
    using rx_capFree [OF _ Star.prems] by simp
  with w show ?case by (intro exI [of _ w]) simp
next
  case (Lazy r)
  from rx_chars [OF Lazy.prems] obtain w where
    w: "consumed st st' w" "\<forall>c \<in> set w. charOK (ignoreCase fl) (Lazy r) c" by blast
  have "capFree r \<Longrightarrow> snd (snd st') = snd (snd st)"
    using rx_capFree [OF _ Lazy.prems] by simp
  with w show ?case by (intro exI [of _ w]) simp
next
  case (Grp k r)
  from Grp.prems obtain st1 where s: "st1 \<in> set (rx r fl st)" "st' = setCapture k st st1"
    by auto
  from Grp.IH [OF s(1)] obtain w where w: "consumed st st1 w"
    "sem r (ignoreCase fl) w (snd (snd st)) (snd (snd st1))" by blast
  have e: "st' = (fst st1, fst (snd st1), (k, w) # snd (snd st1))"
    unfolding s(2) by (rule setCapture_consumed [OF w(1)])
  have "consumed st st' w" using w(1) by (simp add: e consumed_def)
  with w(2) show ?case by (intro exI [of _ w]) (simp add: e)
next
  case Bol
  then have "st' = st" by (cases st) (auto split: list.splits if_splits)
  then show ?case by (intro exI [of _ "[]"]) (simp add: consumed_refl)
next
  case Eol
  then have "st' = st" by (cases st) (auto split: list.splits if_splits)
  then show ?case by (intro exI [of _ "[]"]) (simp add: consumed_refl)
next
  case Wordb
  then have "st' = st" by (cases st) (auto split: list.splits if_splits)
  then show ?case by (intro exI [of _ "[]"]) (simp add: consumed_refl)
qed

lemma sem_chars: "sem r ic w cs cs' \<Longrightarrow> \<forall>c \<in> set w. charOK ic r c"
  by (induction r arbitrary: w cs cs') auto

lemma rx_endsWithEol:
  "endsWithEol r \<Longrightarrow> \<not> multiline fl \<Longrightarrow> st' \<in> set (rx r fl st) \<Longrightarrow> fst (snd st') = []"
proof (induction r arbitrary: st st')
  case (Seq r1 r2)
  from Seq.prems(3) obtain st1 where s: "st1 \<in> set (rx r1 fl st)" "st' \<in> set (rx r2 fl st1)"
    by (rule rx_SeqE)
  from Seq.prems(1) have "endsWithEol r2" by simp
  from Seq.IH(2) [OF this Seq.prems(2) s(2)] show ?case .
next
  case (Alt r1 r2)
  from Alt.prems have c: "endsWithEol r1" "endsWithEol r2"
    and m: "st' \<in> set (rx r1 fl st) \<or> st' \<in> set (rx r2 fl st)" by simp_all
  from m Alt.IH(1) [OF c(1) Alt.prems(2)] Alt.IH(2) [OF c(2) Alt.prems(2)] show ?case by blast
next
  case (Grp k r)
  from Grp.prems(3) obtain st1 where s: "st1 \<in> set (rx r fl st)" "st' = setCapture k st st1"
    by auto
  have "fst (snd (setCapture k st st1)) = fst (snd st1)"
    by (cases st1) (simp add: setCapture_def)
  with Grp.IH [OF _ Grp.prems(2) s(1)] Grp.prems(1) s(2) show ?case by simp
next
  case Eol
  then show ?case by (cases st) (auto split: list.splits if_splits)
qed simp_all

text \<open>A match found by searching: the input splits into what precedes the match,
  the match and the rest.\<close>

lemma rxMatch_sem:
  assumes "rxMatch r fl v = Some m"
  shows "\<exists>pre w post. v = pre @ w @ post \<and> sem r (ignoreCase fl) w [] (groups m)
           \<and> matched m = w \<and> index m = length pre"
proof -
  from assms obtain bef' aft' where "rxSearch r fl [] v = Some (m, bef', aft')"
    by (auto simp: rxMatch_def)
  from rxSearch_Some [OF this] obtain pre post st' rest where
    p: "v = pre @ post" "rx r fl (rev pre @ [], post, []) = st' # rest"
      "m = mkMatch (rev pre @ []) st'" by blast
  then have "st' \<in> set (rx r fl (rev pre, post, []))" by simp
  from rx_sem [OF this] obtain w where
    w: "consumed (rev pre, post, []) st' w" "sem r (ignoreCase fl) w [] (snd (snd st'))"
    by auto
  from w(1) have "fst st' = rev w @ rev pre" "post = w @ fst (snd st')"
    by (simp_all add: consumed_def)
  then show ?thesis
    using p w(2)
    by (intro exI [of _ pre] exI [of _ w] exI [of _ "fst (snd st')"]) (simp add: mkMatch_def)
qed

text \<open>A pattern anchored at both ends, without the flag \<open>m\<close>, matches the whole input.\<close>

lemma rx_Bol_Seq:
  "\<not> multiline fl \<Longrightarrow> bef \<noteq> [] \<Longrightarrow> rx (Seq Bol r) fl (bef, aft, cs) = []"
  by (cases bef) simp_all

lemma rxMatch_anchored:
  assumes "rxMatch (Seq Bol r) fl v = Some m" "endsWithEol r" "\<not> multiline fl"
  shows "sem r (ignoreCase fl) v [] (groups m)"
proof -
  from assms(1) obtain bef' aft' where "rxSearch (Seq Bol r) fl [] v = Some (m, bef', aft')"
    by (auto simp: rxMatch_def)
  from rxSearch_Some [OF this] obtain pre post st' rest where
    p: "v = pre @ post" "rx (Seq Bol r) fl (rev pre @ [], post, []) = st' # rest"
      "m = mkMatch (rev pre @ []) st'" by blast
  have pre: "pre = []"
  proof (rule ccontr)
    assume "pre \<noteq> []"
    then have "rx (Seq Bol r) fl (rev pre, post, []) = []"
      using assms(3) by (intro rx_Bol_Seq) simp_all
    with p(2) show False by simp
  qed
  with p have "st' \<in> set (rx r fl ([], v, []))" by auto
  from rx_sem [OF this] rx_endsWithEol [OF assms(2) assms(3) this]
  obtain w where "consumed ([], v, []) st' w" "sem r (ignoreCase fl) w [] (snd (snd st'))"
    "fst (snd st') = []" by auto
  then show ?thesis using p(3) by (simp add: consumed_def mkMatch_def)
qed

subsection \<open>The patterns of the analyser\<close>

lemma hexLower_member: "clsMember True [(CHR ''0'', CHR ''9''), (CHR ''a'', CHR ''f'')] c = isHexChar c"
  by (auto simp: clsMember_def inRange_def isHexChar_def isDigit_def code_def lowerAscii_def
        upperAscii_def isUpperAscii_def isLowerAscii_def)

lemma hexToHSL_member: "clsMember True [(CHR ''a'', CHR ''f''), (CHR ''0'', CHR ''9'')] c = isHexChar c"
  by (auto simp: clsMember_def inRange_def isHexChar_def isDigit_def code_def lowerAscii_def
        upperAscii_def isUpperAscii_def isLowerAscii_def)

lemma digit_member: "clsMember ic [(CHR ''0'', CHR ''9'')] c = isDigit c"
  by (auto simp: clsMember_def inRange_def isDigit_def code_def lowerAscii_def
        upperAscii_def isUpperAscii_def isLowerAscii_def)

lemma flags_simps [simp]:
  "ignoreCase flagI = True" "multiline flagI = False"
  "ignoreCase noFlags = False" "multiline noFlags = False"
  by (simp_all add: flagI_def noFlags_def)

lemma times_unfold:
  "times 2 r = Seq r (Seq r Eps)"
  "times 3 r = Seq r (Seq r (Seq r Eps))"
  "times 6 r = Seq r (Seq r (Seq r (Seq r (Seq r (Seq r Eps)))))"
  "times 8 r = Seq r (Seq r (Seq r (Seq r (Seq r (Seq r (Seq r (Seq r Eps)))))))"
  by (simp_all add: eval_nat_numeral)

lemma lowerAscii_upper: "isUpperAscii c \<Longrightarrow> isLowerAscii (lowerAscii c)"
  by (simp add: lowerAscii_def isUpperAscii_def isLowerAscii_def code_def)

lemma lowerAscii_other: "\<not> isUpperAscii c \<Longrightarrow> lowerAscii c = c"
  by (simp add: lowerAscii_def)

lemma chrEq_plain:
  assumes "\<not> isLowerAscii p" "\<not> isUpperAscii p"
  shows "chrEq ic p c \<longleftrightarrow> c = p"
proof (cases "isUpperAscii c")
  case True
  from lowerAscii_upper [OF True] assms show ?thesis
    using True by (auto simp: chrEq_def lowerAscii_other)
next
  case False
  with assms show ?thesis by (auto simp: chrEq_def lowerAscii_other)
qed

lemma chrEq_letter:
  assumes "isLowerAscii p"
  shows "chrEq True p c \<longleftrightarrow> lowerAscii c = p"
proof -
  have "\<not> isUpperAscii p" using assms by (simp add: isLowerAscii_def isUpperAscii_def)
  then show ?thesis by (auto simp: chrEq_def lowerAscii_other)
qed

lemma plain_chars:
  "\<not> isLowerAscii CHR ''#''" "\<not> isUpperAscii CHR ''#''"
  "\<not> isLowerAscii CHR ''(''" "\<not> isUpperAscii CHR ''(''"
  "\<not> isLowerAscii CHR '')''" "\<not> isUpperAscii CHR '')''"
  "\<not> isLowerAscii CHR '',''" "\<not> isUpperAscii CHR '',''"
  "\<not> isLowerAscii CHR ''%''" "\<not> isUpperAscii CHR ''%''"
  by (simp_all add: isLowerAscii_def isUpperAscii_def code_def)

lemma hex36_shape:
  assumes "rxMatch hex36_re flagI v = Some m"
  shows "\<exists>ds. v = CHR ''#'' # ds \<and> (length ds = 3 \<or> length ds = 6) \<and> list_all isHexChar ds"
proof -
  have "sem (seqs [Chr CHR ''#'', Grp 1 (Alt (times 3 hexDigitLower) (times 6 hexDigitLower)), Eol])
          (ignoreCase flagI) v [] (groups m)"
    by (rule rxMatch_anchored) (use assms in \<open>simp_all add: hex36_re_def\<close>)
  then show ?thesis
    by (auto simp: times_unfold hexDigitLower_def hexLower_member chrEq_plain plain_chars)
qed

text \<open>The captures of the pattern of \<open>hexToHSL\<close> are three pairs of hex digits.\<close>

lemma hexToHSL_re_shape:
  assumes "rxMatch hexToHSL_re flagI v = Some m"
  shows "\<exists>c1 c2 c3 c4 c5 c6. groups m = [(3, [c5, c6]), (2, [c3, c4]), (1, [c1, c2])]
           \<and> list_all isHexChar [c1, c2, c3, c4, c5, c6]
           \<and> (v = [c1, c2, c3, c4, c5, c6] \<or> v = [CHR ''#'', c1, c2, c3, c4, c5, c6])"
proof -
  have "sem (seqs [opt (Chr CHR ''#''), Grp 1 hexPair, Grp 2 hexPair, Grp 3 hexPair, Eol])
          (ignoreCase flagI) v [] (groups m)"
    by (rule rxMatch_anchored) (use assms in \<open>simp_all add: hexToHSL_re_def\<close>)
  then show ?thesis
    by (auto simp: times_unfold hexPair_def opt_def hexToHSL_member chrEq_plain plain_chars)
qed

text \<open>The captures of the pattern for \<open>hsl(...)\<close> are three strings of digits, and the
  match starts with the letters \<open>hsl\<close>, in either case, and a parenthesis.\<close>

lemma plus_digit_sem:
  "sem (plus digit) ic w cs cs' \<Longrightarrow> isDigits w \<and> cs' = cs"
  by (auto simp: plus_def digit_def digit_member isDigits_def list_all_iff)

lemma spaces_capFree: "sem spaces ic w cs cs' \<Longrightarrow> cs' = cs"
  by (simp add: spaces_def space_def)

lemma hsl_re_shape:
  assumes "rxMatch hsl_re flagI v = Some m"
  shows "\<exists>d1 d2 d3 pre c1 c2 c3 rest.
           groups m = [(3, d3), (2, d2), (1, d1)] \<and> isDigits d1 \<and> isDigits d2 \<and> isDigits d3
           \<and> v = pre @ c1 # c2 # c3 # CHR ''('' # rest
           \<and> lowerAscii c1 = CHR ''h'' \<and> lowerAscii c2 = CHR ''s'' \<and> lowerAscii c3 = CHR ''l''"
proof -
  from rxMatch_sem [OF assms] obtain pre w post where
    v: "v = pre @ w @ post" and s: "sem hsl_re True w [] (groups m)" by auto
  have l: "isLowerAscii CHR ''h''" "isLowerAscii CHR ''s''" "isLowerAscii CHR ''l''"
    by (simp_all add: isLowerAscii_def code_def)
  from s obtain d1 d2 d3 c1 c2 c3 rest where
    "groups m = [(3, d3), (2, d2), (1, d1)]" "isDigits d1" "isDigits d2" "isDigits d3"
    "w = c1 # c2 # c3 # CHR ''('' # rest"
    "lowerAscii c1 = CHR ''h''" "lowerAscii c2 = CHR ''s''" "lowerAscii c3 = CHR ''l''"
    unfolding hsl_re_def lit_def
    by (auto simp: chrEq_plain plain_chars chrEq_letter l dest!: spaces_capFree plus_digit_sem)
  with v show ?thesis by (intro exI [of _ d1] exI [of _ d2] exI [of _ d3] exI [of _ pre]) auto
qed


end
